theory Spec2Isabelle
  imports Complex_Main
begin

section \<open>Abstract visualizer: numbers, vectors and enumerations\<close>

text \<open>
  The development embeds \<^verbatim>\<open>src/engine/engine_vis_visualize.c\<close>. The C types
  \<^verbatim>\<open>mjtNum\<close> (double) and \<^verbatim>\<open>float\<close> are both read as \<^typ>\<open>real\<close>: arithmetic is
  exact, the conversions between the two are the identity, and rounding is not modelled.
  Fixed-size C arrays are tuples (row-major for the 3x3 matrices); the arrays of the model and
  of the simulation state are functions from the C index to the entry, so that the index
  arithmetic of the source (\<^verbatim>\<open>3*i+1\<close>, \<^verbatim>\<open>9*j\<close>) stays visible.
\<close>

type_synonym vec3 = "real \<times> real \<times> real"
type_synonym vec4 = "real \<times> real \<times> real \<times> real"
type_synonym mat33 = "real \<times> real \<times> real \<times> real \<times> real \<times> real \<times> real \<times> real \<times> real"

text \<open>Pointer arithmetic on flat arrays: \<^verbatim>\<open>a + off\<close> read as 2, 3, 4, 6 or 9 numbers.\<close>

definition at2 :: "(int \<Rightarrow> real) \<Rightarrow> int \<Rightarrow> real \<times> real" where
  "at2 a off = (a off, a (off + 1))"

definition at3 :: "(int \<Rightarrow> real) \<Rightarrow> int \<Rightarrow> vec3" where
  "at3 a off = (a off, a (off + 1), a (off + 2))"

definition at4 :: "(int \<Rightarrow> real) \<Rightarrow> int \<Rightarrow> vec4" where
  "at4 a off = (a off, a (off + 1), a (off + 2), a (off + 3))"

definition at9 :: "(int \<Rightarrow> real) \<Rightarrow> int \<Rightarrow> mat33" where
  "at9 a off = (a off, a (off + 1), a (off + 2), a (off + 3), a (off + 4), a (off + 5),
                a (off + 6), a (off + 7), a (off + 8))"

text \<open>The identity matrix \<^verbatim>\<open>IDENTITY\<close> of the source.\<close>

definition IDENTITY :: mat33 where
  "IDENTITY = (1, 0, 0, 0, 1, 0, 0, 0, 1)"

subsection \<open>Enumerations and macros declared in the headers\<close>

text \<open>
  The enumerations live in \<^verbatim>\<open>mjmodel.h\<close> and \<^verbatim>\<open>mjvisualize.h\<close>. Each is a datatype
  with one constructor per enumerator the source names; integer-typed fields that the source
  checks against an enumeration and rejects otherwise get one more constructor for every
  other value.
\<close>

datatype mjtGeom =
    mjGEOM_PLANE | mjGEOM_HFIELD | mjGEOM_SPHERE | mjGEOM_CAPSULE | mjGEOM_ELLIPSOID
  | mjGEOM_CYLINDER | mjGEOM_BOX | mjGEOM_MESH
  | mjGEOM_ARROW | mjGEOM_ARROW1 | mjGEOM_ARROW2 | mjGEOM_LINE | mjGEOM_SKIN | mjGEOM_LABEL
  | mjGEOM_NONE

datatype mjtObj =
    mjOBJ_UNKNOWN | mjOBJ_BODY | mjOBJ_JOINT | mjOBJ_GEOM | mjOBJ_SITE | mjOBJ_CAMERA
  | mjOBJ_LIGHT | mjOBJ_TENDON | mjOBJ_ACTUATOR | mjOBJ_EQUALITY | mjOBJ_SKIN

datatype mjtCatBit = mjCAT_STATIC | mjCAT_DYNAMIC | mjCAT_DECOR

datatype mjtJoint = mjJNT_FREE | mjJNT_BALL | mjJNT_SLIDE | mjJNT_HINGE | mjJNT_other int

datatype mjtTrn =
    mjTRN_JOINT | mjTRN_JOINTINPARENT | mjTRN_SLIDERCRANK | mjTRN_TENDON | mjTRN_SITE
  | mjTRN_UNDEFINED

datatype mjtCamera =
    mjCAMERA_FREE | mjCAMERA_TRACKING | mjCAMERA_FIXED | mjCAMERA_USER | mjCAMERA_other int

datatype mjtLabel =
    mjLABEL_NONE | mjLABEL_BODY | mjLABEL_JOINT | mjLABEL_GEOM | mjLABEL_SITE | mjLABEL_CAMERA
  | mjLABEL_LIGHT | mjLABEL_TENDON | mjLABEL_ACTUATOR | mjLABEL_CONSTRAINT | mjLABEL_SKIN
  | mjLABEL_SELECTION | mjLABEL_SELPNT | mjLABEL_CONTACTFORCE

datatype mjtFrame =
    mjFRAME_NONE | mjFRAME_BODY | mjFRAME_GEOM | mjFRAME_SITE | mjFRAME_CAMERA | mjFRAME_LIGHT
  | mjFRAME_CONTACT | mjFRAME_WORLD

datatype mjtVisFlag =
    mjVIS_CONVEXHULL | mjVIS_TEXTURE | mjVIS_JOINT | mjVIS_ACTUATOR | mjVIS_ACTIVATION
  | mjVIS_CAMERA | mjVIS_LIGHT | mjVIS_TENDON | mjVIS_RANGEFINDER | mjVIS_CONSTRAINT
  | mjVIS_INERTIA | mjVIS_SCLINERTIA | mjVIS_PERTFORCE | mjVIS_PERTOBJ | mjVIS_CONTACTPOINT
  | mjVIS_CONTACTFORCE | mjVIS_CONTACTSPLIT | mjVIS_TRANSPARENT | mjVIS_AUTOCONNECT | mjVIS_COM
  | mjVIS_SELECT | mjVIS_STATIC | mjVIS_SKIN

datatype mjtPertBit = mjPERT_TRANSLATE | mjPERT_ROTATE

datatype mjtSensor = mjSENS_RANGEFINDER | mjSENS_other

datatype mjtEq = mjEQ_CONNECT | mjEQ_other

text \<open>
  Modelled from the spec: the macro \<^verbatim>\<open>mjMINVAL\<close> of \<^verbatim>\<open>mjmodel.h\<close> is not under src/. It is
  the spec's "minimum-value floor" against which near-zero quantities are clamped; the
  theorems below use only that it is positive.
\<close>

definition mjMINVAL :: real where
  "mjMINVAL = 1 / 10 ^ 15"

text \<open>
  Modelled from the spec: the macro \<^verbatim>\<open>mjNGROUP\<close> of \<^verbatim>\<open>mjvisualize.h\<close> is not under src/.
  It is the number of entries of each per-category visibility-group bitset of the options.
\<close>

definition mjNGROUP :: int where
  "mjNGROUP = 6"

text \<open>The macros \<^verbatim>\<open>mjMAX\<close> and \<^verbatim>\<open>mjMIN\<close> of \<^verbatim>\<open>engine_macro.h\<close>.\<close>

definition mjMAX :: "'a::linorder \<Rightarrow> 'a \<Rightarrow> 'a" where
  "mjMAX a b = (if a > b then a else b)"

definition mjMIN :: "'a::linorder \<Rightarrow> 'a \<Rightarrow> 'a" where
  "mjMIN a b = (if a < b then a else b)"

subsection \<open>Vector and quaternion utilities\<close>

text \<open>
  Modelled from the spec: the \<^verbatim>\<open>mju_\<close> utilities of \<^verbatim>\<open>engine_util_blas.c\<close> and
  \<^verbatim>\<open>engine_util_spatial.c\<close> are not under src/. The source calls them for the Euclidean norm,
  dot and cross product, scaling and addition of 3-vectors, the product of a 3x3 matrix
  with a vector and the transpose.
\<close>

fun mju_norm3 :: "vec3 \<Rightarrow> real" where
  "mju_norm3 (x, y, z) = sqrt (x * x + y * y + z * z)"

fun mju_dot3 :: "vec3 \<Rightarrow> vec3 \<Rightarrow> real" where
  "mju_dot3 (a0, a1, a2) (b0, b1, b2) = a0 * b0 + a1 * b1 + a2 * b2"

fun mju_cross :: "vec3 \<Rightarrow> vec3 \<Rightarrow> vec3" where
  "mju_cross (a0, a1, a2) (b0, b1, b2) =
     (a1 * b2 - a2 * b1, a2 * b0 - a0 * b2, a0 * b1 - a1 * b0)"

fun mju_scl3 :: "vec3 \<Rightarrow> real \<Rightarrow> vec3" where
  "mju_scl3 (x, y, z) s = (x * s, y * s, z * s)"

fun mju_add3 :: "vec3 \<Rightarrow> vec3 \<Rightarrow> vec3" where
  "mju_add3 (a0, a1, a2) (b0, b1, b2) = (a0 + b0, a1 + b1, a2 + b2)"

fun mju_sub3 :: "vec3 \<Rightarrow> vec3 \<Rightarrow> vec3" where
  "mju_sub3 (a0, a1, a2) (b0, b1, b2) = (a0 - b0, a1 - b1, a2 - b2)"

text \<open>\<^verbatim>\<open>mju_addScl3(res, a, b, s)\<close>: \<^verbatim>\<open>res = a + b*s\<close>.\<close>

definition mju_addScl3 :: "vec3 \<Rightarrow> vec3 \<Rightarrow> real \<Rightarrow> vec3" where
  "mju_addScl3 a b s = mju_add3 a (mju_scl3 b s)"

text \<open>\<^verbatim>\<open>mju_mulMatVec(res, mat, vec, 3, 3)\<close> and \<^verbatim>\<open>mju_rotVecMat(res, vec, mat)\<close>: \<^verbatim>\<open>mat * vec\<close>.\<close>

fun mju_mulMatVec :: "mat33 \<Rightarrow> vec3 \<Rightarrow> vec3" where
  "mju_mulMatVec (m0, m1, m2, m3, m4, m5, m6, m7, m8) (x, y, z) =
     (m0 * x + m1 * y + m2 * z, m3 * x + m4 * y + m5 * z, m6 * x + m7 * y + m8 * z)"

definition mju_rotVecMat :: "vec3 \<Rightarrow> mat33 \<Rightarrow> vec3" where
  "mju_rotVecMat v m = mju_mulMatVec m v"

fun mju_transpose :: "mat33 \<Rightarrow> mat33" where
  "mju_transpose (m0, m1, m2, m3, m4, m5, m6, m7, m8) = (m0, m3, m6, m1, m4, m7, m2, m5, m8)"

text \<open>
  Modelled from the spec: \<^verbatim>\<open>mju_quat2Mat\<close>, \<^verbatim>\<open>mju_negQuat\<close> and \<^verbatim>\<open>mju_mulQuat\<close> are not
  under src/. They are the rotation matrix of a quaternion (scalar part first), the conjugate
  ("the inverse of the bind-pose orientation") and the quaternion product ("composed with").
\<close>

fun mju_quat2Mat :: "vec4 \<Rightarrow> mat33" where
  "mju_quat2Mat (q0, q1, q2, q3) =
     (q0 * q0 + q1 * q1 - q2 * q2 - q3 * q3, 2 * (q1 * q2 - q0 * q3), 2 * (q1 * q3 + q0 * q2),
      2 * (q1 * q2 + q0 * q3), q0 * q0 - q1 * q1 + q2 * q2 - q3 * q3, 2 * (q2 * q3 - q0 * q1),
      2 * (q1 * q3 - q0 * q2), 2 * (q2 * q3 + q0 * q1), q0 * q0 - q1 * q1 - q2 * q2 + q3 * q3)"

fun mju_negQuat :: "vec4 \<Rightarrow> vec4" where
  "mju_negQuat (q0, q1, q2, q3) = (q0, - q1, - q2, - q3)"

fun mju_mulQuat :: "vec4 \<Rightarrow> vec4 \<Rightarrow> vec4" where
  "mju_mulQuat (a0, a1, a2, a3) (b0, b1, b2, b3) =
     (a0 * b0 - a1 * b1 - a2 * b2 - a3 * b3,
      a0 * b1 + a1 * b0 + a2 * b3 - a3 * b2,
      a0 * b2 - a1 * b3 + a2 * b0 + a3 * b1,
      a0 * b3 + a1 * b2 - a2 * b1 + a3 * b0)"

text \<open>
  Modelled from the spec: \<^verbatim>\<open>mju_quatZ2Vec\<close> is not under src/. Following the spec, it is the
  quaternion of "the minimal rotation mapping the primitive's local main axis to the direction
  of \<open>d\<close> (zero rotation when \<open>d\<close> is zero-length)": the rotation about \<open>z \<times> d\<close> by the
  angle between the z axis and \<open>d\<close>, written with the half-angle formulas; for \<open>d\<close> opposite
  to the z axis, where every half turn about a horizontal axis is minimal, the half turn
  about the x axis.
\<close>

definition mju_quatZ2Vec :: "vec3 \<Rightarrow> vec4" where
  "mju_quatZ2Vec vec =
     (let n = mju_norm3 vec in
      if n = 0 then (1, 0, 0, 0)
      else (case mju_scl3 vec (1 / n) of (x, y, z) \<Rightarrow>
        if x = 0 \<and> y = 0 then (if z < 0 then (0, 1, 0, 0) else (1, 0, 0, 0))
        else (let s = sqrt (2 * (1 + z)) in (s / 2, - y / s, x / s, 0))))"

section \<open>The primitive (\<^verbatim>\<open>mjvGeom\<close>) and its factory\<close>

text \<open>
  A text label is kept by what is printed into it: nothing, the name of an object
  (\<^verbatim>\<open>makeLabel\<close>), the norm of a contact force, or the selection point with its local
  coordinates.
\<close>

datatype vlabel =
    NoLabel
  | ObjLabel mjtObj int
  | ForceLabel real
  | SelPntLabel vec3 vec3

record mjvGeom =
  type :: mjtGeom
  dataid :: int
  objtype :: mjtObj
  objid :: int
  category :: mjtCatBit
  texid :: int
  texuniform :: int
  texcoord :: int
  segid :: int
  texrepeat :: "real \<times> real"
  size3 :: vec3
  pos :: vec3
  mat :: mat33
  rgba :: vec4
  emission :: real
  specular :: real
  shininess :: real
  reflectance :: real
  label :: vlabel
  modelrbound :: real

text \<open>\<^verbatim>\<open>makeLabel\<close>: the label is the name of the object, or its type and id.\<close>

definition makeLabel :: "mjtObj \<Rightarrow> int \<Rightarrow> mjvGeom \<Rightarrow> mjvGeom" where
  "makeLabel ty i g = g\<lparr>label := ObjLabel ty i\<rparr>"

text \<open>
  \<^verbatim>\<open>mjv_initGeom\<close>: the four pointer arguments may be \<^verbatim>\<open>NULL\<close>, hence the options. The
  fields \<^verbatim>\<open>objtype\<close>, \<^verbatim>\<open>objid\<close>, \<^verbatim>\<open>category\<close> and \<^verbatim>\<open>segid\<close> are not touched.
\<close>

definition mjv_initGeom ::
  "mjvGeom \<Rightarrow> mjtGeom \<Rightarrow> vec3 option \<Rightarrow> vec3 option \<Rightarrow> mat33 option \<Rightarrow> vec4 option \<Rightarrow> mjvGeom" where
  "mjv_initGeom geom ty sz ps mt col =
     geom\<lparr> type := ty,
            size3 := (case sz of
                Some (s0, s1, s2) \<Rightarrow>
                  (if ty = mjGEOM_SPHERE then (s0, s0, s0)
                   else if ty = mjGEOM_CAPSULE then (s0, s0, s1)
                   else if ty = mjGEOM_CYLINDER then (s0, s0, s1)
                   else (s0, s1, s2))
              | None \<Rightarrow> (1 / 10, 1 / 10, 1 / 10)),
            pos := (case ps of Some p \<Rightarrow> p | None \<Rightarrow> (0, 0, 0)),
            mat := (case mt of Some m \<Rightarrow> m | None \<Rightarrow> (1, 0, 0, 0, 1, 0, 0, 0, 1)),
            rgba := (case col of Some c \<Rightarrow> c | None \<Rightarrow> (1 / 2, 1 / 2, 1 / 2, 1)),
            dataid := - 1,
            texid := - 1,
            texuniform := 0,
            texcoord := 0,
            texrepeat := (1, 1),
            emission := 0,
            specular := 1 / 2,
            shininess := 1 / 2,
            reflectance := 0,
            label := NoLabel,
            modelrbound := 0 \<rparr>"

text \<open>A geom with the default fields, as \<^verbatim>\<open>mjv_initGeom\<close> leaves them.\<close>

definition geom0 :: mjvGeom where
  "geom0 = \<lparr> type = mjGEOM_NONE, dataid = - 1, objtype = mjOBJ_UNKNOWN, objid = 0,
             category = mjCAT_DECOR, texid = - 1, texuniform = 0, texcoord = 0, segid = 0,
             texrepeat = (1, 1), size3 = (1 / 10, 1 / 10, 1 / 10), pos = (0, 0, 0),
             mat = (1, 0, 0, 0, 1, 0, 0, 0, 1), rgba = (1 / 2, 1 / 2, 1 / 2, 1),
             emission = 0, specular = 1 / 2, shininess = 1 / 2, reflectance = 0,
             label = NoLabel, modelrbound = 0 \<rparr>"

text \<open>
  Fatal errors (\<^verbatim>\<open>mju_error\<close>, \<^verbatim>\<open>mju_error_i\<close>): the call does not return, so a function
  that may raise one returns a sum with the error on the left.
\<close>

datatype fatal =
    Invalid_connector_type mjtGeom
  | Unknown_joint_type int
  | Track_body_id_out_of_range
  | Fixed_camera_id_out_of_range
  | Unknown_camera_type

text \<open>\<^verbatim>\<open>mjv_makeConnector\<close>, on a geom that \<^verbatim>\<open>mjv_initGeom\<close> has set up.\<close>

definition connector_compatible :: "mjtGeom \<Rightarrow> bool" where
  "connector_compatible ty \<longleftrightarrow>
     \<not> (ty \<noteq> mjGEOM_CAPSULE \<and> ty \<noteq> mjGEOM_CYLINDER \<and> ty \<noteq> mjGEOM_ARROW \<and> ty \<noteq> mjGEOM_ARROW1
        \<and> ty \<noteq> mjGEOM_ARROW2 \<and> ty \<noteq> mjGEOM_LINE)"

definition mjv_makeConnector ::
  "mjvGeom \<Rightarrow> mjtGeom \<Rightarrow> real \<Rightarrow> vec3 \<Rightarrow> vec3 \<Rightarrow> fatal + mjvGeom" where
  "mjv_makeConnector geom ty width a b =
     (case (a, b) of ((a0, a1, a2), (b0, b1, b2)) \<Rightarrow>
      let dif = (b0 - a0, b1 - a1, b2 - a2) in
      if \<not> connector_compatible ty then Inl (Invalid_connector_type ty)
      else
        let n = mju_norm3 dif;
            centered = (ty = mjGEOM_CAPSULE \<or> ty = mjGEOM_CYLINDER)
        in Inr (geom\<lparr> type := ty,
                       size3 := (width, width, if centered then n * (1 / 2) else n),
                       pos := (if centered
                               then (1 / 2 * (a0 + b0), 1 / 2 * (a1 + b1), 1 / 2 * (a2 + b2))
                               else (a0, a1, a2)),
                       mat := mju_quat2Mat (mju_quatZ2Vec dif) \<rparr>))"

section \<open>Model, simulation state, options and scene\<close>

text \<open>
  The structs of \<^verbatim>\<open>mjmodel.h\<close>, \<^verbatim>\<open>mjdata.h\<close> and \<^verbatim>\<open>mjvisualize.h\<close>, restricted to
  the fields the source reads or writes. The nested structs \<^verbatim>\<open>vis.global\<close>, \<^verbatim>\<open>vis.map\<close>,
  \<^verbatim>\<open>vis.scale\<close>, \<^verbatim>\<open>vis.headlight\<close> and \<^verbatim>\<open>vis.rgba\<close> are flattened into \<open>mjVisual\<close>,
  the struct name becoming a prefix. Byte-valued flags are booleans.
\<close>

record mjVisual =
  global_fovy :: real
  global_ipd :: real
  global_glow :: real
  map_force :: real
  map_alpha :: real
  map_znear :: real
  map_zfar :: real
  map_actuatortendon :: real
  scale_forcewidth :: real
  scale_contactwidth :: real
  scale_contactheight :: real
  scale_connect :: real
  scale_com :: real
  scale_camera :: real
  scale_light :: real
  scale_selectpoint :: real
  scale_jointlength :: real
  scale_jointwidth :: real
  scale_actuatorlength :: real
  scale_actuatorwidth :: real
  scale_framelength :: real
  scale_framewidth :: real
  scale_constraint :: real
  scale_slidercrank :: real
  headlight_active :: bool
  headlight_ambient :: vec3
  headlight_diffuse :: vec3
  headlight_specular :: vec3
  rgba_joint :: vec4
  rgba_actuator :: vec4
  rgba_actuatornegative :: vec4
  rgba_actuatorpositive :: vec4
  rgba_com :: vec4
  rgba_camera :: vec4
  rgba_light :: vec4
  rgba_selectpoint :: vec4
  rgba_connect :: vec4
  rgba_contactpoint :: vec4
  rgba_contactforce :: vec4
  rgba_contactfriction :: vec4
  rgba_contactgap :: vec4
  rgba_rangefinder :: vec4
  rgba_constraint :: vec4
  rgba_slidercrank :: vec4
  rgba_crankbroken :: vec4
  rgba_inertia :: vec4
  rgba_force :: vec4

record mjStatistic =
  meansize :: real
  meanmass :: real
  extent :: real

text \<open>
  \<open>eq_data i k\<close> is \<^verbatim>\<open>m->eq_data[mjNEQDATA*i + k]\<close>; the model's own \<^verbatim>\<open>ngeom\<close> and
  \<^verbatim>\<open>nlight\<close> carry the suffix \<open>_m\<close>, the scene has fields of the same names.
\<close>

record mjModel =
  nbody :: int
  njnt :: int
  ngeom_m :: int
  nsite :: int
  ncam :: int
  nlight_m :: int
  ntendon :: int
  nu :: int
  na :: int
  nskin :: int
  neq :: int
  nsensor :: int
  body_weldid :: "int \<Rightarrow> int"
  body_mocapid :: "int \<Rightarrow> int"
  body_rootid :: "int \<Rightarrow> int"
  body_parentid :: "int \<Rightarrow> int"
  body_jntnum :: "int \<Rightarrow> int"
  body_jntadr :: "int \<Rightarrow> int"
  body_mass :: "int \<Rightarrow> real"
  body_inertia :: "int \<Rightarrow> real"
  jnt_group :: "int \<Rightarrow> int"
  jnt_bodyid :: "int \<Rightarrow> int"
  jnt_type :: "int \<Rightarrow> mjtJoint"
  actuator_group :: "int \<Rightarrow> int"
  actuator_ctrllimited :: "int \<Rightarrow> bool"
  actuator_ctrlrange :: "int \<Rightarrow> real"
  actuator_actlimited :: "int \<Rightarrow> bool"
  actuator_actrange :: "int \<Rightarrow> real"
  actuator_dyntype :: "int \<Rightarrow> int"
  actuator_trnid :: "int \<Rightarrow> int"
  actuator_trntype :: "int \<Rightarrow> mjtTrn"
  actuator_cranklength :: "int \<Rightarrow> real"
  site_size :: "int \<Rightarrow> real"
  site_type :: "int \<Rightarrow> mjtGeom"
  site_bodyid :: "int \<Rightarrow> int"
  site_group :: "int \<Rightarrow> int"
  site_matid :: "int \<Rightarrow> int"
  site_rgba :: "int \<Rightarrow> real"
  geom_type :: "int \<Rightarrow> mjtGeom"
  geom_bodyid :: "int \<Rightarrow> int"
  geom_group :: "int \<Rightarrow> int"
  geom_dataid :: "int \<Rightarrow> int"
  geom_matid :: "int \<Rightarrow> int"
  geom_size :: "int \<Rightarrow> real"
  geom_rgba :: "int \<Rightarrow> real"
  geom_rbound :: "int \<Rightarrow> real"
  mesh_texcoordadr :: "int \<Rightarrow> int"
  mesh_graphadr :: "int \<Rightarrow> int"
  mat_texrepeat :: "int \<Rightarrow> real"
  mat_rgba :: "int \<Rightarrow> real"
  mat_texuniform :: "int \<Rightarrow> int"
  mat_emission :: "int \<Rightarrow> real"
  mat_specular :: "int \<Rightarrow> real"
  mat_shininess :: "int \<Rightarrow> real"
  mat_reflectance :: "int \<Rightarrow> real"
  mat_texid :: "int \<Rightarrow> int"
  tendon_width :: "int \<Rightarrow> real"
  tendon_matid :: "int \<Rightarrow> int"
  tendon_group :: "int \<Rightarrow> int"
  tendon_rgba :: "int \<Rightarrow> real"
  skin_matid :: "int \<Rightarrow> int"
  skin_rgba :: "int \<Rightarrow> real"
  skin_inflate :: "int \<Rightarrow> real"
  skin_texcoordadr :: "int \<Rightarrow> int"
  skin_vertadr :: "int \<Rightarrow> int"
  skin_vertnum :: "int \<Rightarrow> int"
  skin_faceadr :: "int \<Rightarrow> int"
  skin_facenum :: "int \<Rightarrow> int"
  skin_boneadr :: "int \<Rightarrow> int"
  skin_bonenum :: "int \<Rightarrow> int"
  skin_vert :: "int \<Rightarrow> real"
  skin_face :: "int \<Rightarrow> int"
  skin_bonevertadr :: "int \<Rightarrow> int"
  skin_bonevertnum :: "int \<Rightarrow> int"
  skin_bonebindpos :: "int \<Rightarrow> real"
  skin_bonebindquat :: "int \<Rightarrow> real"
  skin_bonebodyid :: "int \<Rightarrow> int"
  skin_bonevertid :: "int \<Rightarrow> int"
  skin_bonevertweight :: "int \<Rightarrow> real"
  sensor_type :: "int \<Rightarrow> mjtSensor"
  sensor_adr :: "int \<Rightarrow> int"
  sensor_objid :: "int \<Rightarrow> int"
  eq_active :: "int \<Rightarrow> bool"
  eq_type :: "int \<Rightarrow> mjtEq"
  eq_obj1id :: "int \<Rightarrow> int"
  eq_obj2id :: "int \<Rightarrow> int"
  eq_data :: "int \<Rightarrow> int \<Rightarrow> real"
  light_active :: "int \<Rightarrow> bool"
  light_directional :: "int \<Rightarrow> bool"
  light_castshadow :: "int \<Rightarrow> bool"
  light_attenuation :: "int \<Rightarrow> real"
  light_exponent :: "int \<Rightarrow> real"
  light_cutoff :: "int \<Rightarrow> real"
  light_ambient :: "int \<Rightarrow> real"
  light_diffuse :: "int \<Rightarrow> real"
  light_specular :: "int \<Rightarrow> real"
  cam_ipd :: "int \<Rightarrow> real"
  cam_fovy :: "int \<Rightarrow> real"
  vis :: mjVisual
  stat :: mjStatistic

record mjContact =
  con_dist :: real
  con_pos :: vec3
  con_frame :: mat33
  con_dim :: int
  con_geom1 :: int
  con_geom2 :: int
  con_exclude :: int
  con_efc_address :: int

text \<open>
  Modelled from the spec: \<^verbatim>\<open>mj_contactForce\<close> (\<^verbatim>\<open>engine_support.c\<close>) is not under src/. It
  returns the force and torque of contact \<open>i\<close> in the contact frame, the "accumulated contact
  force" of the spec; the state carries these six numbers per contact as \<open>contact_force\<close>.
\<close>

record mjData =
  xpos :: "int \<Rightarrow> real"
  xquat :: "int \<Rightarrow> real"
  xmat :: "int \<Rightarrow> real"
  xipos :: "int \<Rightarrow> real"
  ximat :: "int \<Rightarrow> real"
  xanchor :: "int \<Rightarrow> real"
  xaxis :: "int \<Rightarrow> real"
  act :: "int \<Rightarrow> real"
  ctrl :: "int \<Rightarrow> real"
  site_xpos :: "int \<Rightarrow> real"
  site_xmat :: "int \<Rightarrow> real"
  geom_xpos :: "int \<Rightarrow> real"
  geom_xmat :: "int \<Rightarrow> real"
  cam_xpos :: "int \<Rightarrow> real"
  cam_xmat :: "int \<Rightarrow> real"
  light_xpos :: "int \<Rightarrow> real"
  light_xdir :: "int \<Rightarrow> real"
  ten_wrapadr :: "int \<Rightarrow> int"
  ten_wrapnum :: "int \<Rightarrow> int"
  wrap_obj :: "int \<Rightarrow> int"
  wrap_xpos :: "int \<Rightarrow> real"
  subtree_com :: "int \<Rightarrow> real"
  sensordata :: "int \<Rightarrow> real"
  xfrc_applied :: "int \<Rightarrow> real"
  ncon :: int
  contact :: "int \<Rightarrow> mjContact"
  contact_force :: "int \<Rightarrow> vec3 \<times> vec3"

record mjvOption =
  opt_label :: mjtLabel
  opt_frame :: mjtFrame
  geomgroup :: "bool list"
  sitegroup :: "bool list"
  jointgroup :: "bool list"
  tendongroup :: "bool list"
  actuatorgroup :: "bool list"
  flags :: "mjtVisFlag \<Rightarrow> bool"

record mjvPerturb =
  select :: int
  skinselect :: int
  active :: "mjtPertBit set"
  active2 :: "mjtPertBit set"
  refpos :: vec3
  refquat :: vec4
  localpos :: vec3

record mjvCamera =
  cam_type :: mjtCamera
  fixedcamid :: int
  trackbodyid :: int
  lookat :: vec3
  distance :: real
  azimuth :: real
  elevation :: real

record mjvGLCamera =
  gl_pos :: vec3
  gl_forward :: vec3
  gl_up :: vec3
  frustum_center :: real
  frustum_bottom :: real
  frustum_top :: real
  frustum_near :: real
  frustum_far :: real

record mjvLight =
  l_pos :: vec3
  l_dir :: vec3
  l_attenuation :: vec3
  l_cutoff :: real
  l_exponent :: real
  l_ambient :: vec3
  l_diffuse :: vec3
  l_specular :: vec3
  l_headlight :: bool
  l_directional :: bool
  l_castshadow :: bool

text \<open>
  The scene. The buffers \<^verbatim>\<open>geoms\<close>, \<^verbatim>\<open>lights\<close>, \<^verbatim>\<open>skinvert\<close> and \<^verbatim>\<open>skinnormal\<close> are
  functions of the index, so that a write at any index is a write of the model and a write
  past the capacity would show. The capacity of the light buffer, the macro \<^verbatim>\<open>mjMAXLIGHT\<close>
  of \<^verbatim>\<open>mjvisualize.h\<close> (not under src/), is the field \<open>maxlight\<close>.
\<close>

record mjvScene =
  maxgeom :: int
  ngeom :: int
  geoms :: "int \<Rightarrow> mjvGeom"
  maxlight :: int
  nlight :: int
  lights :: "int \<Rightarrow> mjvLight"
  camera :: "mjvGLCamera \<times> mjvGLCamera"
  skinvert :: "int \<Rightarrow> real"
  skinnormal :: "int \<Rightarrow> real"
  enabletransform :: bool

section \<open>Material resolution and small helpers\<close>

text \<open>\<^verbatim>\<open>setMaterial\<close>: copy material fields from the model to the visual geom.\<close>

definition setMaterial ::
  "mjModel \<Rightarrow> mjvGeom \<Rightarrow> int \<Rightarrow> vec4 \<Rightarrow> (mjtVisFlag \<Rightarrow> bool) \<Rightarrow> mjvGeom" where
  "setMaterial m geom matid col flgs =
     (let g1 = (if matid \<ge> 0
                then geom\<lparr> texrepeat := at2 (mat_texrepeat m) (2 * matid),
                            rgba := at4 (mat_rgba m) (4 * matid),
                            texuniform := mat_texuniform m matid,
                            emission := mat_emission m matid,
                            specular := mat_specular m matid,
                            shininess := mat_shininess m matid,
                            reflectance := mat_reflectance m matid \<rparr>
                else geom\<lparr> texrepeat := (0, 0) \<rparr>);
          g2 = (case col of (c0, c1, c2, c3) \<Rightarrow>
                  if c0 \<noteq> 1 / 2 \<or> c1 \<noteq> 1 / 2 \<or> c2 \<noteq> 1 / 2 \<or> c3 \<noteq> 1 \<or> matid < 0
                  then g1\<lparr> rgba := col \<rparr> else g1);
          g3 = (if flgs mjVIS_TEXTURE \<and> matid \<ge> 0
                then g2\<lparr> texid := mat_texid m matid \<rparr> else g2)
      in if flgs mjVIS_TRANSPARENT \<and> category g3 = mjCAT_DYNAMIC
         then g3\<lparr> rgba := (case rgba g3 of (r, g, b, a) \<Rightarrow> (r, g, b, a * map_alpha (vis m))) \<rparr>
         else g3)"

text \<open>The fourth component \<^verbatim>\<open>rgba[3]\<close> of a colour.\<close>

fun alpha :: "vec4 \<Rightarrow> real" where
  "alpha (r, g, b, a) = a"

text \<open>\<^verbatim>\<open>markselected\<close>: add emission, make opaque.\<close>

definition markselected :: "mjVisual \<Rightarrow> mjvGeom \<Rightarrow> mjvGeom" where
  "markselected v geom =
     geom\<lparr> emission := emission geom + global_glow v,
            rgba := (case rgba geom of (r, g, b, a) \<Rightarrow> (r, g, b, 1)) \<rparr>"

text \<open>\<^verbatim>\<open>mixcolor\<close>: mix colours for the perturbation object.\<close>

definition mixcolor :: "vec4 \<Rightarrow> bool \<Rightarrow> bool \<Rightarrow> vec4" where
  "mixcolor ref flg1 flg2 =
     (case ref of (ref0, ref1, ref2, ref3) \<Rightarrow>
        let r0 = (if flg1 then ref0 else 0);
            r0' = (if flg2 then mjMAX r0 ref1 else r0);
            r1 = (if flg1 then ref1 else 0);
            r1' = (if flg2 then mjMAX r1 ref0 else r1)
        in (r0', r1', ref2, ref3))"

text \<open>A body is static if it is welded to the world and is not a mocap body.\<close>

definition bodycategory :: "mjModel \<Rightarrow> int \<Rightarrow> mjtCatBit" where
  "bodycategory m bodyid =
     (if body_weldid m bodyid = 0 \<and> body_mocapid m bodyid = - 1 then mjCAT_STATIC
      else mjCAT_DYNAMIC)"

text \<open>
  The group of an element is clamped before it indexes a group array of the options:
  \<^verbatim>\<open>mjMAX(0, mjMIN(mjNGROUP-1, group))\<close>; \<open>group_enabled\<close> is the read of the array.
\<close>

definition clamp_group :: "int \<Rightarrow> int" where
  "clamp_group g = mjMAX 0 (mjMIN (mjNGROUP - 1) g)"

definition group_enabled :: "bool list \<Rightarrow> int \<Rightarrow> bool" where
  "group_enabled grp g = grp ! nat (clamp_group g)"

section \<open>Bounded emission into the scene\<close>

text \<open>
  Statements of the source run on a state and end in one of four ways: normally, by
  \<^verbatim>\<open>continue\<close> (the rest of the loop body is skipped), by \<^verbatim>\<open>return\<close> (the rest of the
  function is skipped) or by a fatal error (\<^verbatim>\<open>mju_error\<close> does not return).
\<close>

datatype 's outcome = Normal 's | Continue 's | Return 's | Fatal fatal

fun seq :: "('s \<Rightarrow> 's outcome) list \<Rightarrow> 's \<Rightarrow> 's outcome" where
  "seq [] s = Normal s"
| "seq (f # fs) s = (case f s of Normal s' \<Rightarrow> seq fs s' | r \<Rightarrow> r)"

fun for_loop :: "int list \<Rightarrow> (int \<Rightarrow> 's \<Rightarrow> 's outcome) \<Rightarrow> 's \<Rightarrow> 's outcome" where
  "for_loop [] body s = Normal s"
| "for_loop (i # is) body s =
     (case body i s of
        Normal s' \<Rightarrow> for_loop is body s'
      | Continue s' \<Rightarrow> for_loop is body s'
      | r \<Rightarrow> r)"

definition whenever :: "bool \<Rightarrow> ('s \<Rightarrow> 's outcome) \<Rightarrow> 's \<Rightarrow> 's outcome" where
  "whenever c f s = (if c then f s else Normal s)"

text \<open>A conditional on the state, and a conditional \<^verbatim>\<open>continue\<close>.\<close>

definition whenever_v :: "('s \<Rightarrow> bool) \<Rightarrow> ('s \<Rightarrow> 's outcome) \<Rightarrow> 's \<Rightarrow> 's outcome" where
  "whenever_v c f s = (if c s then f s else Normal s)"

definition continue_if :: "('s \<Rightarrow> bool) \<Rightarrow> 's \<Rightarrow> 's outcome" where
  "continue_if c s = (if c s then Continue s else Normal s)"

text \<open>A call of a \<^verbatim>\<open>void\<close> function: its \<^verbatim>\<open>return\<close> ends the callee, not the caller.\<close>

definition call :: "'s outcome \<Rightarrow> 's outcome" where
  "call r = (case r of Return s \<Rightarrow> Normal s | x \<Rightarrow> x)"

text \<open>The end of an API function: a fatal error, or the state it leaves to its caller.\<close>

fun finish :: "'s outcome \<Rightarrow> fatal + 's" where
  "finish (Fatal e) = Inl e"
| "finish (Normal s) = Inr s"
| "finish (Continue s) = Inr s"
| "finish (Return s) = Inr s"

text \<open>
  The state that scene assembly changes: the scene, the record of the warning
  \<^verbatim>\<open>mjWARN_VGEOMFULL\<close> in \<^verbatim>\<open>d->warning\<close>, and the two local variables \<^verbatim>\<open>objtype\<close> and
  \<^verbatim>\<open>category\<close> of \<^verbatim>\<open>mjv_addGeoms\<close>, which the macro \<^verbatim>\<open>START\<close> reads and which are
  assigned between emissions.
\<close>

record vstate =
  scn :: mjvScene
  warning_lastinfo :: int
  warning_number :: int
  objtype_v :: mjtObj
  category_v :: mjtCatBit

text \<open>
  Modelled from the spec: \<^verbatim>\<open>mj_warning\<close> (\<^verbatim>\<open>engine_util_errmem.c\<close>) is not under src/. It
  reports a non-fatal diagnostic: the information is saved and the counter of the warning
  advances.
\<close>

definition mj_warning :: "int \<Rightarrow> vstate \<Rightarrow> vstate" where
  "mj_warning info s = s\<lparr> warning_lastinfo := info, warning_number := warning_number s + 1 \<rparr>"

text \<open>\<^verbatim>\<open>thisgeom = scn->geoms + scn->ngeom\<close>, and a write through that pointer.\<close>

definition thisgeom :: "vstate \<Rightarrow> mjvGeom" where
  "thisgeom s = geoms (scn s) (ngeom (scn s))"

definition modify_geom :: "(mjvGeom \<Rightarrow> mjvGeom) \<Rightarrow> vstate \<Rightarrow> vstate outcome" where
  "modify_geom f s =
     Normal (s\<lparr> scn := (scn s)\<lparr> geoms := (geoms (scn s))(ngeom (scn s) := f (thisgeom s)) \<rparr> \<rparr>)"

text \<open>
  The macro \<^verbatim>\<open>START\<close>, with the variables \<^verbatim>\<open>objtype\<close>, \<^verbatim>\<open>category\<close> and \<^verbatim>\<open>i\<close> it reads
  from its context as arguments, and the macro \<^verbatim>\<open>FINISH\<close>.
\<close>

definition START :: "mjtObj \<Rightarrow> mjtCatBit \<Rightarrow> int \<Rightarrow> vstate \<Rightarrow> vstate outcome" where
  "START ot cat i s =
     (if ngeom (scn s) \<ge> maxgeom (scn s) then Return (mj_warning (maxgeom (scn s)) s)
      else modify_geom (\<lambda>g. (mjv_initGeom g mjGEOM_NONE None None None None)
                              \<lparr> objtype := ot, objid := i, category := cat,
                                segid := ngeom (scn s) \<rparr>) s)"

definition FINISH :: "vstate \<Rightarrow> vstate outcome" where
  "FINISH s = Normal (s\<lparr> scn := (scn s)\<lparr> ngeom := ngeom (scn s) + 1 \<rparr> \<rparr>)"

text \<open>A call of \<^verbatim>\<open>mjv_makeConnector\<close> on \<^verbatim>\<open>thisgeom\<close>.\<close>

definition connector :: "mjtGeom \<Rightarrow> real \<Rightarrow> vec3 \<Rightarrow> vec3 \<Rightarrow> vstate \<Rightarrow> vstate outcome" where
  "connector ty width a b s =
     (case mjv_makeConnector (thisgeom s) ty width a b of
        Inl e \<Rightarrow> Fatal e
      | Inr g \<Rightarrow> modify_geom (\<lambda>_. g) s)"

text \<open>
  The three axes of a frame, drawn as three cylinders from \<open>p\<close> (lines 633-658 and their
  copies in the source): axis \<open>j\<close> has length \<open>len\<close>, is turned by \<open>m\<close> and coloured
  red, green or blue. The argument \<open>start\<close> is the expansion of \<^verbatim>\<open>START\<close> at that place.
\<close>

definition frame_axis ::
  "(vstate \<Rightarrow> vstate outcome) \<Rightarrow> mat33 \<Rightarrow> vec3 \<Rightarrow> real \<Rightarrow> real \<Rightarrow> int \<Rightarrow> vstate \<Rightarrow> vstate outcome" where
  "frame_axis start m p width len j =
     seq [ start,
           (let axis = (if j = 0 then len else 0, if j = 1 then len else 0,
                        if j = 2 then len else 0);
                vec = mju_mulMatVec m axis
            in connector mjGEOM_CYLINDER width p (mju_add3 p vec)),
           modify_geom (\<lambda>g. g\<lparr> rgba := (if j = 0 then 9 / 10 else 0, if j = 1 then 9 / 10 else 0,
                                          if j = 2 then 9 / 10 else 0, 1) \<rparr>),
           FINISH ]"

section \<open>Contact visualization (\<^verbatim>\<open>addContactGeom\<close>)\<close>

text \<open>The body of the loop over contacts, for contact \<open>i\<close>.\<close>

definition addContactGeom_body ::
  "mjModel \<Rightarrow> mjData \<Rightarrow> (mjtVisFlag \<Rightarrow> bool) \<Rightarrow> mjvOption \<Rightarrow> int \<Rightarrow> vstate \<Rightarrow> vstate outcome" where
  "addContactGeom_body m d flgs vopt i =
     (let objtype = mjOBJ_UNKNOWN; category = mjCAT_DECOR;
          scl = meansize (stat m);
          con = contact d i;
          mat = (case con_frame con of (f0, f1, f2, f3, f4, f5, f6, f7, f8) \<Rightarrow>
                   mju_transpose (f3, f4, f5, f6, f7, f8, f0, f1, f2))
      in seq [
        whenever (flgs mjVIS_CONTACTPOINT) (seq [
          START objtype category i,
          modify_geom (\<lambda>g. g\<lparr> type := mjGEOM_CYLINDER,
                               size3 := (scale_contactwidth (vis m) * scl,
                                         scale_contactwidth (vis m) * scl,
                                         scale_contactheight (vis m) * scl),
                               pos := con_pos con,
                               mat := mat,
                               rgba := (if con_efc_address (contact d i) \<ge> 0
                                        then rgba_contactpoint (vis m)
                                        else rgba_contactgap (vis m)) \<rparr>),
          FINISH ]),
        whenever (opt_frame vopt = mjFRAME_CONTACT)
          (let framelength = scale_framelength (vis m) * scl / 2;
               framewidth = scale_framewidth (vis m) * scl / 2
           in for_loop [0 .. 2]
                (frame_axis (START objtype category i) mat (con_pos con) framewidth framelength)),
        continue_if (\<lambda>s. con_efc_address (contact d i) < 0),
        whenever (flgs mjVIS_CONTACTFORCE)
          (let mat = mju_transpose (con_frame con);
               confrc = fst (contact_force d i);
               n = mjMIN 3 (con_dim con);
               frc = (case confrc of (c0, c1, c2) \<Rightarrow>
                        (if 0 < n then c0 else 0, if 1 < n then c1 else 0,
                         if 2 < n then c2 else 0))
           in if mju_norm3 frc < mjMINVAL then Continue
              else
                (let split = (flgs mjVIS_CONTACTSPLIT \<and> con_dim con > 1) in
                 for_loop [(if split then 1 else 0) .. (if split then 3 else 1) - 1] (\<lambda>j.
                   (let vec0 = (case (mat, frc) of
                                  ((m0, m1, m2, m3, m4, m5, m6, m7, m8), (frc0, frc1, frc2)) \<Rightarrow>
                                    if j = 0 then mju_mulMatVec mat frc
                                    else if j = 1 then (m0 * frc0, m3 * frc0, m6 * frc0)
                                    else (m1 * frc1 + m2 * frc2, m4 * frc1 + m5 * frc2,
                                          m7 * frc1 + m8 * frc2));
                        vec1 = mju_scl3 vec0 (map_force (vis m) / meanmass (stat m));
                        body1 = geom_bodyid m (con_geom1 con);
                        body2 = geom_bodyid m (con_geom2 con);
                        vec = (if body1 > body2 then mju_scl3 vec1 (- 1) else vec1)
                    in seq [
                         START objtype category i,
                         connector (if body1 > 0 \<and> body2 > 0 \<and> \<not> split then mjGEOM_ARROW2
                                    else mjGEOM_ARROW)
                                   (scale_forcewidth (vis m) * scl)
                                   (con_pos con) (mju_add3 (con_pos con) vec),
                         modify_geom (\<lambda>g. g\<lparr> rgba := (if j = 2 then rgba_contactfriction (vis m)
                                                        else rgba_contactforce (vis m)) \<rparr>),
                         whenever (opt_label vopt = mjLABEL_CONTACTFORCE
                               \<and> j = (if split then 1 else 0))
                           (modify_geom (\<lambda>g. g\<lparr> label := ForceLabel (mju_norm3 frc) \<rparr>)),
                         FINISH ])))) ])"

definition addContactGeom ::
  "mjModel \<Rightarrow> mjData \<Rightarrow> (mjtVisFlag \<Rightarrow> bool) \<Rightarrow> mjvOption \<Rightarrow> vstate \<Rightarrow> vstate outcome" where
  "addContactGeom m d flgs vopt s =
     (if \<not> flgs mjVIS_CONTACTPOINT \<and> \<not> flgs mjVIS_CONTACTFORCE \<and> opt_frame vopt \<noteq> mjFRAME_CONTACT
      then Return s
      else for_loop [0 .. ncon d - 1] (addContactGeom_body m d flgs vopt) s)"

section \<open>Scene assembly (\<^verbatim>\<open>mjv_addGeoms\<close>)\<close>

text \<open>
  Assignments to the local variables \<^verbatim>\<open>objtype\<close> and \<^verbatim>\<open>category\<close>, the expansion of
  \<^verbatim>\<open>START\<close> inside \<^verbatim>\<open>mjv_addGeoms\<close>.
\<close>

definition assign_objtype :: "mjtObj \<Rightarrow> vstate \<Rightarrow> vstate outcome" where
  "assign_objtype ot s = Normal (s\<lparr> objtype_v := ot \<rparr>)"

definition assign_category :: "mjtCatBit \<Rightarrow> vstate \<Rightarrow> vstate outcome" where
  "assign_category cat s = Normal (s\<lparr> category_v := cat \<rparr>)"

definition START_v :: "int \<Rightarrow> vstate \<Rightarrow> vstate outcome" where
  "START_v i s = START (objtype_v s) (category_v s) i s"

text \<open>
  Modelled from the spec: \<^verbatim>\<open>mjv_defaultPerturb\<close> (\<^verbatim>\<open>engine_vis_init.c\<close>) is not under
  src/. It gives the default "no interaction" value: nothing selected, no active
  perturbation, the reference pose at the origin.
\<close>

definition mjv_defaultPerturb :: mjvPerturb where
  "mjv_defaultPerturb = \<lparr> select = 0, skinselect = - 1, active = {}, active2 = {},
                          refpos = (0, 0, 0), refquat = (1, 0, 0, 0), localpos = (0, 0, 0) \<rparr>"

subsection \<open>Skins\<close>

definition addGeoms_skin_body ::
  "mjModel \<Rightarrow> mjData \<Rightarrow> mjvOption \<Rightarrow> mjvPerturb \<Rightarrow> int \<Rightarrow> vstate \<Rightarrow> vstate outcome" where
  "addGeoms_skin_body m d vopt pert i =
     seq [ START_v i,
           modify_geom (\<lambda>g. mjv_initGeom g mjGEOM_SKIN None
                               (Some (at3 (xpos d) (3 * skin_bonebodyid m (skin_boneadr m i))))
                               None None),
           modify_geom (\<lambda>g. setMaterial m g (skin_matid m i) (at4 (skin_rgba m) (4 * i))
                               (flags vopt)),
           whenever (skinselect pert = i) (modify_geom (markselected (vis m))),
           whenever (skin_texcoordadr m i \<ge> 0) (modify_geom (\<lambda>g. g\<lparr> texcoord := 1 \<rparr>)),
           continue_if (\<lambda>s. alpha (rgba (thisgeom s)) = 0),
           whenever (opt_label vopt = mjLABEL_SKIN) (modify_geom (makeLabel mjOBJ_SKIN i)),
           FINISH ]"

definition addGeoms_skin ::
  "mjModel \<Rightarrow> mjData \<Rightarrow> mjvOption \<Rightarrow> mjvPerturb \<Rightarrow> mjtCatBit set \<Rightarrow> vstate \<Rightarrow> vstate outcome" where
  "addGeoms_skin m d vopt pert catmask =
     seq [ assign_objtype mjOBJ_SKIN,
           assign_category mjCAT_DYNAMIC,
           whenever_v (\<lambda>s. flags vopt mjVIS_SKIN \<and> category_v s \<in> catmask)
             (for_loop [0 .. nskin m - 1] (addGeoms_skin_body m d vopt pert)) ]"

subsection \<open>Inertia boxes\<close>

text \<open>
  The sizes of the equivalent inertia box of body \<open>i\<close>. \<^verbatim>\<open>mju_sqrt\<close>, \<^verbatim>\<open>mju_pow\<close> and
  \<^verbatim>\<open>mju_max\<close> are read as \<open>sqrt\<close>, \<open>powr\<close> and \<open>mjMAX\<close>.
\<close>

definition inertia_box :: "mjModel \<Rightarrow> mjvOption \<Rightarrow> int \<Rightarrow> vec3" where
  "inertia_box m vopt i =
     (let i0 = body_inertia m (3 * i + 0); i1 = body_inertia m (3 * i + 1);
          i2 = body_inertia m (3 * i + 2); mass = body_mass m i;
          sz0 = sqrt ((i1 + i2 - i0) * 6 / mass) / 2;
          sz1 = sqrt ((i0 + i2 - i1) * 6 / mass) / 2;
          sz2 = sqrt ((i0 + i1 - i2) * 6 / mass) / 2
      in if flags vopt mjVIS_SCLINERTIA
         then (let density = mass / mjMAX mjMINVAL (8 * sz0 * sz1 * sz2);
                   scl = (density * (1 / 1000)) powr (1 / 3)
               in (sz0 * scl, sz1 * scl, sz2 * scl))
         else (sz0, sz1, sz2))"

definition addGeoms_inertia_body ::
  "mjModel \<Rightarrow> mjData \<Rightarrow> mjvOption \<Rightarrow> mjvPerturb \<Rightarrow> mjtCatBit set \<Rightarrow> int \<Rightarrow> vstate \<Rightarrow> vstate outcome" where
  "addGeoms_inertia_body m d vopt pert catmask i =
     whenever (body_mass m i > mjMINVAL \<and> bodycategory m i \<in> catmask) (seq [
       START_v i,
       modify_geom (\<lambda>g. mjv_initGeom g mjGEOM_BOX (Some (inertia_box m vopt i))
                           (Some (at3 (xipos d) (3 * i))) (Some (at9 (ximat d) (9 * i)))
                           (Some (rgba_inertia (vis m)))),
       whenever (select pert = i) (modify_geom (markselected (vis m))),
       whenever (opt_label vopt = mjLABEL_BODY
                 \<or> (opt_label vopt = mjLABEL_SELECTION \<and> select pert = i))
         (modify_geom (makeLabel mjOBJ_BODY i)),
       FINISH ])"

definition addGeoms_inertia ::
  "mjModel \<Rightarrow> mjData \<Rightarrow> mjvOption \<Rightarrow> mjvPerturb \<Rightarrow> mjtCatBit set \<Rightarrow> vstate \<Rightarrow> vstate outcome" where
  "addGeoms_inertia m d vopt pert catmask =
     seq [ assign_objtype mjOBJ_BODY,
           whenever (flags vopt mjVIS_INERTIA)
             (for_loop [1 .. nbody m - 1] (addGeoms_inertia_body m d vopt pert catmask)) ]"

subsection \<open>Perturbation object\<close>

definition addGeoms_pertobj ::
  "mjModel \<Rightarrow> mjData \<Rightarrow> mjvOption \<Rightarrow> mjvPerturb \<Rightarrow> mjtCatBit set \<Rightarrow> vstate \<Rightarrow> vstate outcome" where
  "addGeoms_pertobj m d vopt pert catmask =
     seq [ assign_objtype mjOBJ_UNKNOWN,
           assign_category mjCAT_DECOR,
           whenever_v (\<lambda>s. flags vopt mjVIS_PERTOBJ \<and> category_v s \<in> catmask \<and> select pert > 0)
             (let i = select pert; scl = meansize (stat m) in seq [
                whenever (mjPERT_TRANSLATE \<in> active pert \<union> active2 pert)
                  (let sz0 = scl * scale_constraint (vis m);
                       col = mixcolor (rgba_constraint (vis m))
                                (mjPERT_TRANSLATE \<in> active pert)
                                (mjPERT_TRANSLATE \<in> active2 pert)
                   in seq [
                     START_v i,
                     connector mjGEOM_CAPSULE sz0 (at3 (xipos d) (3 * i)) (refpos pert),
                     modify_geom (\<lambda>g. g\<lparr> rgba := col \<rparr>),
                     FINISH,
                     START_v i,
                     modify_geom (\<lambda>g. mjv_initGeom g mjGEOM_SPHERE
                                         (Some (2 * sz0, 2 * sz0, 2 * sz0)) (Some (refpos pert))
                                         (Some (mju_quat2Mat (refquat pert))) (Some col)),
                     FINISH ]),
                whenever (mjPERT_ROTATE \<in> active pert \<union> active2 pert)
                  (let col = mixcolor (rgba_inertia (vis m))
                                (mjPERT_ROTATE \<in> active pert)
                                (mjPERT_ROTATE \<in> active2 pert)
                   in seq [
                     START_v i,
                     modify_geom (\<lambda>g. mjv_initGeom g mjGEOM_BOX (Some (scl, scl, scl))
                                         (Some (at3 (xipos d) (3 * i)))
                                         (Some (mju_quat2Mat (refquat pert))) (Some col)),
                     FINISH ]) ]) ]"

subsection \<open>World and body frames\<close>

definition addGeoms_bodyframe_body ::
  "mjModel \<Rightarrow> mjData \<Rightarrow> mjtCatBit set \<Rightarrow> int \<Rightarrow> vstate \<Rightarrow> vstate outcome" where
  "addGeoms_bodyframe_body m d catmask i =
     (let scl = meansize (stat m);
          sz1 = (if i = 0 then scale_framelength (vis m) * scl * 2
                 else scale_framelength (vis m) * scl);
          sz0 = (if i = 0 then scale_framewidth (vis m) * scl * 2
                 else scale_framewidth (vis m) * scl)
      in seq [
        continue_if (\<lambda>s. i > 0 \<and> bodycategory m i \<notin> catmask),
        for_loop [0 .. 2]
          (frame_axis (START_v i) (at9 (xmat d) (9 * i)) (at3 (xpos d) (3 * i)) sz0 sz1) ])"

definition addGeoms_bodyframe ::
  "mjModel \<Rightarrow> mjData \<Rightarrow> mjvOption \<Rightarrow> mjtCatBit set \<Rightarrow> vstate \<Rightarrow> vstate outcome" where
  "addGeoms_bodyframe m d vopt catmask =
     seq [ assign_objtype mjOBJ_UNKNOWN,
           assign_category mjCAT_DECOR,
           whenever_v (\<lambda>s. category_v s \<in> catmask)
             (for_loop [(if opt_frame vopt = mjFRAME_WORLD then 0 else 1) ..
                        (if opt_frame vopt = mjFRAME_BODY then nbody m else 1) - 1]
                (addGeoms_bodyframe_body m d catmask)) ]"

subsection \<open>Selection point and body labels\<close>

definition addGeoms_selpnt ::
  "mjModel \<Rightarrow> mjData \<Rightarrow> mjvOption \<Rightarrow> mjvPerturb \<Rightarrow> mjtCatBit set \<Rightarrow> vstate \<Rightarrow> vstate outcome" where
  "addGeoms_selpnt m d vopt pert catmask =
     seq [ assign_objtype mjOBJ_UNKNOWN,
           assign_category mjCAT_DECOR,
           whenever_v (\<lambda>s. category_v s \<in> catmask \<and> select pert > 0 \<and> flags vopt mjVIS_SELECT)
             (let i = 0; scl = meansize (stat m);
                  selpos = mju_add3 (mju_rotVecMat (localpos pert)
                                       (at9 (xmat d) (9 * select pert)))
                                    (at3 (xpos d) (3 * select pert))
              in seq [
                START_v i,
                modify_geom (\<lambda>g. g\<lparr> type := mjGEOM_SPHERE,
                                     size3 := (scl * scale_selectpoint (vis m),
                                               scl * scale_selectpoint (vis m),
                                               scl * scale_selectpoint (vis m)),
                                     pos := selpos,
                                     mat := IDENTITY,
                                     rgba := rgba_selectpoint (vis m) \<rparr>),
                whenever (opt_label vopt = mjLABEL_SELPNT)
                  (modify_geom (\<lambda>g. g\<lparr> label := SelPntLabel selpos (localpos pert) \<rparr>)),
                FINISH ]) ]"

definition addGeoms_bodylabel_body ::
  "mjModel \<Rightarrow> mjData \<Rightarrow> mjvOption \<Rightarrow> mjvPerturb \<Rightarrow> mjtCatBit set \<Rightarrow> int \<Rightarrow> vstate \<Rightarrow> vstate outcome" where
  "addGeoms_bodylabel_body m d vopt pert catmask i =
     whenever (opt_label vopt = mjLABEL_BODY
               \<or> (opt_label vopt = mjLABEL_SELECTION \<and> select pert = i)) (seq [
       continue_if (\<lambda>s. bodycategory m i \<notin> catmask),
       START_v i,
       modify_geom (\<lambda>g. g\<lparr> type := mjGEOM_LABEL,
                            pos := at3 (xipos d) (3 * i),
                            mat := at9 (ximat d) (9 * i) \<rparr>),
       modify_geom (makeLabel mjOBJ_BODY i),
       FINISH ])"

definition addGeoms_bodylabel ::
  "mjModel \<Rightarrow> mjData \<Rightarrow> mjvOption \<Rightarrow> mjvPerturb \<Rightarrow> mjtCatBit set \<Rightarrow> vstate \<Rightarrow> vstate outcome" where
  "addGeoms_bodylabel m d vopt pert catmask =
     seq [ assign_objtype mjOBJ_UNKNOWN,
           assign_category mjCAT_DECOR,
           whenever_v (\<lambda>s. category_v s \<in> catmask
                           \<and> (opt_label vopt = mjLABEL_SELECTION \<or> opt_label vopt = mjLABEL_BODY)
                           \<and> \<not> flags vopt mjVIS_INERTIA)
             (for_loop [1 .. nbody m - 1] (addGeoms_bodylabel_body m d vopt pert catmask)) ]"

subsection \<open>Joints\<close>

text \<open>The \<^verbatim>\<open>switch\<close> on the joint type: type, size, position and orientation of the icon.\<close>

definition joint_icon :: "mjModel \<Rightarrow> mjData \<Rightarrow> int \<Rightarrow> real \<Rightarrow> real \<Rightarrow> vstate \<Rightarrow> vstate outcome" where
  "joint_icon m d i sz0 sz1 =
     (let j = jnt_bodyid m i in
      case jnt_type m i of
        mjJNT_FREE \<Rightarrow>
          modify_geom (\<lambda>g. g\<lparr> type := mjGEOM_BOX,
                               size3 := (3 / 10 * sz1, 3 / 10 * sz1, 3 / 10 * sz1),
                               pos := at3 (xanchor d) (3 * i),
                               mat := at9 (xmat d) (9 * j) \<rparr>)
      | mjJNT_BALL \<Rightarrow>
          modify_geom (\<lambda>g. g\<lparr> type := mjGEOM_SPHERE,
                               size3 := (3 / 10 * sz1, 3 / 10 * sz1, 3 / 10 * sz1),
                               pos := at3 (xanchor d) (3 * i),
                               mat := at9 (xmat d) (9 * j) \<rparr>)
      | mjJNT_other k \<Rightarrow> (\<lambda>s. Fatal (Unknown_joint_type k))
      | _ \<Rightarrow>
          connector (if jnt_type m i = mjJNT_SLIDE then mjGEOM_ARROW else mjGEOM_ARROW1) sz0
            (at3 (xanchor d) (3 * i))
            (mju_add3 (at3 (xanchor d) (3 * i)) (mju_scl3 (at3 (xaxis d) (3 * i)) sz1)))"

definition addGeoms_joint_body ::
  "mjModel \<Rightarrow> mjData \<Rightarrow> mjvOption \<Rightarrow> int \<Rightarrow> vstate \<Rightarrow> vstate outcome" where
  "addGeoms_joint_body m d vopt i =
     whenever (group_enabled (jointgroup vopt) (jnt_group m i))
       (let scl = meansize (stat m);
            sz1 = scale_jointlength (vis m) * scl;
            sz0 = scale_jointwidth (vis m) * scl
        in seq [
          START_v i,
          joint_icon m d i sz0 sz1,
          modify_geom (\<lambda>g. g\<lparr> rgba := rgba_joint (vis m) \<rparr>),
          whenever (opt_label vopt = mjLABEL_JOINT) (modify_geom (makeLabel mjOBJ_JOINT i)),
          FINISH ])"

definition addGeoms_joint ::
  "mjModel \<Rightarrow> mjData \<Rightarrow> mjvOption \<Rightarrow> mjtCatBit set \<Rightarrow> vstate \<Rightarrow> vstate outcome" where
  "addGeoms_joint m d vopt catmask =
     seq [ assign_objtype mjOBJ_JOINT,
           assign_category mjCAT_DECOR,
           whenever_v (\<lambda>s. flags vopt mjVIS_JOINT \<and> category_v s \<in> catmask)
             (for_loop [0 .. njnt m - 1] (addGeoms_joint_body m d vopt)) ]"

subsection \<open>Actuators\<close>

text \<open>
  The colour of the icon of actuator \<open>i\<close> (lines 775-832): the extended range \<^verbatim>\<open>rng\<close>,
  the control or activation value clamped to it, the three interpolants and the mix of the
  three reference colours.
\<close>

definition actuator_rng :: "mjModel \<Rightarrow> mjvOption \<Rightarrow> int \<Rightarrow> real \<times> real \<times> real" where
  "actuator_rng m vopt i =
     (let (rmin, rmax) =
            (if actuator_ctrllimited m i
             then (actuator_ctrlrange m (2 * i), actuator_ctrlrange m (2 * i + 1))
             else if flags vopt mjVIS_ACTIVATION \<and> actuator_actlimited m i
             then (actuator_actrange m (2 * i), actuator_actrange m (2 * i + 1))
             else (- 1, 1));
          (rng0, rng1, rng2) =
            (if rmin \<ge> 0 then (- 1, rmin, rmax)
             else if rmax \<le> 0 then (rmin, rmax, 1)
             else (rmin, 0, rmax));
          rng0' = (if rng1 - rng0 < mjMINVAL then rng1 - mjMINVAL else rng0);
          rng2' = (if rng2 - rng1 < mjMINVAL then rng1 + mjMINVAL else rng2)
      in (rng0', rng1, rng2'))"

definition actuator_act :: "mjModel \<Rightarrow> mjData \<Rightarrow> mjvOption \<Rightarrow> int \<Rightarrow> real" where
  "actuator_act m d vopt i =
     (case actuator_rng m vopt i of (rng0, rng1, rng2) \<Rightarrow>
        if flags vopt mjVIS_ACTIVATION \<and> actuator_dyntype m i \<noteq> 0
        then mjMIN rng2 (mjMAX rng0 (act d (i - (nu m - na m))))
        else mjMIN rng2 (mjMAX rng0 (ctrl d i)))"

definition actuator_interp :: "real \<times> real \<times> real \<Rightarrow> real \<Rightarrow> real \<times> real \<times> real" where
  "actuator_interp rng a =
     (case rng of (rng0, rng1, rng2) \<Rightarrow>
        if a \<le> rng1
        then (let amin = (rng1 - a) / mjMAX mjMINVAL (rng1 - rng0) in (amin, 1 - amin, 0))
        else (let amax = (a - rng1) / mjMAX mjMINVAL (rng2 - rng1) in (0, 1 - amax, amax)))"

definition mix3 :: "real \<times> real \<times> real \<Rightarrow> vec4 \<Rightarrow> vec4 \<Rightarrow> vec4 \<Rightarrow> vec4" where
  "mix3 w neg mid ps =
     (case (w, neg, mid, ps) of
        ((amin, amean, amax), (n0, n1, n2, n3), (c0, c1, c2, c3), (p0, p1, p2, p3)) \<Rightarrow>
          (amin * n0 + amean * c0 + amax * p0, amin * n1 + amean * c1 + amax * p1,
           amin * n2 + amean * c2 + amax * p2, amin * n3 + amean * c3 + amax * p3))"

definition actuator_rgba :: "mjModel \<Rightarrow> mjData \<Rightarrow> mjvOption \<Rightarrow> int \<Rightarrow> vec4" where
  "actuator_rgba m d vopt i =
     mix3 (actuator_interp (actuator_rng m vopt i) (actuator_act m d vopt i))
       (rgba_actuatornegative (vis m)) (rgba_actuator (vis m)) (rgba_actuatorpositive (vis m))"

definition addGeoms_actuator_body ::
  "mjModel \<Rightarrow> mjData \<Rightarrow> mjvOption \<Rightarrow> int \<Rightarrow> vstate \<Rightarrow> vstate outcome" where
  "addGeoms_actuator_body m d vopt i =
     whenever (group_enabled (actuatorgroup vopt) (actuator_group m i))
       (let scl = meansize (stat m);
            col = actuator_rgba m d vopt i;
            j = actuator_trnid m (2 * i)
        in seq [
          whenever ((actuator_trntype m i = mjTRN_JOINT \<or> actuator_trntype m i = mjTRN_JOINTINPARENT)
                    \<and> (jnt_type m j = mjJNT_HINGE \<or> jnt_type m j = mjJNT_SLIDE))
            (let sz1 = scale_actuatorlength (vis m) * scl;
                 sz0 = scale_actuatorwidth (vis m) * scl
             in seq [
               START_v i,
               connector (if jnt_type m j = mjJNT_SLIDE then mjGEOM_ARROW else mjGEOM_ARROW1) sz0
                 (at3 (xanchor d) (3 * j))
                 (mju_add3 (at3 (xanchor d) (3 * j)) (mju_scl3 (at3 (xaxis d) (3 * j)) sz1)),
               modify_geom (\<lambda>g. g\<lparr> rgba := col \<rparr>),
               whenever (opt_label vopt = mjLABEL_ACTUATOR)
                 (modify_geom (makeLabel mjOBJ_ACTUATOR i)),
               FINISH ]),
          (if actuator_trntype m i = mjTRN_SITE
           then seq [
               START_v i,
               modify_geom (\<lambda>g. mjv_initGeom g (site_type m j)
                                   (Some (mju_scl3 (at3 (site_size m) (3 * j)) (11 / 10)))
                                   (Some (at3 (site_xpos d) (3 * j)))
                                   (Some (at9 (site_xmat d) (9 * j)))
                                   (Some (rgba g))),
               modify_geom (\<lambda>g. g\<lparr> rgba := col \<rparr>),
               whenever (opt_label vopt = mjLABEL_ACTUATOR)
                 (modify_geom (makeLabel mjOBJ_ACTUATOR i)),
               FINISH ]
           else whenever (actuator_trntype m i = mjTRN_TENDON \<and> ten_wrapnum d j \<noteq> 0)
             (for_loop [ten_wrapadr d j .. ten_wrapadr d j + ten_wrapnum d j - 1 - 1] (\<lambda>k.
                whenever (wrap_obj d k \<noteq> - 2 \<and> wrap_obj d (k + 1) \<noteq> - 2)
                  (let sz0 = (if wrap_obj d k \<ge> 0 \<and> wrap_obj d (k + 1) \<ge> 0
                              then 1 / 2 * tendon_width m j else tendon_width m j)
                             * map_actuatortendon (vis m)
                   in seq [
                     START_v i,
                     connector mjGEOM_CAPSULE sz0
                       (at3 (wrap_xpos d) (3 * k)) (at3 (wrap_xpos d) (3 * k + 3)),
                     modify_geom (\<lambda>g. setMaterial m g (tendon_matid m j)
                                         (at4 (tendon_rgba m) (4 * j)) (flags vopt)),
                     modify_geom (\<lambda>g. g\<lparr> rgba := col \<rparr>),
                     whenever (opt_label vopt = mjLABEL_ACTUATOR \<and> k = ten_wrapadr d j)
                       (modify_geom (makeLabel mjOBJ_ACTUATOR i)),
                     FINISH ])))) ])"

definition addGeoms_actuator ::
  "mjModel \<Rightarrow> mjData \<Rightarrow> mjvOption \<Rightarrow> mjtCatBit set \<Rightarrow> vstate \<Rightarrow> vstate outcome" where
  "addGeoms_actuator m d vopt catmask =
     seq [ assign_objtype mjOBJ_ACTUATOR,
           assign_category mjCAT_DECOR,
           whenever_v (\<lambda>s. flags vopt mjVIS_ACTUATOR \<and> category_v s \<in> catmask)
             (for_loop [0 .. nu m - 1] (addGeoms_actuator_body m d vopt)) ]"

subsection \<open>Model geoms\<close>

text \<open>
  Modelled from the spec: the macro \<^verbatim>\<open>mjMAXPLANEGRID\<close> (\<^verbatim>\<open>mjvisualize.h\<close>) and \<^verbatim>\<open>mju_round\<close>
  are not under src/: the number of grid lines of a plane, one of the spec's "hardcoded tuning
  constants", and rounding to the nearest integer (halves away from zero).
\<close>

definition mjMAXPLANEGRID :: real where
  "mjMAXPLANEGRID = 200"

definition mju_round :: "real \<Rightarrow> real" where
  "mju_round x = (if x \<ge> 0 then of_int \<lfloor>x + 1 / 2\<rfloor> else - of_int \<lfloor>- x + 1 / 2\<rfloor>)"

text \<open>Row \<open>k\<close> of a matrix: the pointer \<^verbatim>\<open>ax + 3*k\<close> read as a vector.\<close>

fun mat_row :: "mat33 \<Rightarrow> int \<Rightarrow> vec3" where
  "mat_row (m0, m1, m2, m3, m4, m5, m6, m7, m8) k =
     (if k = 0 then (m0, m1, m2) else if k = 1 then (m3, m4, m5) else (m6, m7, m8))"

text \<open>
  The number \<^verbatim>\<open>planeid\<close> of geom \<open>i\<close>: the counter starts at -1 and advances at every plane
  of the model up to and including \<open>i\<close>, before any test that skips a geom.
\<close>

definition planeid :: "mjModel \<Rightarrow> int \<Rightarrow> int" where
  "planeid m i = int (length (filter (\<lambda>k. geom_type m k = mjGEOM_PLANE) [0 .. i])) - 1"

text \<open>The position of plane \<open>i\<close>, re-centred towards the head when the plane is infinite.\<close>

definition plane_recenter_axis :: "mjModel \<Rightarrow> int \<Rightarrow> vec3 \<Rightarrow> mat33 \<Rightarrow> int \<Rightarrow> vec3 \<Rightarrow> vec3" where
  "plane_recenter_axis m i vec ax k tmp =
     (if geom_size m (3 * i + k) \<le> 0
      then (let zfar = map_zfar (vis m) * extent (stat m);
                matid = geom_matid m i;
                sX = (if matid \<ge> 0 \<and> mat_texrepeat m (2 * matid + k) > 0
                      then 2 / mat_texrepeat m (2 * matid + k)
                      else 21 / 10 * zfar / (mjMAXPLANEGRID - 2));
                dX = mju_dot3 vec (mat_row ax k);
                dX' = 2 * sX * mju_round (1 / 2 * dX / sX)
            in mju_addScl3 tmp (mat_row ax k) dX')
      else tmp)"

definition plane_pos :: "mjModel \<Rightarrow> mjData \<Rightarrow> mjvScene \<Rightarrow> int \<Rightarrow> vec3" where
  "plane_pos m d sc i =
     (let tmp = at3 (geom_xpos d) (3 * i) in
      if geom_size m (3 * i) \<le> 0 \<or> geom_size m (3 * i + 1) \<le> 0
      then (let vec = mju_sub3 (mju_scl3 (mju_add3 (gl_pos (fst (camera sc)))
                                                   (gl_pos (snd (camera sc)))) (1 / 2))
                               (at3 (geom_xpos d) (3 * i));
                ax = mju_transpose (at9 (geom_xmat d) (9 * i))
            in plane_recenter_axis m i vec ax 1 (plane_recenter_axis m i vec ax 0 tmp))
      else tmp)"

definition addGeoms_geom_body ::
  "mjModel \<Rightarrow> mjData \<Rightarrow> mjvOption \<Rightarrow> mjvPerturb \<Rightarrow> mjtCatBit set \<Rightarrow> int \<Rightarrow> vstate \<Rightarrow> vstate outcome" where
  "addGeoms_geom_body m d vopt pert catmask i =
     seq [
       assign_objtype mjOBJ_GEOM,
       assign_category (bodycategory m (geom_bodyid m i)),
       continue_if (\<lambda>s. category_v s \<notin> catmask),
       whenever (group_enabled (geomgroup vopt) (geom_group m i)) (seq [
         START_v i,
         modify_geom (\<lambda>g. (mjv_initGeom g (geom_type m i) (Some (at3 (geom_size m) (3 * i)))
                              (Some (at3 (geom_xpos d) (3 * i)))
                              (Some (at9 (geom_xmat d) (9 * i))) None)
                            \<lparr> dataid := geom_dataid m i, modelrbound := geom_rbound m i \<rparr>),
         modify_geom (\<lambda>g. setMaterial m g (geom_matid m i) (at4 (geom_rgba m) (4 * i))
                             (flags vopt)),
         whenever (geom_type m i = mjGEOM_MESH \<and> geom_dataid m i \<ge> 0
                   \<and> mesh_texcoordadr m (geom_dataid m i) \<ge> 0)
           (modify_geom (\<lambda>g. g\<lparr> texcoord := 1 \<rparr>)),
         continue_if (\<lambda>s. alpha (rgba (thisgeom s)) = 0),
         whenever (select pert > 0 \<and> select pert = geom_bodyid m i)
           (modify_geom (markselected (vis m))),
         whenever (opt_label vopt = mjLABEL_GEOM) (modify_geom (makeLabel mjOBJ_GEOM i)),
         (if geom_type m i = mjGEOM_MESH
          then modify_geom (\<lambda>g. g\<lparr> dataid :=
                  (if mesh_graphadr m (geom_dataid m i) \<ge> 0 \<and> flags vopt mjVIS_CONVEXHULL
                   then dataid g * 2 + 1 else dataid g * 2) \<rparr>)
          else whenever (geom_type m i = mjGEOM_PLANE)
                 (\<lambda>s. modify_geom (\<lambda>g. g\<lparr> dataid := planeid m i,
                                           pos := plane_pos m d (scn s) i \<rparr>) s)),
         FINISH,
         assign_objtype mjOBJ_UNKNOWN,
         assign_category mjCAT_DECOR,
         continue_if (\<lambda>s. category_v s \<notin> catmask \<or> opt_frame vopt \<noteq> mjFRAME_GEOM),
         assign_objtype mjOBJ_UNKNOWN,
         (let scl = meansize (stat m);
              sz0 = scale_framewidth (vis m) * scl;
              sz1 = scale_framelength (vis m) * scl
          in for_loop [0 .. 2]
               (frame_axis (START_v i) (at9 (geom_xmat d) (9 * i)) (at3 (geom_xpos d) (3 * i))
                  sz0 sz1)) ]) ]"

definition addGeoms_geom ::
  "mjModel \<Rightarrow> mjData \<Rightarrow> mjvOption \<Rightarrow> mjvPerturb \<Rightarrow> mjtCatBit set \<Rightarrow> vstate \<Rightarrow> vstate outcome" where
  "addGeoms_geom m d vopt pert catmask =
     for_loop [0 .. ngeom_m m - 1] (addGeoms_geom_body m d vopt pert catmask)"

subsection \<open>Sites\<close>

definition addGeoms_site_body ::
  "mjModel \<Rightarrow> mjData \<Rightarrow> mjvOption \<Rightarrow> mjvPerturb \<Rightarrow> mjtCatBit set \<Rightarrow> int \<Rightarrow> vstate \<Rightarrow> vstate outcome" where
  "addGeoms_site_body m d vopt pert catmask i =
     seq [
       assign_objtype mjOBJ_SITE,
       assign_category (bodycategory m (site_bodyid m i)),
       continue_if (\<lambda>s. category_v s \<notin> catmask),
       whenever (group_enabled (sitegroup vopt) (site_group m i)) (seq [
         START_v i,
         modify_geom (\<lambda>g. mjv_initGeom g (site_type m i) (Some (at3 (site_size m) (3 * i)))
                             (Some (at3 (site_xpos d) (3 * i)))
                             (Some (at9 (site_xmat d) (9 * i))) None),
         modify_geom (\<lambda>g. setMaterial m g (site_matid m i) (at4 (site_rgba m) (4 * i))
                             (flags vopt)),
         continue_if (\<lambda>s. alpha (rgba (thisgeom s)) = 0),
         whenever (select pert > 0 \<and> select pert = site_bodyid m i)
           (modify_geom (markselected (vis m))),
         whenever (opt_label vopt = mjLABEL_SITE) (modify_geom (makeLabel mjOBJ_SITE i)),
         FINISH,
         assign_category mjCAT_DECOR,
         continue_if (\<lambda>s. category_v s \<notin> catmask \<or> opt_frame vopt \<noteq> mjFRAME_SITE),
         assign_objtype mjOBJ_UNKNOWN,
         (let scl = meansize (stat m);
              sz0 = scale_framewidth (vis m) * scl;
              sz1 = scale_framelength (vis m) * scl
          in for_loop [0 .. 2]
               (frame_axis (START_v i) (at9 (site_xmat d) (9 * i)) (at3 (site_xpos d) (3 * i))
                  sz0 sz1)) ]) ]"

definition addGeoms_site ::
  "mjModel \<Rightarrow> mjData \<Rightarrow> mjvOption \<Rightarrow> mjvPerturb \<Rightarrow> mjtCatBit set \<Rightarrow> vstate \<Rightarrow> vstate outcome" where
  "addGeoms_site m d vopt pert catmask =
     for_loop [0 .. nsite m - 1] (addGeoms_site_body m d vopt pert catmask)"

subsection \<open>Camera and light icons\<close>

definition addGeoms_camera_body ::
  "mjModel \<Rightarrow> mjData \<Rightarrow> mjvOption \<Rightarrow> mjtCatBit set \<Rightarrow> int \<Rightarrow> vstate \<Rightarrow> vstate outcome" where
  "addGeoms_camera_body m d vopt catmask i =
     (let scl = meansize (stat m) in seq [
        START_v i,
        modify_geom (\<lambda>g. g\<lparr> type := mjGEOM_BOX,
                             size3 := (scl * scale_camera (vis m) * 1,
                                       scl * scale_camera (vis m) * (8 / 10),
                                       scl * scale_camera (vis m) * (4 / 10)),
                             pos := at3 (cam_xpos d) (3 * i),
                             mat := at9 (cam_xmat d) (9 * i),
                             rgba := rgba_camera (vis m) \<rparr>),
        whenever (opt_label vopt = mjLABEL_CAMERA) (modify_geom (makeLabel mjOBJ_CAMERA i)),
        FINISH,
        START_v i,
        modify_geom (\<lambda>g. g\<lparr> pos := (cam_xpos d (3 * i)
                                        - scl * scale_camera (vis m) * (6 / 10) * cam_xmat d (9 * i + 2),
                                      cam_xpos d (3 * i + 1)
                                        - scl * scale_camera (vis m) * (6 / 10) * cam_xmat d (9 * i + 5),
                                      cam_xpos d (3 * i + 2)
                                        - scl * scale_camera (vis m) * (6 / 10) * cam_xmat d (9 * i + 8)),
                             type := mjGEOM_CYLINDER,
                             size3 := (scl * scale_camera (vis m) * (4 / 10),
                                       scl * scale_camera (vis m) * (4 / 10),
                                       scl * scale_camera (vis m) * (3 / 10)),
                             mat := at9 (cam_xmat d) (9 * i),
                             rgba := (case rgba_camera (vis m) of (r, g, b, a) \<Rightarrow>
                                        (r * (1 / 2), g * (1 / 2), b * (1 / 2), a)) \<rparr>),
        FINISH,
        assign_category mjCAT_DECOR,
        continue_if (\<lambda>s. category_v s \<notin> catmask \<or> opt_frame vopt \<noteq> mjFRAME_CAMERA),
        assign_objtype mjOBJ_UNKNOWN,
        (let sz0 = scale_framewidth (vis m) * scl;
             sz1 = scale_framelength (vis m) * scl
         in for_loop [0 .. 2]
              (frame_axis (START_v i) (at9 (cam_xmat d) (9 * i)) (at3 (cam_xpos d) (3 * i))
                 sz0 sz1)) ])"

definition addGeoms_camera ::
  "mjModel \<Rightarrow> mjData \<Rightarrow> mjvOption \<Rightarrow> mjtCatBit set \<Rightarrow> vstate \<Rightarrow> vstate outcome" where
  "addGeoms_camera m d vopt catmask =
     seq [ assign_objtype mjOBJ_CAMERA,
           assign_category mjCAT_DECOR,
           whenever_v (\<lambda>s. flags vopt mjVIS_CAMERA \<and> category_v s \<in> catmask)
             (for_loop [0 .. ncam m - 1] (addGeoms_camera_body m d vopt catmask)) ]"

definition addGeoms_light_body ::
  "mjModel \<Rightarrow> mjData \<Rightarrow> mjvOption \<Rightarrow> mjtCatBit set \<Rightarrow> int \<Rightarrow> vstate \<Rightarrow> vstate outcome" where
  "addGeoms_light_body m d vopt catmask i =
     (let scl = meansize (stat m);
          mat = mju_quat2Mat (mju_quatZ2Vec (at3 (light_xdir d) (3 * i)));
          vec = mju_addScl3 (at3 (light_xpos d) (3 * i)) (at3 (light_xdir d) (3 * i))
                  (- scl * scale_light (vis m) - 1 / 10000)
      in seq [
        START_v i,
        modify_geom (\<lambda>g. g\<lparr> type := mjGEOM_CYLINDER,
                             size3 := (scl * scale_light (vis m) * (8 / 10),
                                       scl * scale_light (vis m) * (8 / 10),
                                       scl * scale_light (vis m) * 1),
                             pos := vec,
                             mat := mat,
                             rgba := rgba_light (vis m) \<rparr>),
        whenever (opt_label vopt = mjLABEL_LIGHT) (modify_geom (makeLabel mjOBJ_LIGHT i)),
        FINISH,
        assign_category mjCAT_DECOR,
        continue_if (\<lambda>s. category_v s \<notin> catmask \<or> opt_frame vopt \<noteq> mjFRAME_LIGHT),
        assign_objtype mjOBJ_UNKNOWN,
        (let sz0 = scale_framewidth (vis m) * scl;
             sz1 = scale_framelength (vis m) * scl
         in for_loop [0 .. 2]
              (frame_axis (START_v i) mat (at3 (light_xpos d) (3 * i)) sz0 sz1)) ])"

definition addGeoms_light ::
  "mjModel \<Rightarrow> mjData \<Rightarrow> mjvOption \<Rightarrow> mjtCatBit set \<Rightarrow> vstate \<Rightarrow> vstate outcome" where
  "addGeoms_light m d vopt catmask =
     seq [ assign_objtype mjOBJ_LIGHT,
           assign_category mjCAT_DECOR,
           whenever_v (\<lambda>s. flags vopt mjVIS_LIGHT \<and> category_v s \<in> catmask)
             (for_loop [0 .. nlight_m m - 1] (addGeoms_light_body m d vopt catmask)) ]"

subsection \<open>Spatial tendons and slider-cranks\<close>

definition addGeoms_tendon_body ::
  "mjModel \<Rightarrow> mjData \<Rightarrow> mjvOption \<Rightarrow> int \<Rightarrow> vstate \<Rightarrow> vstate outcome" where
  "addGeoms_tendon_body m d vopt i =
     whenever (group_enabled (tendongroup vopt) (tendon_group m i))
       (for_loop [ten_wrapadr d i .. ten_wrapadr d i + ten_wrapnum d i - 1 - 1] (\<lambda>j.
          whenever (wrap_obj d j \<noteq> - 2 \<and> wrap_obj d (j + 1) \<noteq> - 2)
            (let sz0 = (if wrap_obj d j \<ge> 0 \<and> wrap_obj d (j + 1) \<ge> 0
                        then 1 / 2 * tendon_width m i else tendon_width m i)
             in seq [
               START_v i,
               connector mjGEOM_CAPSULE sz0
                 (at3 (wrap_xpos d) (3 * j)) (at3 (wrap_xpos d) (3 * j + 3)),
               modify_geom (\<lambda>g. setMaterial m g (tendon_matid m i)
                                   (at4 (tendon_rgba m) (4 * i)) (flags vopt)),
               whenever (opt_label vopt = mjLABEL_TENDON \<and> j = ten_wrapadr d i)
                 (modify_geom (makeLabel mjOBJ_TENDON i)),
               FINISH ])))"

definition addGeoms_tendon ::
  "mjModel \<Rightarrow> mjData \<Rightarrow> mjvOption \<Rightarrow> mjtCatBit set \<Rightarrow> vstate \<Rightarrow> vstate outcome" where
  "addGeoms_tendon m d vopt catmask =
     seq [ assign_objtype mjOBJ_TENDON,
           assign_category mjCAT_DYNAMIC,
           whenever_v (\<lambda>s. flags vopt mjVIS_TENDON \<and> category_v s \<in> catmask)
             (for_loop [0 .. ntendon m - 1] (addGeoms_tendon_body m d vopt)) ]"

definition addGeoms_slidercrank_body ::
  "mjModel \<Rightarrow> mjData \<Rightarrow> mjvOption \<Rightarrow> int \<Rightarrow> vstate \<Rightarrow> vstate outcome" where
  "addGeoms_slidercrank_body m d vopt i =
     whenever (actuator_trntype m i = mjTRN_SLIDERCRANK)
       (let scl = meansize (stat m);
            j = actuator_trnid m (2 * i);
            k = actuator_trnid m (2 * i + 1);
            rod = actuator_cranklength m i;
            axis = (site_xmat d (9 * k + 2), site_xmat d (9 * k + 5), site_xmat d (9 * k + 8));
            vec = mju_sub3 (at3 (site_xpos d) (3 * j)) (at3 (site_xpos d) (3 * k));
            len = mju_dot3 vec axis;
            det = len * len + rod * rod - mju_dot3 vec vec;
            broken = (det < 0);
            det' = (if det < 0 then 0 else det);
            len' = len - sqrt det';
            endp = mju_add3 (mju_scl3 axis len') (at3 (site_xpos d) (3 * k))
        in seq [
          START_v i,
          connector mjGEOM_CYLINDER (scl * scale_slidercrank (vis m))
            (at3 (site_xpos d) (3 * k)) endp,
          modify_geom (\<lambda>g. g\<lparr> rgba := rgba_slidercrank (vis m) \<rparr>),
          whenever (opt_label vopt = mjLABEL_ACTUATOR) (modify_geom (makeLabel mjOBJ_ACTUATOR i)),
          FINISH,
          START_v i,
          connector mjGEOM_CAPSULE (scl * scale_slidercrank (vis m) / 2)
            endp (at3 (site_xpos d) (3 * j)),
          modify_geom (\<lambda>g. g\<lparr> rgba := (if broken then rgba_crankbroken (vis m)
                                         else rgba_slidercrank (vis m)) \<rparr>),
          FINISH ])"

definition addGeoms_slidercrank ::
  "mjModel \<Rightarrow> mjData \<Rightarrow> mjvOption \<Rightarrow> mjtCatBit set \<Rightarrow> vstate \<Rightarrow> vstate outcome" where
  "addGeoms_slidercrank m d vopt catmask =
     seq [ assign_objtype mjOBJ_ACTUATOR,
           assign_category mjCAT_DYNAMIC,
           whenever_v (\<lambda>s. category_v s \<in> catmask)
             (for_loop [0 .. nu m - 1] (addGeoms_slidercrank_body m d vopt)) ]"

subsection \<open>Centres of mass, auto-connect, rangefinders, applied forces\<close>

definition addGeoms_com_body :: "mjModel \<Rightarrow> mjData \<Rightarrow> int \<Rightarrow> vstate \<Rightarrow> vstate outcome" where
  "addGeoms_com_body m d i =
     whenever (body_rootid m i = i)
       (let scl = meansize (stat m) in seq [
          START_v i,
          modify_geom (\<lambda>g. g\<lparr> type := mjGEOM_SPHERE,
                               size3 := (scl * scale_com (vis m), scl * scale_com (vis m),
                                         scl * scale_com (vis m)),
                               pos := at3 (subtree_com d) (3 * i),
                               mat := IDENTITY,
                               rgba := rgba_com (vis m) \<rparr>),
          FINISH ])"

definition addGeoms_com ::
  "mjModel \<Rightarrow> mjData \<Rightarrow> mjvOption \<Rightarrow> mjtCatBit set \<Rightarrow> vstate \<Rightarrow> vstate outcome" where
  "addGeoms_com m d vopt catmask =
     seq [ assign_objtype mjOBJ_UNKNOWN,
           assign_category mjCAT_DECOR,
           whenever_v (\<lambda>s. flags vopt mjVIS_COM \<and> category_v s \<in> catmask)
             (for_loop [1 .. nbody m - 1] (addGeoms_com_body m d)) ]"

text \<open>
  Auto-connect: the pointer \<^verbatim>\<open>cur\<close> starts at the centre of mass of body \<open>i\<close> and moves to
  each joint anchor in turn, the joints being visited from the last to the first: the segment
  of joint \<open>j\<close> starts at the centre of mass for the last joint and at the anchor of joint
  \<open>j + 1\<close> otherwise, and the final segment starts where the loop left \<^verbatim>\<open>cur\<close>.
\<close>

definition addGeoms_autoconnect_body ::
  "mjModel \<Rightarrow> mjData \<Rightarrow> int \<Rightarrow> vstate \<Rightarrow> vstate outcome" where
  "addGeoms_autoconnect_body m d i =
     (let scl = meansize (stat m);
          adr = body_jntadr m i; num = body_jntnum m i
      in seq [
        continue_if (\<lambda>s. body_parentid m i = 0),
        whenever (num \<noteq> 0)
          (for_loop (rev [adr .. adr + num - 1]) (\<lambda>j.
             (let cur = (if j = adr + num - 1 then at3 (xipos d) (3 * i)
                         else at3 (xanchor d) (3 * (j + 1)));
                  nxt = at3 (xanchor d) (3 * j)
              in seq [
                START_v i,
                connector mjGEOM_CAPSULE (scl * scale_connect (vis m)) cur nxt,
                modify_geom (\<lambda>g. g\<lparr> rgba := rgba_connect (vis m) \<rparr>),
                FINISH ]))),
        (let cur = (if num \<ge> 1 then at3 (xanchor d) (3 * adr) else at3 (xipos d) (3 * i));
             nxt = at3 (xipos d) (3 * body_parentid m i)
         in seq [
           START_v i,
           connector mjGEOM_CAPSULE (scl * scale_connect (vis m)) cur nxt,
           modify_geom (\<lambda>g. g\<lparr> rgba := rgba_connect (vis m) \<rparr>),
           FINISH ]) ])"

definition addGeoms_autoconnect ::
  "mjModel \<Rightarrow> mjData \<Rightarrow> mjvOption \<Rightarrow> mjtCatBit set \<Rightarrow> vstate \<Rightarrow> vstate outcome" where
  "addGeoms_autoconnect m d vopt catmask =
     seq [ assign_objtype mjOBJ_UNKNOWN,
           assign_category mjCAT_DECOR,
           whenever_v (\<lambda>s. flags vopt mjVIS_AUTOCONNECT \<and> category_v s \<in> catmask)
             (for_loop [1 .. nbody m - 1] (addGeoms_autoconnect_body m d)) ]"

definition addGeoms_rangefinder_body ::
  "mjModel \<Rightarrow> mjData \<Rightarrow> int \<Rightarrow> vstate \<Rightarrow> vstate outcome" where
  "addGeoms_rangefinder_body m d i =
     whenever (sensor_type m i = mjSENS_RANGEFINDER)
       (let dst = sensordata d (sensor_adr m i);
            sid = sensor_objid m i
        in seq [
          continue_if (\<lambda>s. dst < 0),
          START_v i,
          connector mjGEOM_LINE (1 / 100)
            (at3 (site_xpos d) (3 * sid))
            (site_xpos d (3 * sid) + site_xmat d (9 * sid + 2) * dst,
             site_xpos d (3 * sid + 1) + site_xmat d (9 * sid + 5) * dst,
             site_xpos d (3 * sid + 2) + site_xmat d (9 * sid + 8) * dst),
          modify_geom (\<lambda>g. g\<lparr> rgba := rgba_rangefinder (vis m) \<rparr>),
          FINISH ])"

definition addGeoms_rangefinder ::
  "mjModel \<Rightarrow> mjData \<Rightarrow> mjvOption \<Rightarrow> mjtCatBit set \<Rightarrow> vstate \<Rightarrow> vstate outcome" where
  "addGeoms_rangefinder m d vopt catmask =
     seq [ assign_objtype mjOBJ_UNKNOWN,
           assign_category mjCAT_DECOR,
           whenever_v (\<lambda>s. flags vopt mjVIS_RANGEFINDER \<and> category_v s \<in> catmask)
             (for_loop [0 .. nsensor m - 1] (addGeoms_rangefinder_body m d)) ]"

text \<open>\<^verbatim>\<open>mju_isZero(d->xfrc_applied+6*i, 6)\<close>: the six entries are all zero.\<close>

definition xfrc_isZero :: "mjData \<Rightarrow> int \<Rightarrow> bool" where
  "xfrc_isZero d i \<longleftrightarrow>
     xfrc_applied d (6 * i) = 0 \<and> xfrc_applied d (6 * i + 1) = 0 \<and> xfrc_applied d (6 * i + 2) = 0
     \<and> xfrc_applied d (6 * i + 3) = 0 \<and> xfrc_applied d (6 * i + 4) = 0
     \<and> xfrc_applied d (6 * i + 5) = 0"

definition addGeoms_pertforce_body ::
  "mjModel \<Rightarrow> mjData \<Rightarrow> mjvOption \<Rightarrow> mjtCatBit set \<Rightarrow> int \<Rightarrow> vstate \<Rightarrow> vstate outcome" where
  "addGeoms_pertforce_body m d vopt catmask i =
     whenever_v (\<lambda>s. \<not> xfrc_isZero d i \<and> category_v s \<in> catmask)
       (let scl = meansize (stat m);
            xp = at3 (xipos d) (3 * i);
            xfrc = at3 (xfrc_applied d) (6 * i)
        in whenever (flags vopt mjVIS_PERTFORCE \<and> mju_norm3 xfrc > mjMINVAL)
             (let vec = mju_scl3 xfrc (map_force (vis m) / meanmass (stat m)) in seq [
                START_v i,
                connector mjGEOM_ARROW (scale_forcewidth (vis m) * scl) xp (mju_add3 xp vec),
                modify_geom (\<lambda>g. g\<lparr> rgba := rgba_force (vis m) \<rparr>),
                FINISH ]))"

definition addGeoms_pertforce ::
  "mjModel \<Rightarrow> mjData \<Rightarrow> mjvOption \<Rightarrow> mjtCatBit set \<Rightarrow> vstate \<Rightarrow> vstate outcome" where
  "addGeoms_pertforce m d vopt catmask =
     seq [ assign_objtype mjOBJ_UNKNOWN,
           assign_category mjCAT_DECOR,
           for_loop [1 .. nbody m - 1] (addGeoms_pertforce_body m d vopt catmask) ]"

subsection \<open>Connect and distance constraints\<close>

definition addGeoms_connect_body ::
  "mjModel \<Rightarrow> mjData \<Rightarrow> mjvOption \<Rightarrow> int \<Rightarrow> vstate \<Rightarrow> vstate outcome" where
  "addGeoms_connect_body m d vopt i =
     whenever (eq_active m i \<and> eq_type m i = mjEQ_CONNECT)
       (let scl = meansize (stat m);
            j = eq_obj1id m i;
            k = eq_obj2id m i;
            vec = mju_add3 (mju_rotVecMat (eq_data m i 0, eq_data m i 1, eq_data m i 2)
                              (at9 (xmat d) (9 * j)))
                           (at3 (xpos d) (3 * j));
            endp = mju_add3 (mju_rotVecMat (eq_data m i 3, eq_data m i 4, eq_data m i 5)
                              (at9 (xmat d) (9 * k)))
                           (at3 (xpos d) (3 * k))
        in seq [
          START_v i,
          connector mjGEOM_CAPSULE (scl * scale_constraint (vis m)) vec endp,
          modify_geom (\<lambda>g. g\<lparr> rgba := rgba_constraint (vis m) \<rparr>),
          whenever (opt_label vopt = mjLABEL_CONSTRAINT)
            (modify_geom (makeLabel mjOBJ_EQUALITY i)),
          FINISH ])"

text \<open>
  Distance constraints: the \<^verbatim>\<open>while\<close> loop walks the contact list from its end for as long
  as the contact has \<^verbatim>\<open>exclude == 3\<close>; these are the contacts \<open>distance_contacts\<close>, in the
  order of the walk. The frame vector \<^verbatim>\<open>con->frame\<close> read by \<^verbatim>\<open>mju_addScl3\<close> is the first row.
\<close>

definition distance_contacts :: "mjData \<Rightarrow> int list" where
  "distance_contacts d = takeWhile (\<lambda>j. con_exclude (contact d j) = 3) (rev [0 .. ncon d - 1])"

definition addGeoms_distance_body ::
  "mjModel \<Rightarrow> mjData \<Rightarrow> mjvOption \<Rightarrow> int \<Rightarrow> vstate \<Rightarrow> vstate outcome" where
  "addGeoms_distance_body m d vopt j =
     (let scl = meansize (stat m);
          i = - con_efc_address (contact d j) - 2;
          con = contact d j;
          len = con_dist con - eq_data m i 0;
          vec = mju_addScl3 (con_pos con) (mat_row (con_frame con) 0) (1 / 2 * len);
          endp = mju_addScl3 (con_pos con) (mat_row (con_frame con) 0) (- (1 / 2) * len)
      in seq [
        START_v i,
        connector mjGEOM_CAPSULE (scl * scale_constraint (vis m)) vec endp,
        modify_geom (\<lambda>g. g\<lparr> rgba := rgba_constraint (vis m) \<rparr>),
        whenever (opt_label vopt = mjLABEL_CONSTRAINT)
          (modify_geom (makeLabel mjOBJ_EQUALITY i)),
        FINISH ])"

definition addGeoms_constraint ::
  "mjModel \<Rightarrow> mjData \<Rightarrow> mjvOption \<Rightarrow> mjtCatBit set \<Rightarrow> vstate \<Rightarrow> vstate outcome" where
  "addGeoms_constraint m d vopt catmask =
     seq [ assign_objtype mjOBJ_EQUALITY,
           assign_category mjCAT_DECOR,
           whenever_v (\<lambda>s. flags vopt mjVIS_CONSTRAINT \<and> category_v s \<in> catmask \<and> neq m \<noteq> 0)
             (seq [ for_loop [0 .. neq m - 1] (addGeoms_connect_body m d vopt),
                    for_loop (distance_contacts d) (addGeoms_distance_body m d vopt) ]) ]"

subsection \<open>The whole of \<^verbatim>\<open>mjv_addGeoms\<close>\<close>

text \<open>
  The category mask \<^verbatim>\<open>catmask\<close> is a set of category bits; \<^verbatim>\<open>category & catmask\<close> is
  membership. A missing perturbation (\<^verbatim>\<open>NULL\<close>) is replaced by the default one.
\<close>

definition mjv_addGeoms ::
  "mjModel \<Rightarrow> mjData \<Rightarrow> mjvOption \<Rightarrow> mjvPerturb option \<Rightarrow> mjtCatBit set \<Rightarrow> vstate \<Rightarrow> vstate outcome" where
  "mjv_addGeoms m d vopt pert_opt catmask0 =
     (let pert = (case pert_opt of None \<Rightarrow> mjv_defaultPerturb | Some p \<Rightarrow> p);
          catmask = (if \<not> flags vopt mjVIS_STATIC then catmask0 - {mjCAT_STATIC} else catmask0)
      in seq [
        addGeoms_skin m d vopt pert catmask,
        addGeoms_inertia m d vopt pert catmask,
        addGeoms_pertobj m d vopt pert catmask,
        addGeoms_bodyframe m d vopt catmask,
        addGeoms_selpnt m d vopt pert catmask,
        addGeoms_bodylabel m d vopt pert catmask,
        addGeoms_joint m d vopt catmask,
        addGeoms_actuator m d vopt catmask,
        addGeoms_geom m d vopt pert catmask,
        addGeoms_site m d vopt pert catmask,
        addGeoms_camera m d vopt catmask,
        addGeoms_light m d vopt catmask,
        addGeoms_tendon m d vopt catmask,
        addGeoms_slidercrank m d vopt catmask,
        addGeoms_com m d vopt catmask,
        addGeoms_autoconnect m d vopt catmask,
        addGeoms_rangefinder m d vopt catmask,
        addGeoms_pertforce m d vopt catmask,
        addGeoms_constraint m d vopt catmask,
        whenever (mjCAT_DECOR \<in> catmask)
          (\<lambda>s. call (addContactGeom m d (flags vopt) vopt s)) ])"

section \<open>Lights, camera and skins\<close>

subsection \<open>\<^verbatim>\<open>mjv_makeLights\<close>\<close>

definition zero_light :: mjvLight where
  "zero_light = \<lparr> l_pos = (0, 0, 0), l_dir = (0, 0, 0), l_attenuation = (0, 0, 0),
                  l_cutoff = 0, l_exponent = 0, l_ambient = (0, 0, 0), l_diffuse = (0, 0, 0),
                  l_specular = (0, 0, 0), l_headlight = False, l_directional = False,
                  l_castshadow = False \<rparr>"

definition makeLights_step :: "mjModel \<Rightarrow> mjData \<Rightarrow> int \<Rightarrow> mjvScene \<Rightarrow> mjvScene" where
  "makeLights_step m d i sc =
     (if nlight sc < maxlight sc \<and> light_active m i
      then (let l0 = zero_light\<lparr> l_directional := light_directional m i,
                                  l_castshadow := light_castshadow m i \<rparr>;
                l1 = (if \<not> l_directional l0
                      then l0\<lparr> l_attenuation := at3 (light_attenuation m) (3 * i),
                               l_exponent := light_exponent m i,
                               l_cutoff := light_cutoff m i \<rparr>
                      else l0);
                l2 = l1\<lparr> l_ambient := at3 (light_ambient m) (3 * i),
                         l_diffuse := at3 (light_diffuse m) (3 * i),
                         l_specular := at3 (light_specular m) (3 * i),
                         l_pos := at3 (light_xpos d) (3 * i),
                         l_dir := at3 (light_xdir d) (3 * i) \<rparr>
            in sc\<lparr> lights := (lights sc)(nlight sc := l2), nlight := nlight sc + 1 \<rparr>)
      else sc)"

definition mjv_makeLights :: "mjModel \<Rightarrow> mjData \<Rightarrow> mjvScene \<Rightarrow> mjvScene" where
  "mjv_makeLights m d sc =
     (let sc0 = sc\<lparr> nlight := 0 \<rparr>;
          sc1 = (if headlight_active (vis m)
                 then sc0\<lparr> lights := (lights sc0)(0 :=
                              zero_light\<lparr> l_headlight := True, l_directional := True,
                                          l_castshadow := False,
                                          l_ambient := headlight_ambient (vis m),
                                          l_diffuse := headlight_diffuse (vis m),
                                          l_specular := headlight_specular (vis m) \<rparr>),
                           nlight := nlight sc0 + 1 \<rparr>
                 else sc0)
      in fold (makeLights_step m d) [0 .. nlight_m m - 1] sc1)"

subsection \<open>\<^verbatim>\<open>mjv_updateCamera\<close>\<close>

text \<open>
  The frame of the camera: head position, forward, up and right axes, interpupillary distance
  and field of view. For a tracking camera the look-at point of the abstract camera moves
  first, so the camera is returned as well. \<^verbatim>\<open>mjPI\<close> is \<open>pi\<close>; \<^verbatim>\<open>mju_cos\<close>, \<^verbatim>\<open>mju_sin\<close>
  and \<^verbatim>\<open>tanf\<close> are \<open>cos\<close>, \<open>sin\<close> and \<open>tan\<close>.
\<close>

record camera_frame =
  headpos :: vec3
  forward :: vec3
  up :: vec3
  right :: vec3
  ipd :: real
  fovy :: real

definition camera_frame_of ::
  "mjModel \<Rightarrow> mjData \<Rightarrow> mjvCamera \<Rightarrow> fatal + (mjvCamera \<times> camera_frame)" where
  "camera_frame_of m d cam =
     (case cam_type cam of
        mjCAMERA_FIXED \<Rightarrow>
          (let cid = fixedcamid cam in
           if cid < 0 \<or> cid \<ge> ncam m then Inl Fixed_camera_id_out_of_range
           else (case at9 (cam_xmat d) (9 * cid) of (m0, m1, m2, m3, m4, m5, m6, m7, m8) \<Rightarrow>
             Inr (cam, \<lparr> headpos = at3 (cam_xpos d) (3 * cid),
                         forward = (- m2, - m5, - m8),
                         up = (m1, m4, m7),
                         right = (m0, m3, m6),
                         ipd = cam_ipd m cid,
                         fovy = cam_fovy m cid \<rparr>)))
      | mjCAMERA_USER \<Rightarrow> Inl Unknown_camera_type
      | mjCAMERA_other k \<Rightarrow> Inl Unknown_camera_type
      | _ \<Rightarrow>
          (let bid = trackbodyid cam in
           if cam_type cam = mjCAMERA_TRACKING \<and> (bid < 0 \<or> bid \<ge> nbody m)
           then Inl Track_body_id_out_of_range
           else
             (let cam' = (if cam_type cam = mjCAMERA_TRACKING
                          then (let move = mju_sub3 (at3 (subtree_com d) (3 * trackbodyid cam))
                                                    (lookat cam)
                                in cam\<lparr> lookat := mju_addScl3 (lookat cam) move (2 / 10) \<rparr>)
                          else cam);
                  ca = cos (azimuth cam' / 180 * pi);
                  sa = sin (azimuth cam' / 180 * pi);
                  ce = cos (elevation cam' / 180 * pi);
                  se = sin (elevation cam' / 180 * pi);
                  fwd = (ce * ca, ce * sa, se)
              in Inr (cam', \<lparr> headpos = mju_addScl3 (lookat cam') fwd (- distance cam'),
                              forward = fwd,
                              up = (- se * ca, - se * sa, ce),
                              right = (sa, - ca, 0),
                              ipd = global_ipd (vis m),
                              fovy = global_fovy (vis m) \<rparr>))))"

text \<open>The GL camera of one view: \<^verbatim>\<open>view\<close> is 0 for the left eye and 1 for the right eye.\<close>

definition gl_camera :: "mjModel \<Rightarrow> camera_frame \<Rightarrow> int \<Rightarrow> mjvGLCamera" where
  "gl_camera m f view =
     (let znear = map_znear (vis m) * extent (stat m);
          zfar = map_zfar (vis m) * extent (stat m);
          top = znear * tan (fovy f * (pi / 360))
      in \<lparr> gl_pos = mju_add3 (headpos f)
                      (mju_scl3 (right f) ((if view \<noteq> 0 then ipd f else - ipd f) * (1 / 2))),
            gl_forward = forward f,
            gl_up = up f,
            frustum_center = 0,
            frustum_bottom = - top,
            frustum_top = top,
            frustum_near = znear,
            frustum_far = zfar \<rparr>)"

definition mjv_updateCamera ::
  "mjModel option \<Rightarrow> mjData \<Rightarrow> mjvCamera option \<Rightarrow> mjvScene
     \<Rightarrow> fatal + (mjvCamera option \<times> mjvScene)" where
  "mjv_updateCamera mo d camo sc =
     (case (mo, camo) of
        (Some m, Some cam) \<Rightarrow>
          if cam_type cam = mjCAMERA_USER then Inr (camo, sc)
          else (case camera_frame_of m d cam of
                  Inl e \<Rightarrow> Inl e
                | Inr (cam', f) \<Rightarrow>
                    Inr (Some cam', sc\<lparr> camera := (gl_camera m f 0, gl_camera m f 1),
                                        enabletransform := False \<rparr>))
      | _ \<Rightarrow> Inr (camo, sc))"

subsection \<open>\<^verbatim>\<open>mjv_updateSkin\<close>\<close>

text \<open>
  The skin buffers \<^verbatim>\<open>scn->skinvert\<close> and \<^verbatim>\<open>scn->skinnormal\<close> are the pair of functions the
  loops update. \<^verbatim>\<open>memset\<close> on a sub-range sets its entries to zero.
\<close>

definition clear_range :: "int \<Rightarrow> int \<Rightarrow> (int \<Rightarrow> real) \<Rightarrow> (int \<Rightarrow> real)" where
  "clear_range off n a = (\<lambda>k. if off \<le> k \<and> k < off + n then 0 else a k)"

text \<open>Rotation and translation of bone \<open>j\<close>.\<close>

definition bone_rotate :: "mjModel \<Rightarrow> mjData \<Rightarrow> int \<Rightarrow> mat33" where
  "bone_rotate m d j =
     (let bindquat = at4 (skin_bonebindquat m) (4 * j);
          bodyid = skin_bonebodyid m j;
          quatneg = mju_negQuat bindquat;
          quat = mju_mulQuat (at4 (xquat d) (4 * bodyid)) quatneg
      in mju_quat2Mat quat)"

definition bone_translate :: "mjModel \<Rightarrow> mjData \<Rightarrow> int \<Rightarrow> vec3" where
  "bone_translate m d j =
     (let bindpos = at3 (skin_bonebindpos m) (3 * j);
          bodyid = skin_bonebodyid m j;
          translate = mju_rotVecMat bindpos (bone_rotate m d j)
      in mju_sub3 (at3 (xpos d) (3 * bodyid)) translate)"

text \<open>One weighted vertex \<open>k\<close> of bone \<open>j\<close> of the skin whose vertices start at \<open>vertadr\<close>.\<close>

definition skin_accumulate ::
  "mjModel \<Rightarrow> mjData \<Rightarrow> int \<Rightarrow> int \<Rightarrow> int \<Rightarrow> (int \<Rightarrow> real) \<Rightarrow> (int \<Rightarrow> real)" where
  "skin_accumulate m d vertadr j k sv =
     (let vid = skin_bonevertid m k;
          vweight = skin_bonevertweight m k;
          p = at3 (skin_vert m) (3 * (vertadr + vid));
          pos1 = mju_add3 (mju_rotVecMat p (bone_rotate m d j)) (bone_translate m d j)
      in case pos1 of (p0, p1, p2) \<Rightarrow>
           (let sv0 = sv(3 * (vertadr + vid) := sv (3 * (vertadr + vid)) + vweight * p0);
                sv1 = sv0(3 * (vertadr + vid) + 1 := sv0 (3 * (vertadr + vid) + 1) + vweight * p1)
            in sv1(3 * (vertadr + vid) + 2 := sv1 (3 * (vertadr + vid) + 2) + vweight * p2)))"

definition skin_bone :: "mjModel \<Rightarrow> mjData \<Rightarrow> int \<Rightarrow> int \<Rightarrow> (int \<Rightarrow> real) \<Rightarrow> (int \<Rightarrow> real)" where
  "skin_bone m d vertadr j sv =
     fold (skin_accumulate m d vertadr j)
       [skin_bonevertadr m j .. skin_bonevertadr m j + skin_bonevertnum m j - 1] sv"

text \<open>The normal of face \<open>k\<close>, added to the normals of its three vertices.\<close>

definition add_at3 :: "int \<Rightarrow> vec3 \<Rightarrow> (int \<Rightarrow> real) \<Rightarrow> (int \<Rightarrow> real)" where
  "add_at3 off v a =
     (case v of (v0, v1, v2) \<Rightarrow>
        (let a0 = a(off := a off + v0);
             a1 = a0(off + 1 := a0 (off + 1) + v1)
         in a1(off + 2 := a1 (off + 2) + v2)))"

definition skin_face_normal ::
  "mjModel \<Rightarrow> int \<Rightarrow> (int \<Rightarrow> real) \<Rightarrow> int \<Rightarrow> (int \<Rightarrow> real) \<Rightarrow> (int \<Rightarrow> real)" where
  "skin_face_normal m vertadr sv k sn =
     (let vid0 = skin_face m (3 * k); vid1 = skin_face m (3 * k + 1);
          vid2 = skin_face m (3 * k + 2);
          vec01 = mju_sub3 (at3 sv (3 * (vertadr + vid1))) (at3 sv (3 * (vertadr + vid0)));
          vec02 = mju_sub3 (at3 sv (3 * (vertadr + vid2))) (at3 sv (3 * (vertadr + vid0)));
          nrm = mju_cross vec01 vec02
      in add_at3 (3 * (vertadr + vid2)) nrm
           (add_at3 (3 * (vertadr + vid1)) nrm (add_at3 (3 * (vertadr + vid0)) nrm sn)))"

definition skin_normalize :: "int \<Rightarrow> (int \<Rightarrow> real) \<Rightarrow> (int \<Rightarrow> real)" where
  "skin_normalize k sn =
     (let s = sqrt (sn (3 * k) * sn (3 * k) + sn (3 * k + 1) * sn (3 * k + 1)
                    + sn (3 * k + 2) * sn (3 * k + 2));
          scl = 1 / mjMAX mjMINVAL s;
          sn0 = sn(3 * k := sn (3 * k) * scl);
          sn1 = sn0(3 * k + 1 := sn0 (3 * k + 1) * scl)
      in sn1(3 * k + 2 := sn1 (3 * k + 2) * scl))"

definition skin_inflate_vertex ::
  "real \<Rightarrow> (int \<Rightarrow> real) \<Rightarrow> int \<Rightarrow> (int \<Rightarrow> real) \<Rightarrow> (int \<Rightarrow> real)" where
  "skin_inflate_vertex inflate sn k sv =
     (let sv0 = sv(3 * k := sv (3 * k) + inflate * sn (3 * k));
          sv1 = sv0(3 * k + 1 := sv0 (3 * k + 1) + inflate * sn (3 * k + 1))
      in sv1(3 * k + 2 := sv1 (3 * k + 2) + inflate * sn (3 * k + 2)))"

text \<open>Skin \<open>i\<close>: positions from all bones, normals from the faces, inflation.\<close>

definition skin_positions :: "mjModel \<Rightarrow> mjData \<Rightarrow> int \<Rightarrow> (int \<Rightarrow> real) \<Rightarrow> (int \<Rightarrow> real)" where
  "skin_positions m d i sv =
     fold (skin_bone m d (skin_vertadr m i))
       [skin_boneadr m i .. skin_boneadr m i + skin_bonenum m i - 1]
       (clear_range (3 * skin_vertadr m i) (3 * skin_vertnum m i) sv)"

definition updateSkin_skin ::
  "mjModel \<Rightarrow> mjData \<Rightarrow> int \<Rightarrow> (int \<Rightarrow> real) \<times> (int \<Rightarrow> real) \<Rightarrow> (int \<Rightarrow> real) \<times> (int \<Rightarrow> real)" where
  "updateSkin_skin m d i buf =
     (case buf of (sv, sn) \<Rightarrow>
        let vertadr = skin_vertadr m i; vertnum = skin_vertnum m i;
            faceadr = skin_faceadr m i; facenum = skin_facenum m i;
            sv1 = skin_positions m d i sv;
            sn0 = clear_range (3 * vertadr) (3 * vertnum) sn;
            sn1 = fold (skin_face_normal m vertadr sv1) [faceadr .. faceadr + facenum - 1] sn0;
            sn2 = fold skin_normalize [vertadr .. vertadr + vertnum - 1] sn1
        in if skin_inflate m i \<noteq> 0
           then (fold (skin_inflate_vertex (skin_inflate m i) sn2)
                   [vertadr .. vertadr + vertnum - 1] sv1, sn2)
           else (sv1, sn2))"

definition mjv_updateSkin :: "mjModel \<Rightarrow> mjData \<Rightarrow> mjvScene \<Rightarrow> mjvScene" where
  "mjv_updateSkin m d sc =
     (case fold (updateSkin_skin m d) [0 .. nskin m - 1] (skinvert sc, skinnormal sc) of
        (sv, sn) \<Rightarrow> sc\<lparr> skinvert := sv, skinnormal := sn \<rparr>)"

subsection \<open>\<^verbatim>\<open>mjv_updateScene\<close>\<close>

text \<open>
  The whole update: clear the geoms and add all categories, add the lights, update the camera
  and, when skins are shown, the skins. A fatal error of a part is the result of the whole.
\<close>

definition mjv_updateScene ::
  "mjModel \<Rightarrow> mjData \<Rightarrow> mjvOption \<Rightarrow> mjvPerturb option \<Rightarrow> mjvCamera option \<Rightarrow> mjtCatBit set
     \<Rightarrow> vstate \<Rightarrow> fatal + (mjvCamera option \<times> vstate)" where
  "mjv_updateScene m d opt pert camo catmask s =
     (case finish (mjv_addGeoms m d opt pert catmask (s\<lparr> scn := (scn s)\<lparr> ngeom := 0 \<rparr> \<rparr>)) of
        Inl e \<Rightarrow> Inl e
      | Inr s1 \<Rightarrow>
          (case mjv_updateCamera (Some m) d camo (mjv_makeLights m d (scn s1)) of
             Inl e \<Rightarrow> Inl e
           | Inr (camo', sc2) \<Rightarrow>
               Inr (camo', s1\<lparr> scn := (if flags opt mjVIS_SKIN then mjv_updateSkin m d sc2
                                        else sc2) \<rparr>)))"

section \<open>Assertions about assembly\<close>

text \<open>
  A statement \<open>f\<close> run in a state that satisfies \<open>P\<close> ends normally in a state that
  satisfies \<open>Qn\<close>, by \<^verbatim>\<open>continue\<close> in one that satisfies \<open>Qc\<close>, by \<^verbatim>\<open>return\<close> in one that
  satisfies \<open>Qr\<close>, or fatally.
\<close>

definition hoare ::
  "('s \<Rightarrow> bool) \<Rightarrow> ('s \<Rightarrow> 's outcome) \<Rightarrow> ('s \<Rightarrow> bool) \<Rightarrow> ('s \<Rightarrow> bool) \<Rightarrow> ('s \<Rightarrow> bool) \<Rightarrow> bool" where
  "hoare P f Qn Qc Qr \<longleftrightarrow>
     (\<forall>s. P s \<longrightarrow> (case f s of Normal s' \<Rightarrow> Qn s' | Continue s' \<Rightarrow> Qc s'
                      | Return s' \<Rightarrow> Qr s' | Fatal e \<Rightarrow> True))"

text \<open>
  The scene buffer during assembly, relative to the capacity \<open>M\<close>, the number \<open>w\<close> of
  warnings recorded before and the contents \<open>G\<close> of the memory around the buffer: the count
  is within the capacity (strictly, when \<open>b\<close> says that a primitive is under construction
  between \<^verbatim>\<open>START\<close> and \<^verbatim>\<open>FINISH\<close>), no warning has been added and nothing outside the
  slots \<open>0 .. M - 1\<close> has been written.
\<close>

definition emitting :: "int \<Rightarrow> int \<Rightarrow> (int \<Rightarrow> mjvGeom) \<Rightarrow> bool \<Rightarrow> vstate \<Rightarrow> bool" where
  "emitting M w G b s \<longleftrightarrow>
     maxgeom (scn s) = M \<and> 0 \<le> ngeom (scn s)
     \<and> (if b then ngeom (scn s) < M else ngeom (scn s) \<le> M)
     \<and> warning_number s = w
     \<and> (\<forall>k. k < 0 \<or> M \<le> k \<longrightarrow> geoms (scn s) k = G k)"

text \<open>
  The state after an emission found the buffer full: the count equals the capacity, exactly
  one warning has been added, with the capacity as its information.
\<close>

definition overflowed :: "int \<Rightarrow> int \<Rightarrow> (int \<Rightarrow> mjvGeom) \<Rightarrow> vstate \<Rightarrow> bool" where
  "overflowed M w G s \<longleftrightarrow>
     maxgeom (scn s) = M \<and> ngeom (scn s) = M
     \<and> warning_number s = w + 1 \<and> warning_lastinfo s = M
     \<and> (\<forall>k. k < 0 \<or> M \<le> k \<longrightarrow> geoms (scn s) k = G k)"

definition tr ::
  "int \<Rightarrow> int \<Rightarrow> (int \<Rightarrow> mjvGeom) \<Rightarrow> bool \<Rightarrow> (vstate \<Rightarrow> vstate outcome) \<Rightarrow> bool \<Rightarrow> bool" where
  "tr M w G b f b' \<longleftrightarrow>
     hoare (emitting M w G b) f (emitting M w G b') (emitting M w G False) (overflowed M w G)"

text \<open>
  A rotation matrix: the rows are orthonormal and right-handed.
\<close>

definition is_rotation :: "mat33 \<Rightarrow> bool" where
  "is_rotation M \<longleftrightarrow>
     mju_dot3 (mat_row M 0) (mat_row M 0) = 1 \<and> mju_dot3 (mat_row M 1) (mat_row M 1) = 1
     \<and> mju_dot3 (mat_row M 2) (mat_row M 2) = 1
     \<and> mju_dot3 (mat_row M 0) (mat_row M 1) = 0 \<and> mju_dot3 (mat_row M 0) (mat_row M 2) = 0
     \<and> mju_dot3 (mat_row M 1) (mat_row M 2) = 0
     \<and> mju_cross (mat_row M 0) (mat_row M 1) = mat_row M 2"

text \<open>
  The total weight of vertex \<open>v\<close> of skin \<open>i\<close>: the sum of the weights with which the bones
  of the skin list the vertex.
\<close>

definition bone_vertex_weight :: "mjModel \<Rightarrow> int \<Rightarrow> int \<Rightarrow> real" where
  "bone_vertex_weight m j v =
     sum_list (map (\<lambda>k. if skin_bonevertid m k = v then skin_bonevertweight m k else 0)
       [skin_bonevertadr m j .. skin_bonevertadr m j + skin_bonevertnum m j - 1])"

definition skin_vertex_weight :: "mjModel \<Rightarrow> int \<Rightarrow> int \<Rightarrow> real" where
  "skin_vertex_weight m i v =
     sum_list (map (\<lambda>j. bone_vertex_weight m j v)
       [skin_boneadr m i .. skin_boneadr m i + skin_bonenum m i - 1])"

text \<open>
  The trace of a matrix. A rotation through the angle \<open>\<theta>\<close> has the trace \<open>1 + 2 cos \<theta>\<close>: of
  two rotations, the one with the larger trace turns through the smaller angle.
\<close>

fun mat_trace :: "mat33 \<Rightarrow> real" where
  "mat_trace (m0, m1, m2, m3, m4, m5, m6, m7, m8) = m0 + m4 + m8"

text \<open>
  The positions of the left and the right eye that a camera update leaves in the scene, if it
  does not end fatally.
\<close>

fun eye_positions :: "fatal + (mjvCamera option \<times> mjvScene) \<Rightarrow> (vec3 \<times> vec3) option" where
  "eye_positions (Inl e) = None"
| "eye_positions (Inr (c, sc)) = Some (gl_pos (fst (camera sc)), gl_pos (snd (camera sc)))"

text \<open>
  Bone \<open>j\<close> is in its bind pose: the position and the orientation of its body are the bind
  position and the bind quaternion of the bone. A skin is in its bind pose when all its bones
  are; its bind quaternions are normalized when each has unit length.
\<close>

definition bone_in_bind_pose :: "mjModel \<Rightarrow> mjData \<Rightarrow> int \<Rightarrow> bool" where
  "bone_in_bind_pose m d j \<longleftrightarrow>
     at4 (xquat d) (4 * skin_bonebodyid m j) = at4 (skin_bonebindquat m) (4 * j)
     \<and> at3 (xpos d) (3 * skin_bonebodyid m j) = at3 (skin_bonebindpos m) (3 * j)"

definition skin_bones :: "mjModel \<Rightarrow> int \<Rightarrow> int list" where
  "skin_bones m i = [skin_boneadr m i .. skin_boneadr m i + skin_bonenum m i - 1]"

definition skin_in_bind_pose :: "mjModel \<Rightarrow> mjData \<Rightarrow> int \<Rightarrow> bool" where
  "skin_in_bind_pose m d i = list_all (bone_in_bind_pose m d) (skin_bones m i)"

fun unit_quat :: "vec4 \<Rightarrow> bool" where
  "unit_quat (q0, q1, q2, q3) \<longleftrightarrow> q0 * q0 + q1 * q1 + q2 * q2 + q3 * q3 = 1"

definition skin_bind_normalized :: "mjModel \<Rightarrow> int \<Rightarrow> bool" where
  "skin_bind_normalized m i =
     list_all (\<lambda>j. unit_quat (at4 (skin_bonebindquat m) (4 * j))) (skin_bones m i)"

text \<open>
  The layout of the skins in the vertex buffers. A skin is confined when every vertex its
  bones list is one of its own vertices; two skins are apart when their vertex ranges do not
  overlap.
\<close>

definition skin_confined :: "mjModel \<Rightarrow> int \<Rightarrow> bool" where
  "skin_confined m i =
     list_all (\<lambda>j. list_all (\<lambda>k. 0 \<le> skin_bonevertid m k \<and> skin_bonevertid m k < skin_vertnum m i)
                       [skin_bonevertadr m j .. skin_bonevertadr m j + skin_bonevertnum m j - 1])
       (skin_bones m i)"

definition skins_apart :: "mjModel \<Rightarrow> int \<Rightarrow> int \<Rightarrow> bool" where
  "skins_apart m i i' \<longleftrightarrow>
     skin_vertadr m i' + skin_vertnum m i' \<le> skin_vertadr m i
     \<or> skin_vertadr m i + skin_vertnum m i \<le> skin_vertadr m i'"

text \<open>Vertex \<open>v\<close> of skin \<open>i\<close> in a vertex buffer.\<close>

definition skin_vertex :: "mjModel \<Rightarrow> int \<Rightarrow> int \<Rightarrow> (int \<Rightarrow> real) \<Rightarrow> vec3" where
  "skin_vertex m i v a = at3 a (3 * (skin_vertadr m i + v))"

text \<open>
  Every primitive counted from slot \<open>n0\<close> on has the colour \<open>col\<close>; with \<open>built\<close>, the
  primitive under construction has it too.
\<close>

definition colored :: "int \<Rightarrow> vec4 \<Rightarrow> bool \<Rightarrow> vstate \<Rightarrow> bool" where
  "colored n0 col built s \<longleftrightarrow>
     n0 \<le> ngeom (scn s)
     \<and> (\<forall>k. n0 \<le> k \<and> k < ngeom (scn s) \<longrightarrow> rgba (geoms (scn s) k) = col)
     \<and> (built \<longrightarrow> rgba (thisgeom s) = col)"

text \<open>
  The colour that material resolution (\<^verbatim>\<open>setMaterial\<close>) leaves on a primitive of category
  \<open>cat\<close>, for a material index and a fallback colour.
\<close>

definition resolved_rgba :: "mjModel \<Rightarrow> mjtCatBit \<Rightarrow> int \<Rightarrow> vec4 \<Rightarrow> (mjtVisFlag \<Rightarrow> bool) \<Rightarrow> vec4" where
  "resolved_rgba m cat matid col flgs =
     rgba (setMaterial m (geom0\<lparr> category := cat \<rparr>) matid col flgs)"

text \<open>
  What a run of assembly leaves to see: how it ended, how many primitives the scene counts and
  how many warnings are recorded; the type and the label of every counted primitive.
\<close>

datatype ending = Ended_normally | Ended_by_continue | Ended_by_return

fun summary :: "vstate outcome \<Rightarrow> (ending \<times> int \<times> int) option" where
  "summary (Normal s) = Some (Ended_normally, ngeom (scn s), warning_number s)"
| "summary (Continue s) = Some (Ended_by_continue, ngeom (scn s), warning_number s)"
| "summary (Return s) = Some (Ended_by_return, ngeom (scn s), warning_number s)"
| "summary (Fatal e) = None"

definition primitives :: "vstate \<Rightarrow> (mjtGeom \<times> vlabel) list" where
  "primitives s =
     map (\<lambda>k. (type (geoms (scn s) k), label (geoms (scn s) k))) [0 .. ngeom (scn s) - 1]"

fun emitted :: "vstate outcome \<Rightarrow> (mjtGeom \<times> vlabel) list option" where
  "emitted (Normal s) = Some (primitives s)"
| "emitted (Continue s) = Some (primitives s)"
| "emitted (Return s) = Some (primitives s)"
| "emitted (Fatal e) = None"

text \<open>
  A statement run in state \<open>s\<close> emitted nothing: it did not end fatally, the count is the
  one of \<open>s\<close> and every counted primitive is as it was.
\<close>

definition same_primitives :: "vstate \<Rightarrow> vstate \<Rightarrow> bool" where
  "same_primitives s s' \<longleftrightarrow>
     ngeom (scn s') = ngeom (scn s)
     \<and> (\<forall>k. k < ngeom (scn s) \<longrightarrow> geoms (scn s') k = geoms (scn s) k)"

fun no_emission :: "vstate \<Rightarrow> vstate outcome \<Rightarrow> bool" where
  "no_emission s (Normal s') = same_primitives s s'"
| "no_emission s (Continue s') = same_primitives s s'"
| "no_emission s (Return s') = same_primitives s s'"
| "no_emission s (Fatal e) = False"

section \<open>Example inputs\<close>

text \<open>Concrete values at which the theorems below are instantiated and evaluated.\<close>
text \<open>
  A model, a state, options and a scene in which every count is zero, every array is zero,
  every flag is off and every group is enabled; the examples below change a few fields.
\<close>

definition visual0 :: mjVisual where
  "visual0 = \<lparr>
    global_fovy = 0, global_ipd = 0, global_glow = 0, map_force = 0, map_alpha = 0,
      map_znear = 0, map_zfar = 0, map_actuatortendon = 0, scale_forcewidth = 0,
      scale_contactwidth = 0, scale_contactheight = 0, scale_connect = 0, scale_com = 0,
      scale_camera = 0, scale_light = 0, scale_selectpoint = 0, scale_jointlength = 0,
      scale_jointwidth = 0, scale_actuatorlength = 0, scale_actuatorwidth = 0,
      scale_framelength = 0, scale_framewidth = 0, scale_constraint = 0, scale_slidercrank = 0,
      headlight_active = False, headlight_ambient = (0, 0, 0), headlight_diffuse = (0, 0, 0),
      headlight_specular = (0, 0, 0), rgba_joint = (0, 0, 0, 0), rgba_actuator = (0, 0, 0, 0),
      rgba_actuatornegative = (0, 0, 0, 0), rgba_actuatorpositive = (0, 0, 0, 0),
      rgba_com = (0, 0, 0, 0), rgba_camera = (0, 0, 0, 0), rgba_light = (0, 0, 0, 0),
      rgba_selectpoint = (0, 0, 0, 0), rgba_connect = (0, 0, 0, 0),
      rgba_contactpoint = (0, 0, 0, 0), rgba_contactforce = (0, 0, 0, 0),
      rgba_contactfriction = (0, 0, 0, 0), rgba_contactgap = (0, 0, 0, 0),
      rgba_rangefinder = (0, 0, 0, 0), rgba_constraint = (0, 0, 0, 0),
      rgba_slidercrank = (0, 0, 0, 0), rgba_crankbroken = (0, 0, 0, 0),
      rgba_inertia = (0, 0, 0, 0), rgba_force = (0, 0, 0, 0) \<rparr>"

definition model0 :: mjModel where
  "model0 = \<lparr>
    nbody = 0, njnt = 0, ngeom_m = 0, nsite = 0, ncam = 0, nlight_m = 0, ntendon = 0, nu = 0,
      na = 0, nskin = 0, neq = 0, nsensor = 0, body_weldid = (\<lambda>k. 0),
      body_mocapid = (\<lambda>k. 0), body_rootid = (\<lambda>k. 0),
      body_parentid = (\<lambda>k. 0), body_jntnum = (\<lambda>k. 0),
      body_jntadr = (\<lambda>k. 0), body_mass = (\<lambda>k. 0),
      body_inertia = (\<lambda>k. 0), jnt_group = (\<lambda>k. 0),
      jnt_bodyid = (\<lambda>k. 0), jnt_type = (\<lambda>k. mjJNT_HINGE),
      actuator_group = (\<lambda>k. 0), actuator_ctrllimited = (\<lambda>k. False),
      actuator_ctrlrange = (\<lambda>k. 0), actuator_actlimited = (\<lambda>k. False),
      actuator_actrange = (\<lambda>k. 0), actuator_dyntype = (\<lambda>k. 0),
      actuator_trnid = (\<lambda>k. 0), actuator_trntype = (\<lambda>k. mjTRN_UNDEFINED),
      actuator_cranklength = (\<lambda>k. 0), site_size = (\<lambda>k. 0),
      site_type = (\<lambda>k. mjGEOM_SPHERE), site_bodyid = (\<lambda>k. 0),
      site_group = (\<lambda>k. 0), site_matid = (\<lambda>k. 0), site_rgba = (\<lambda>k. 0),
      geom_type = (\<lambda>k. mjGEOM_SPHERE), geom_bodyid = (\<lambda>k. 0),
      geom_group = (\<lambda>k. 0), geom_dataid = (\<lambda>k. 0),
      geom_matid = (\<lambda>k. 0), geom_size = (\<lambda>k. 0), geom_rgba = (\<lambda>k. 0),
      geom_rbound = (\<lambda>k. 0), mesh_texcoordadr = (\<lambda>k. 0),
      mesh_graphadr = (\<lambda>k. 0), mat_texrepeat = (\<lambda>k. 0),
      mat_rgba = (\<lambda>k. 0), mat_texuniform = (\<lambda>k. 0),
      mat_emission = (\<lambda>k. 0), mat_specular = (\<lambda>k. 0),
      mat_shininess = (\<lambda>k. 0), mat_reflectance = (\<lambda>k. 0),
      mat_texid = (\<lambda>k. 0), tendon_width = (\<lambda>k. 0),
      tendon_matid = (\<lambda>k. 0), tendon_group = (\<lambda>k. 0),
      tendon_rgba = (\<lambda>k. 0), skin_matid = (\<lambda>k. 0), skin_rgba = (\<lambda>k. 0),
      skin_inflate = (\<lambda>k. 0), skin_texcoordadr = (\<lambda>k. 0),
      skin_vertadr = (\<lambda>k. 0), skin_vertnum = (\<lambda>k. 0),
      skin_faceadr = (\<lambda>k. 0), skin_facenum = (\<lambda>k. 0),
      skin_boneadr = (\<lambda>k. 0), skin_bonenum = (\<lambda>k. 0),
      skin_vert = (\<lambda>k. 0), skin_face = (\<lambda>k. 0),
      skin_bonevertadr = (\<lambda>k. 0), skin_bonevertnum = (\<lambda>k. 0),
      skin_bonebindpos = (\<lambda>k. 0), skin_bonebindquat = (\<lambda>k. 0),
      skin_bonebodyid = (\<lambda>k. 0), skin_bonevertid = (\<lambda>k. 0),
      skin_bonevertweight = (\<lambda>k. 0), sensor_type = (\<lambda>k. mjSENS_other),
      sensor_adr = (\<lambda>k. 0), sensor_objid = (\<lambda>k. 0),
      eq_active = (\<lambda>k. False), eq_type = (\<lambda>k. mjEQ_other),
      eq_obj1id = (\<lambda>k. 0), eq_obj2id = (\<lambda>k. 0), eq_data = (\<lambda>i k. 0),
      light_active = (\<lambda>k. False), light_directional = (\<lambda>k. False),
      light_castshadow = (\<lambda>k. False), light_attenuation = (\<lambda>k. 0),
      light_exponent = (\<lambda>k. 0), light_cutoff = (\<lambda>k. 0),
      light_ambient = (\<lambda>k. 0), light_diffuse = (\<lambda>k. 0),
      light_specular = (\<lambda>k. 0), cam_ipd = (\<lambda>k. 0), cam_fovy = (\<lambda>k. 0),
      vis = visual0, stat = \<lparr> meansize = 1, meanmass = 1, extent = 1 \<rparr> \<rparr>"

definition contact0 :: mjContact where
  "contact0 = \<lparr>
    con_dist = 0, con_pos = (0, 0, 0), con_frame = (1, 0, 0, 0, 1, 0, 0, 0, 1), con_dim = 0,
      con_geom1 = 0, con_geom2 = 0, con_exclude = 0, con_efc_address = 0 \<rparr>"

definition data0 :: mjData where
  "data0 = \<lparr>
    xpos = (\<lambda>k. 0), xquat = (\<lambda>k. 0), xmat = (\<lambda>k. 0),
      xipos = (\<lambda>k. 0), ximat = (\<lambda>k. 0), xanchor = (\<lambda>k. 0),
      xaxis = (\<lambda>k. 0), act = (\<lambda>k. 0), ctrl = (\<lambda>k. 0),
      site_xpos = (\<lambda>k. 0), site_xmat = (\<lambda>k. 0), geom_xpos = (\<lambda>k. 0),
      geom_xmat = (\<lambda>k. 0), cam_xpos = (\<lambda>k. 0), cam_xmat = (\<lambda>k. 0),
      light_xpos = (\<lambda>k. 0), light_xdir = (\<lambda>k. 0),
      ten_wrapadr = (\<lambda>k. 0), ten_wrapnum = (\<lambda>k. 0), wrap_obj = (\<lambda>k. 0),
      wrap_xpos = (\<lambda>k. 0), subtree_com = (\<lambda>k. 0), sensordata = (\<lambda>k. 0),
      xfrc_applied = (\<lambda>k. 0), ncon = 0, contact = (\<lambda>k. contact0),
      contact_force = (\<lambda>k. ((0, 0, 0), (0, 0, 0))) \<rparr>"

definition vopt0 :: mjvOption where
  "vopt0 = \<lparr> opt_label = mjLABEL_NONE, opt_frame = mjFRAME_NONE,
             geomgroup = [True, True, True, True, True, True],
             sitegroup = [True, True, True, True, True, True],
             jointgroup = [True, True, True, True, True, True],
             tendongroup = [True, True, True, True, True, True],
             actuatorgroup = [True, True, True, True, True, True],
             flags = (\<lambda>f. False) \<rparr>"

definition glcamera0 :: mjvGLCamera where
  "glcamera0 = \<lparr> gl_pos = (0, 0, 0), gl_forward = (0, 0, 0), gl_up = (0, 0, 0),
                  frustum_center = 0, frustum_bottom = 0, frustum_top = 0, frustum_near = 0,
                  frustum_far = 0 \<rparr>"

text \<open>A scene with room for \<open>n\<close> primitives, and the state that holds it.\<close>

definition scene_of :: "int \<Rightarrow> mjvScene" where
  "scene_of n = \<lparr> maxgeom = n, ngeom = 0, geoms = (\<lambda>k. geom0), maxlight = 8, nlight = 0,
                  lights = (\<lambda>k. zero_light), camera = (glcamera0, glcamera0),
                  skinvert = (\<lambda>k. 0), skinnormal = (\<lambda>k. 0), enabletransform = False \<rparr>"

definition state_of :: "int \<Rightarrow> vstate" where
  "state_of n = \<lparr> scn = scene_of n, warning_lastinfo = 0, warning_number = 0,
                  objtype_v = mjOBJ_UNKNOWN, category_v = mjCAT_DECOR \<rparr>"

definition all_categories :: "mjtCatBit set" where
  "all_categories = {mjCAT_STATIC, mjCAT_DYNAMIC, mjCAT_DECOR}"

text \<open>One camera and one light, both shown as icons.\<close>

definition cam_model :: mjModel where
  "cam_model = model0\<lparr> ncam := 1, nlight_m := 1 \<rparr>"

definition cam_vopt :: mjvOption where
  "cam_vopt = vopt0\<lparr> flags := (\<lambda>f. f = mjVIS_CAMERA \<or> f = mjVIS_LIGHT) \<rparr>"

text \<open>
  One contact of dimension 3 that is included in the solve, with normal force 3 and friction
  force 4; options that show contact forces, split, with and without the contact point and
  the force label.
\<close>

definition contact_data :: mjData where
  "contact_data = data0\<lparr> ncon := 1, contact := (\<lambda>k. contact0\<lparr> con_dim := 3 \<rparr>),
                          contact_force := (\<lambda>k. ((3, 4, 0), (0, 0, 0))) \<rparr>"

definition split_vopt :: mjvOption where
  "split_vopt = vopt0\<lparr> flags := (\<lambda>f. f = mjVIS_CONTACTFORCE \<or> f = mjVIS_CONTACTSPLIT) \<rparr>"

definition split_point_vopt :: mjvOption where
  "split_point_vopt =
     vopt0\<lparr> opt_label := mjLABEL_CONTACTFORCE,
            flags := (\<lambda>f. f = mjVIS_CONTACTFORCE \<or> f = mjVIS_CONTACTSPLIT
                         \<or> f = mjVIS_CONTACTPOINT) \<rparr>"

text \<open>
  One skin without material whose colour (1, 0, 0, 0) is fully transparent, shown, and
  selected by the perturbation.
\<close>

definition skin_model :: mjModel where
  "skin_model = model0\<lparr> nskin := 1, skin_matid := (\<lambda>k. - 1),
                        skin_rgba := (\<lambda>k. if k = 0 then 1 else 0) \<rparr>"

definition skin_vopt :: mjvOption where
  "skin_vopt = vopt0\<lparr> flags := (\<lambda>f. f = mjVIS_SKIN) \<rparr>"

definition skin_pert :: mjvPerturb where
  "skin_pert = mjv_defaultPerturb\<lparr> skinselect := 0 \<rparr>"

text \<open>
  One actuator on a hinge joint, with control range -1 .. 2 and control value 1; the reference
  colours are blue (negative limit), grey (neutral) and red (positive limit).
\<close>

definition act_model :: mjModel where
  "act_model = model0\<lparr> nu := 1, actuator_ctrllimited := (\<lambda>k. True),
                       actuator_trntype := (\<lambda>k. mjTRN_JOINT),
                       actuator_ctrlrange := (\<lambda>k. if k = 0 then - 1 else 2),
                       vis := visual0\<lparr> rgba_actuatornegative := (0, 0, 1, 1),
                                       rgba_actuator := (1 / 2, 1 / 2, 1 / 2, 1),
                                       rgba_actuatorpositive := (1, 0, 0, 1) \<rparr> \<rparr>"

definition act_data :: mjData where
  "act_data = data0\<lparr> ctrl := (\<lambda>k. 1) \<rparr>"

text \<open>
  One skin with one vertex at (1, 1, 1), listed by one bone with weight 1/2; the bone is bound
  at the origin with the identity orientation, and its body is in that pose.
\<close>

definition half_skin_model :: mjModel where
  "half_skin_model = model0\<lparr> nskin := 1, skin_vertnum := (\<lambda>k. 1), skin_bonenum := (\<lambda>k. 1),
                             skin_bonevertnum := (\<lambda>k. 1),
                             skin_bonevertweight := (\<lambda>k. 1 / 2),
                             skin_vert := (\<lambda>k. 1),
                             skin_bonebindquat := (\<lambda>k. if k = 0 then 1 else 0) \<rparr>"

definition bind_data :: mjData where
  "bind_data = data0\<lparr> xquat := (\<lambda>k. if k = 0 then 1 else 0) \<rparr>"

text \<open>
  The same skin with weight 1, and a second skin of one vertex at (2, 2, 2) behind it, with
  its own bone of weight 1.
\<close>

definition bound_skin_model :: mjModel where
  "bound_skin_model = half_skin_model\<lparr> skin_bonevertweight := (\<lambda>k. 1) \<rparr>"

definition two_skin_model :: mjModel where
  "two_skin_model =
     model0\<lparr> nskin := 2, skin_vertnum := (\<lambda>k. 1), skin_bonenum := (\<lambda>k. 1),
             skin_vertadr := (\<lambda>k. k), skin_boneadr := (\<lambda>k. k),
             skin_bonevertadr := (\<lambda>k. k), skin_bonevertnum := (\<lambda>k. 1),
             skin_bonevertweight := (\<lambda>k. 1),
             skin_vert := (\<lambda>k. if k < 3 then 1 else 2),
             skin_bonebindquat := (\<lambda>k. if k = 0 \<or> k = 4 then 1 else 0) \<rparr>"

text \<open>
  A free camera looking along the x axis from distance 1, and the fixed camera 0, whose frame
  is the world frame; the global interpupillary distance is 2, that of camera 0 is 4.
\<close>

definition stereo_model :: mjModel where
  "stereo_model = model0\<lparr> ncam := 1, cam_ipd := (\<lambda>k. 4),
                          vis := visual0\<lparr> global_ipd := 2 \<rparr> \<rparr>"

definition stereo_data :: mjData where
  "stereo_data = data0\<lparr> cam_xmat := (\<lambda>k. if k = 0 \<or> k = 4 \<or> k = 8 then 1 else 0) \<rparr>"

definition free_camera :: mjvCamera where
  "free_camera = \<lparr> cam_type = mjCAMERA_FREE, fixedcamid = - 1, trackbodyid = - 1,
                    lookat = (0, 0, 0), distance = 1, azimuth = 0, elevation = 0 \<rparr>"

definition fixed_camera :: mjvCamera where
  "fixed_camera = free_camera\<lparr> cam_type := mjCAMERA_FIXED, fixedcamid := 0 \<rparr>"

text \<open>The free camera in a model whose global interpupillary distance is -2.\<close>

definition negative_ipd_model :: mjModel where
  "negative_ipd_model = model0\<lparr> vis := visual0\<lparr> global_ipd := - 2 \<rparr> \<rparr>"

text \<open>The actuator of \<open>act_model\<close> with the control range 1 .. 2.\<close>

definition one_sided_model :: mjModel where
  "one_sided_model = act_model\<lparr> actuator_ctrlrange := (\<lambda>k. if k = 0 then 1 else 2) \<rparr>"

text \<open>
  One geom without material whose colour (1, 0, 0, 0) is fully transparent, on body 1, which
  is the selected body.
\<close>

definition geom_select_model :: mjModel where
  "geom_select_model = model0\<lparr> nbody := 2, ngeom_m := 1, geom_bodyid := (\<lambda>k. 1),
                               geom_matid := (\<lambda>k. - 1),
                               geom_rgba := (\<lambda>k. if k = 0 then 1 else 0) \<rparr>"

definition geom_select_pert :: mjvPerturb where
  "geom_select_pert = mjv_defaultPerturb\<lparr> select := 1 \<rparr>"

text \<open>
  One joint, one actuator on it, one geom and one site, each with a group outside
  \<open>0 .. mjNGROUP - 1\<close>; group arrays in which only the first, or only the last, entry is on.
\<close>

definition group_model :: "int \<Rightarrow> mjModel" where
  "group_model g = model0\<lparr> njnt := 1, nu := 1, ngeom_m := 1, nsite := 1,
                           jnt_group := (\<lambda>k. g), actuator_group := (\<lambda>k. g),
                           geom_group := (\<lambda>k. g), site_group := (\<lambda>k. g),
                           actuator_trntype := (\<lambda>k. mjTRN_JOINT),
                           geom_matid := (\<lambda>k. - 1), site_matid := (\<lambda>k. - 1),
                           geom_rgba := (\<lambda>k. 1), site_rgba := (\<lambda>k. 1) \<rparr>"

definition first_group_only :: "bool list" where
  "first_group_only = [True, False, False, False, False, False]"

definition last_group_only :: "bool list" where
  "last_group_only = [False, False, False, False, False, True]"

section \<open>Verified properties\<close>

subsection \<open>Basic facts\<close>

lemma mjMINVAL_pos: "0 < mjMINVAL"
  by (simp add: mjMINVAL_def)

lemma upto_small:
  "[0 .. 0] = [0::int]" "[1 .. 2] = [1::int, 2]" "[0 .. 2] = [0::int, 1, 2]" "[0 .. 1] = [0::int, 1]"
  "[0 .. - 1] = ([]::int list)" "[1 .. 0] = ([]::int list)" "[1 .. - 1] = ([]::int list)"
  by (simp_all add: upto.simps)

lemma upto_1_1: "[1 .. 1] = [1::int]"
  by (simp add: upto.simps)

lemma setMaterial_resolved:
  "rgba (setMaterial m g matid col flgs) = resolved_rgba m (category g) matid col flgs"
  by (cases col) (auto simp: resolved_rgba_def setMaterial_def Let_def split: prod.splits)

lemma setMaterial_type: "type (setMaterial m g matid col flgs) = type g"
  by (cases col) (simp add: setMaterial_def Let_def)

lemmas combinator_defs =
  whenever_def whenever_v_def continue_if_def assign_objtype_def assign_category_def
  START_v_def START_def FINISH_def modify_geom_def connector_def call_def thisgeom_def
  mj_warning_def frame_axis_def

lemmas section_defs =
  addGeoms_skin_def addGeoms_inertia_def addGeoms_pertobj_def addGeoms_bodyframe_def
  addGeoms_selpnt_def addGeoms_bodylabel_def addGeoms_joint_def addGeoms_actuator_def
  addGeoms_geom_def addGeoms_site_def addGeoms_camera_def addGeoms_light_def
  addGeoms_tendon_def addGeoms_slidercrank_def addGeoms_com_def addGeoms_autoconnect_def
  addGeoms_rangefinder_def addGeoms_pertforce_def addGeoms_constraint_def addContactGeom_def

lemmas example_defs =
  model0_def data0_def vopt0_def visual0_def contact0_def state_of_def scene_of_def
  all_categories_def mjv_defaultPerturb_def geom0_def glcamera0_def zero_light_def

subsection \<open>Rules for statements\<close>

lemma hoare_seq_nil: "(\<And>s. P s \<Longrightarrow> Qn s) \<Longrightarrow> hoare P (seq []) Qn Qc Qr"
  by (simp add: hoare_def)

lemma hoare_seq_cons:
  assumes "hoare P f M Qc Qr" and "hoare M (seq fs) Qn Qc Qr"
  shows "hoare P (seq (f # fs)) Qn Qc Qr"
  using assms unfolding hoare_def
  by (auto split: outcome.splits)

lemma hoare_for_loop:
  assumes "\<And>i. hoare I (body i) I I Qr"
  shows "hoare I (for_loop xs body) I Qc Qr"
proof -
  have "I s \<Longrightarrow> (case for_loop xs body s of Normal s' \<Rightarrow> I s' | Continue s' \<Rightarrow> Qc s'
                    | Return s' \<Rightarrow> Qr s' | Fatal e \<Rightarrow> True)" for s
  proof (induction xs arbitrary: s)
    case Nil
    then show ?case by simp
  next
    case (Cons i xs)
    from assms [of i] Cons.prems
    have b: "case body i s of Normal s' \<Rightarrow> I s' | Continue s' \<Rightarrow> I s'
                    | Return s' \<Rightarrow> Qr s' | Fatal e \<Rightarrow> True"
      by (simp add: hoare_def)
    show ?case
    proof (cases "body i s")
      case (Normal s')
      with b Cons.IH [of s'] show ?thesis by simp
    next
      case (Continue s')
      with b Cons.IH [of s'] show ?thesis by simp
    next
      case (Return s')
      with b show ?thesis by simp
    next
      case (Fatal e)
      then show ?thesis by simp
    qed
  qed
  then show ?thesis by (simp add: hoare_def)
qed

lemma hoare_whenever: "hoare P f P Qc Qr \<Longrightarrow> hoare P (whenever c f) P Qc Qr"
  by (auto simp: hoare_def whenever_def)

lemma hoare_if:
  "hoare P f Q Qc Qr \<Longrightarrow> hoare P g Q Qc Qr \<Longrightarrow> hoare P (if c then f else g) Q Qc Qr"
  by simp

lemma hoare_seq_cons_tail:
  "hoare P f P Qc Qr \<Longrightarrow> hoare P (seq fs) Q Qc Qr \<Longrightarrow> hoare P (seq (f # fs)) Q Qc Qr"
  by (rule hoare_seq_cons)

subsection \<open>Connector types\<close>

text \<open>
  Claim C8. \<^verbatim>\<open>mjv_makeConnector\<close> called with a type outside the connector-compatible set
  (capsule, cylinder, arrow, arrow1, arrow2, line) raises the fatal error before any field of
  the geom is assigned: the call yields the error and no geom, and the statement that calls it
  on the current primitive of the scene ends the assembly fatally, so no primitive is emitted.
  For every type inside the set the call yields a geom and no error.
\<close>

theorem makeConnector_type_contract:
  "(ty \<notin> {mjGEOM_CAPSULE, mjGEOM_CYLINDER, mjGEOM_ARROW, mjGEOM_ARROW1, mjGEOM_ARROW2, mjGEOM_LINE}
      \<longrightarrow> mjv_makeConnector geom ty width a b = Inl (Invalid_connector_type ty)
        \<and> connector ty width a b s = Fatal (Invalid_connector_type ty))
   \<and> (ty \<in> {mjGEOM_CAPSULE, mjGEOM_CYLINDER, mjGEOM_ARROW, mjGEOM_ARROW1, mjGEOM_ARROW2, mjGEOM_LINE}
      \<longrightarrow> (\<exists>g. mjv_makeConnector geom ty width a b = Inr g \<and> type g = ty)
        \<and> (\<exists>s'. connector ty width a b s = Normal s'))"
  by (auto simp: mjv_makeConnector_def connector_def connector_compatible_def modify_geom_def
        Let_def split: prod.splits)

theorem makeConnector_type_contract_witness:
  "mjv_makeConnector geom0 mjGEOM_BOX 1 (0, 0, 0) (0, 0, 1) = Inl (Invalid_connector_type mjGEOM_BOX)
   \<and> (\<exists>g. mjv_makeConnector geom0 mjGEOM_ARROW 1 (0, 0, 0) (0, 0, 1) = Inr g \<and> type g = mjGEOM_ARROW)"
  using makeConnector_type_contract [of mjGEOM_BOX geom0 1 "(0, 0, 0)" "(0, 0, 1)"]
        makeConnector_type_contract [of mjGEOM_ARROW geom0 1 "(0, 0, 0)" "(0, 0, 1)"]
  by simp

subsection \<open>Material resolution\<close>

text \<open>
  Claim C6. After \<^verbatim>\<open>setMaterial\<close> the colour of the primitive is the explicit fallback colour
  exactly when the fallback differs in some component from the sentinel (0.5, 0.5, 0.5, 1) or
  no material is given (negative index); otherwise it is the base colour of the material. In
  particular a fallback equal to the sentinel leaves the colour of the material in place. (The
  last step of the function then scales the alpha of that colour by the global transparency
  factor when transparency is enabled and the primitive is dynamic; the choice between fallback
  and material is not affected.)
\<close>

theorem setMaterial_color:
  "rgba (setMaterial m geom matid col flgs) =
     (let chosen = (if col \<noteq> (1 / 2, 1 / 2, 1 / 2, 1) \<or> matid < 0 then col
                    else at4 (mat_rgba m) (4 * matid))
      in if flgs mjVIS_TRANSPARENT \<and> category geom = mjCAT_DYNAMIC
         then (case chosen of (r, g, b, a) \<Rightarrow> (r, g, b, a * map_alpha (vis m)))
         else chosen)"
  by (cases col) (auto simp: setMaterial_def Let_def split: prod.splits)

theorem setMaterial_color_witness:
  "rgba (setMaterial (model0\<lparr> mat_rgba := (\<lambda>k. if k = 3 then 1 else 1 / 5) \<rparr>) geom0 0
           (1 / 2, 1 / 2, 1 / 2, 1) (\<lambda>f. False)) = (1 / 5, 1 / 5, 1 / 5, 1)
   \<and> rgba (setMaterial (model0\<lparr> mat_rgba := (\<lambda>k. if k = 3 then 1 else 1 / 5) \<rparr>) geom0 0
           (1, 0, 0, 1) (\<lambda>f. False)) = (1, 0, 0, 1)
   \<and> rgba (setMaterial (model0\<lparr> mat_rgba := (\<lambda>k. if k = 3 then 1 else 1 / 5) \<rparr>) geom0 (- 1)
           (1 / 2, 1 / 2, 1 / 2, 1) (\<lambda>f. False)) = (1 / 2, 1 / 2, 1 / 2, 1)"
  using setMaterial_color [of "model0\<lparr> mat_rgba := (\<lambda>k. if k = 3 then 1 else 1 / 5) \<rparr>" geom0 0
          "(1 / 2, 1 / 2, 1 / 2, 1)" "\<lambda>f. False"]
        setMaterial_color [of "model0\<lparr> mat_rgba := (\<lambda>k. if k = 3 then 1 else 1 / 5) \<rparr>" geom0 0
          "(1, 0, 0, 1)" "\<lambda>f. False"]
        setMaterial_color [of "model0\<lparr> mat_rgba := (\<lambda>k. if k = 3 then 1 else 1 / 5) \<rparr>" geom0 "- 1"
          "(1 / 2, 1 / 2, 1 / 2, 1)" "\<lambda>f. False"]
  by (simp add: at4_def)

subsection \<open>Claim C9: visibility groups\<close>

lemma group_index_in_range:
  "length grp = nat mjNGROUP \<Longrightarrow> nat (clamp_group g) < length grp"
  by (auto simp: clamp_group_def mjMAX_def mjMIN_def mjNGROUP_def)

lemma joint_group_off:
  "\<not> jointgroup vopt ! nat (clamp_group (jnt_group m i))
     \<Longrightarrow> addGeoms_joint_body m d vopt i s = Normal s"
  by (simp add: addGeoms_joint_body_def group_enabled_def whenever_def)

lemma actuator_group_off:
  "\<not> actuatorgroup vopt ! nat (clamp_group (actuator_group m i))
     \<Longrightarrow> addGeoms_actuator_body m d vopt i s = Normal s"
  by (simp add: addGeoms_actuator_body_def group_enabled_def whenever_def)

lemma geom_group_off:
  "\<not> geomgroup vopt ! nat (clamp_group (geom_group m i))
     \<Longrightarrow> no_emission s (addGeoms_geom_body m d vopt pert catmask i s)"
  by (simp add: addGeoms_geom_body_def group_enabled_def whenever_def continue_if_def
        assign_objtype_def assign_category_def same_primitives_def)

lemma site_group_off:
  "\<not> sitegroup vopt ! nat (clamp_group (site_group m i))
     \<Longrightarrow> no_emission s (addGeoms_site_body m d vopt pert catmask i s)"
  by (simp add: addGeoms_site_body_def group_enabled_def whenever_def continue_if_def
        assign_objtype_def assign_category_def same_primitives_def)

lemma joint_group_on:
  assumes "jointgroup vopt ! nat (clamp_group (jnt_group m i))"
    and "ngeom (scn s) < maxgeom (scn s)"
    and "jnt_type m i \<in> {mjJNT_FREE, mjJNT_BALL, mjJNT_SLIDE, mjJNT_HINGE}"
  shows "summary (addGeoms_joint_body m d vopt i s)
           = Some (Ended_normally, ngeom (scn s) + 1, warning_number s)"
  using assms
  by (auto simp: addGeoms_joint_body_def joint_icon_def group_enabled_def combinator_defs
        mjv_makeConnector_def connector_compatible_def Let_def split: prod.splits)

lemma actuator_group_on:
  assumes "actuatorgroup vopt ! nat (clamp_group (actuator_group m i))"
    and "ngeom (scn s) < maxgeom (scn s)"
    and "actuator_trntype m i = mjTRN_JOINT"
    and "jnt_type m (actuator_trnid m (2 * i)) \<in> {mjJNT_SLIDE, mjJNT_HINGE}"
  shows "summary (addGeoms_actuator_body m d vopt i s)
           = Some (Ended_normally, ngeom (scn s) + 1, warning_number s)"
  using assms
  by (auto simp: addGeoms_actuator_body_def group_enabled_def combinator_defs
        mjv_makeConnector_def connector_compatible_def Let_def split: prod.splits)

lemma geom_group_on:
  assumes "geomgroup vopt ! nat (clamp_group (geom_group m i))"
    and "ngeom (scn s) < maxgeom (scn s)"
    and "bodycategory m (geom_bodyid m i) \<in> catmask"
    and "alpha (resolved_rgba m (bodycategory m (geom_bodyid m i)) (geom_matid m i)
                  (at4 (geom_rgba m) (4 * i)) (flags vopt)) \<noteq> 0"
    and "opt_frame vopt \<noteq> mjFRAME_GEOM"
  shows "summary (addGeoms_geom_body m d vopt pert catmask i s)
           = Some (Ended_by_continue, ngeom (scn s) + 1, warning_number s)"
  using assms
  by (simp add: addGeoms_geom_body_def group_enabled_def combinator_defs setMaterial_resolved
        mjv_initGeom_def)

lemma site_group_on:
  assumes "sitegroup vopt ! nat (clamp_group (site_group m i))"
    and "ngeom (scn s) < maxgeom (scn s)"
    and "bodycategory m (site_bodyid m i) \<in> catmask"
    and "alpha (resolved_rgba m (bodycategory m (site_bodyid m i)) (site_matid m i)
                  (at4 (site_rgba m) (4 * i)) (flags vopt)) \<noteq> 0"
    and "opt_frame vopt \<noteq> mjFRAME_SITE"
  shows "summary (addGeoms_site_body m d vopt pert catmask i s)
           = Some (Ended_by_continue, ngeom (scn s) + 1, warning_number s)"
  using assms
  by (simp add: addGeoms_site_body_def group_enabled_def combinator_defs setMaterial_resolved
        mjv_initGeom_def)


lemma group_agreement:
  "grp ! nat (clamp_group (jnt_group m i)) = jointgroup vopt ! nat (clamp_group (jnt_group m i))
     \<Longrightarrow> addGeoms_joint_body m d (vopt\<lparr> jointgroup := grp \<rparr>) i s
           = addGeoms_joint_body m d vopt i s"
  "grp ! nat (clamp_group (actuator_group m i))
       = actuatorgroup vopt ! nat (clamp_group (actuator_group m i))
     \<Longrightarrow> addGeoms_actuator_body m d (vopt\<lparr> actuatorgroup := grp \<rparr>) i s
           = addGeoms_actuator_body m d vopt i s"
  "grp ! nat (clamp_group (geom_group m i)) = geomgroup vopt ! nat (clamp_group (geom_group m i))
     \<Longrightarrow> addGeoms_geom_body m d (vopt\<lparr> geomgroup := grp \<rparr>) pert catmask i s
           = addGeoms_geom_body m d vopt pert catmask i s"
  "grp ! nat (clamp_group (site_group m i)) = sitegroup vopt ! nat (clamp_group (site_group m i))
     \<Longrightarrow> addGeoms_site_body m d (vopt\<lparr> sitegroup := grp \<rparr>) pert catmask i s
           = addGeoms_site_body m d vopt pert catmask i s"
proof -
  show "addGeoms_joint_body m d (vopt\<lparr> jointgroup := grp \<rparr>) i s
            = addGeoms_joint_body m d vopt i s"
    if "grp ! nat (clamp_group (jnt_group m i)) = jointgroup vopt ! nat (clamp_group (jnt_group m i))"
    using that unfolding addGeoms_joint_body_def group_enabled_def
    by (cases vopt) (simp only: mjvOption.simps)
  show "addGeoms_actuator_body m d (vopt\<lparr> actuatorgroup := grp \<rparr>) i s
            = addGeoms_actuator_body m d vopt i s"
    if "grp ! nat (clamp_group (actuator_group m i))
          = actuatorgroup vopt ! nat (clamp_group (actuator_group m i))"
    using that
    unfolding addGeoms_actuator_body_def group_enabled_def actuator_rgba_def
      actuator_rng_def actuator_act_def
    by (cases vopt) (simp only: mjvOption.simps)
  show "addGeoms_geom_body m d (vopt\<lparr> geomgroup := grp \<rparr>) pert catmask i s
            = addGeoms_geom_body m d vopt pert catmask i s"
    if "grp ! nat (clamp_group (geom_group m i)) = geomgroup vopt ! nat (clamp_group (geom_group m i))"
    using that unfolding addGeoms_geom_body_def group_enabled_def
    by (cases vopt) (simp only: mjvOption.simps)
  show "addGeoms_site_body m d (vopt\<lparr> sitegroup := grp \<rparr>) pert catmask i s
            = addGeoms_site_body m d vopt pert catmask i s"
    if "grp ! nat (clamp_group (site_group m i)) = sitegroup vopt ! nat (clamp_group (site_group m i))"
    using that unfolding addGeoms_site_body_def group_enabled_def
    by (cases vopt) (simp only: mjvOption.simps)
qed

text \<open>
  Claim C9. The group of a joint, actuator, geom or site is clamped into \<open>0 .. mjNGROUP - 1\<close>
  before it indexes the group array of its category: a negative group reads entry 0, a group
  above \<open>mjNGROUP - 1\<close> reads the last entry, a group in range reads its own entry, and the
  index is always within an array of \<open>mjNGROUP\<close> entries. In each of the four loops the entry
  at the clamped index decides whether the element is shown. When it is off, the element emits
  nothing: the body for a joint or an actuator leaves the state as it is, the body for a geom
  or a site changes no counted primitive. When it is on and the scene has room, a joint with
  a known type, an actuator on a hinge or slide joint, and a geom or a site of a category in
  the mask whose resolved colour is not fully transparent each emit one primitive (for a geom
  or a site, when its frame is not shown). No other entry is read: changing the array anywhere
  else does not change what the body does.
\<close>

theorem group_index_clamped:
  "0 \<le> clamp_group g \<and> clamp_group g \<le> mjNGROUP - 1
   \<and> (g < 0 \<longrightarrow> clamp_group g = 0 \<and> group_enabled grp g = grp ! 0)
   \<and> (mjNGROUP - 1 < g \<longrightarrow> clamp_group g = mjNGROUP - 1
         \<and> group_enabled grp g = grp ! nat (mjNGROUP - 1))
   \<and> (0 \<le> g \<and> g \<le> mjNGROUP - 1 \<longrightarrow> clamp_group g = g \<and> group_enabled grp g = grp ! nat g)
   \<and> (length grp = nat mjNGROUP \<longrightarrow> nat (clamp_group g) < length grp)
   \<and> (\<not> jointgroup vopt ! nat (clamp_group (jnt_group m i))
        \<longrightarrow> addGeoms_joint_body m d vopt i s = Normal s)
   \<and> (jointgroup vopt ! nat (clamp_group (jnt_group m i)) \<and> ngeom (scn s) < maxgeom (scn s)
        \<and> jnt_type m i \<in> {mjJNT_FREE, mjJNT_BALL, mjJNT_SLIDE, mjJNT_HINGE}
        \<longrightarrow> summary (addGeoms_joint_body m d vopt i s)
              = Some (Ended_normally, ngeom (scn s) + 1, warning_number s))
   \<and> (\<not> actuatorgroup vopt ! nat (clamp_group (actuator_group m i))
        \<longrightarrow> addGeoms_actuator_body m d vopt i s = Normal s)
   \<and> (actuatorgroup vopt ! nat (clamp_group (actuator_group m i))
        \<and> ngeom (scn s) < maxgeom (scn s) \<and> actuator_trntype m i = mjTRN_JOINT
        \<and> jnt_type m (actuator_trnid m (2 * i)) \<in> {mjJNT_SLIDE, mjJNT_HINGE}
        \<longrightarrow> summary (addGeoms_actuator_body m d vopt i s)
              = Some (Ended_normally, ngeom (scn s) + 1, warning_number s))
   \<and> (\<not> geomgroup vopt ! nat (clamp_group (geom_group m i))
        \<longrightarrow> no_emission s (addGeoms_geom_body m d vopt pert catmask i s))
   \<and> (geomgroup vopt ! nat (clamp_group (geom_group m i)) \<and> ngeom (scn s) < maxgeom (scn s)
        \<and> bodycategory m (geom_bodyid m i) \<in> catmask
        \<and> alpha (resolved_rgba m (bodycategory m (geom_bodyid m i)) (geom_matid m i)
                    (at4 (geom_rgba m) (4 * i)) (flags vopt)) \<noteq> 0
        \<and> opt_frame vopt \<noteq> mjFRAME_GEOM
        \<longrightarrow> summary (addGeoms_geom_body m d vopt pert catmask i s)
              = Some (Ended_by_continue, ngeom (scn s) + 1, warning_number s))
   \<and> (\<not> sitegroup vopt ! nat (clamp_group (site_group m i))
        \<longrightarrow> no_emission s (addGeoms_site_body m d vopt pert catmask i s))
   \<and> (sitegroup vopt ! nat (clamp_group (site_group m i)) \<and> ngeom (scn s) < maxgeom (scn s)
        \<and> bodycategory m (site_bodyid m i) \<in> catmask
        \<and> alpha (resolved_rgba m (bodycategory m (site_bodyid m i)) (site_matid m i)
                    (at4 (site_rgba m) (4 * i)) (flags vopt)) \<noteq> 0
        \<and> opt_frame vopt \<noteq> mjFRAME_SITE
        \<longrightarrow> summary (addGeoms_site_body m d vopt pert catmask i s)
              = Some (Ended_by_continue, ngeom (scn s) + 1, warning_number s))
   \<and> (grp ! nat (clamp_group (jnt_group m i)) = jointgroup vopt ! nat (clamp_group (jnt_group m i))
        \<longrightarrow> addGeoms_joint_body m d (vopt\<lparr> jointgroup := grp \<rparr>) i s
            = addGeoms_joint_body m d vopt i s)
   \<and> (grp ! nat (clamp_group (actuator_group m i))
          = actuatorgroup vopt ! nat (clamp_group (actuator_group m i))
        \<longrightarrow> addGeoms_actuator_body m d (vopt\<lparr> actuatorgroup := grp \<rparr>) i s
            = addGeoms_actuator_body m d vopt i s)
   \<and> (grp ! nat (clamp_group (geom_group m i)) = geomgroup vopt ! nat (clamp_group (geom_group m i))
        \<longrightarrow> addGeoms_geom_body m d (vopt\<lparr> geomgroup := grp \<rparr>) pert catmask i s
            = addGeoms_geom_body m d vopt pert catmask i s)
   \<and> (grp ! nat (clamp_group (site_group m i)) = sitegroup vopt ! nat (clamp_group (site_group m i))
        \<longrightarrow> addGeoms_site_body m d (vopt\<lparr> sitegroup := grp \<rparr>) pert catmask i s
            = addGeoms_site_body m d vopt pert catmask i s)"
proof -
  have "0 \<le> clamp_group g" "clamp_group g \<le> mjNGROUP - 1"
    by (simp_all add: clamp_group_def mjMAX_def mjMIN_def mjNGROUP_def)
  moreover
  have "g < 0 \<longrightarrow> clamp_group g = 0 \<and> group_enabled grp g = grp ! 0"
    by (simp add: group_enabled_def clamp_group_def mjMAX_def mjMIN_def mjNGROUP_def)
  moreover
  have "mjNGROUP - 1 < g \<longrightarrow> clamp_group g = mjNGROUP - 1
         \<and> group_enabled grp g = grp ! nat (mjNGROUP - 1)"
    by (simp add: group_enabled_def clamp_group_def mjMAX_def mjMIN_def mjNGROUP_def)
  moreover
  have "0 \<le> g \<and> g \<le> mjNGROUP - 1 \<longrightarrow> clamp_group g = g \<and> group_enabled grp g = grp ! nat g"
    by (simp add: group_enabled_def clamp_group_def mjMAX_def mjMIN_def mjNGROUP_def)
  moreover
  have "length grp = nat mjNGROUP \<longrightarrow> nat (clamp_group g) < length grp"
    by (rule impI) (rule group_index_in_range)
  moreover
  have "\<not> jointgroup vopt ! nat (clamp_group (jnt_group m i))
        \<longrightarrow> addGeoms_joint_body m d vopt i s = Normal s"
    by (rule impI) (rule joint_group_off)
  moreover
  have "jointgroup vopt ! nat (clamp_group (jnt_group m i)) \<and> ngeom (scn s) < maxgeom (scn s)
        \<and> jnt_type m i \<in> {mjJNT_FREE, mjJNT_BALL, mjJNT_SLIDE, mjJNT_HINGE}
        \<longrightarrow> summary (addGeoms_joint_body m d vopt i s)
              = Some (Ended_normally, ngeom (scn s) + 1, warning_number s)"
    by (rule impI, rule joint_group_on) blast+
  moreover
  have "\<not> actuatorgroup vopt ! nat (clamp_group (actuator_group m i))
        \<longrightarrow> addGeoms_actuator_body m d vopt i s = Normal s"
    by (rule impI) (rule actuator_group_off)
  moreover
  have "actuatorgroup vopt ! nat (clamp_group (actuator_group m i))
        \<and> ngeom (scn s) < maxgeom (scn s) \<and> actuator_trntype m i = mjTRN_JOINT
        \<and> jnt_type m (actuator_trnid m (2 * i)) \<in> {mjJNT_SLIDE, mjJNT_HINGE}
        \<longrightarrow> summary (addGeoms_actuator_body m d vopt i s)
              = Some (Ended_normally, ngeom (scn s) + 1, warning_number s)"
    by (rule impI, rule actuator_group_on) blast+
  moreover
  have "\<not> geomgroup vopt ! nat (clamp_group (geom_group m i))
        \<longrightarrow> no_emission s (addGeoms_geom_body m d vopt pert catmask i s)"
    by (rule impI) (rule geom_group_off)
  moreover
  have "geomgroup vopt ! nat (clamp_group (geom_group m i)) \<and> ngeom (scn s) < maxgeom (scn s)
        \<and> bodycategory m (geom_bodyid m i) \<in> catmask
        \<and> alpha (resolved_rgba m (bodycategory m (geom_bodyid m i)) (geom_matid m i)
                    (at4 (geom_rgba m) (4 * i)) (flags vopt)) \<noteq> 0
        \<and> opt_frame vopt \<noteq> mjFRAME_GEOM
        \<longrightarrow> summary (addGeoms_geom_body m d vopt pert catmask i s)
              = Some (Ended_by_continue, ngeom (scn s) + 1, warning_number s)"
    by (rule impI, rule geom_group_on) blast+
  moreover
  have "\<not> sitegroup vopt ! nat (clamp_group (site_group m i))
        \<longrightarrow> no_emission s (addGeoms_site_body m d vopt pert catmask i s)"
    by (rule impI) (rule site_group_off)
  moreover
  have "sitegroup vopt ! nat (clamp_group (site_group m i)) \<and> ngeom (scn s) < maxgeom (scn s)
        \<and> bodycategory m (site_bodyid m i) \<in> catmask
        \<and> alpha (resolved_rgba m (bodycategory m (site_bodyid m i)) (site_matid m i)
                    (at4 (site_rgba m) (4 * i)) (flags vopt)) \<noteq> 0
        \<and> opt_frame vopt \<noteq> mjFRAME_SITE
        \<longrightarrow> summary (addGeoms_site_body m d vopt pert catmask i s)
              = Some (Ended_by_continue, ngeom (scn s) + 1, warning_number s)"
    by (rule impI, rule site_group_on) blast+
  moreover
  have "grp ! nat (clamp_group (jnt_group m i)) = jointgroup vopt ! nat (clamp_group (jnt_group m i))
        \<longrightarrow> addGeoms_joint_body m d (vopt\<lparr> jointgroup := grp \<rparr>) i s
            = addGeoms_joint_body m d vopt i s"
    by (rule impI) (rule group_agreement)
  moreover
  have "grp ! nat (clamp_group (actuator_group m i))
          = actuatorgroup vopt ! nat (clamp_group (actuator_group m i))
        \<longrightarrow> addGeoms_actuator_body m d (vopt\<lparr> actuatorgroup := grp \<rparr>) i s
            = addGeoms_actuator_body m d vopt i s"
    by (rule impI) (rule group_agreement)
  moreover
  have "grp ! nat (clamp_group (geom_group m i)) = geomgroup vopt ! nat (clamp_group (geom_group m i))
        \<longrightarrow> addGeoms_geom_body m d (vopt\<lparr> geomgroup := grp \<rparr>) pert catmask i s
            = addGeoms_geom_body m d vopt pert catmask i s"
    by (rule impI) (rule group_agreement)
  moreover
  have "grp ! nat (clamp_group (site_group m i)) = sitegroup vopt ! nat (clamp_group (site_group m i))
        \<longrightarrow> addGeoms_site_body m d (vopt\<lparr> sitegroup := grp \<rparr>) pert catmask i s
            = addGeoms_site_body m d vopt pert catmask i s"
    by (rule impI) (rule group_agreement)
  ultimately show ?thesis by (intro conjI)
qed


theorem group_index_clamped_witness:
  "clamp_group (- 3) = 0 \<and> clamp_group 9 = mjNGROUP - 1 \<and> clamp_group 4 = 4
   \<and> group_enabled first_group_only (- 3) \<and> \<not> group_enabled last_group_only (- 3)
   \<and> group_enabled last_group_only 9 \<and> \<not> group_enabled first_group_only 9
   \<and> nat (clamp_group 9) < length last_group_only
   \<and> addGeoms_joint_body (group_model 9) data0 (vopt0\<lparr> jointgroup := first_group_only \<rparr>) 0
        (state_of 1) = Normal (state_of 1)
   \<and> summary (addGeoms_joint_body (group_model 9) data0 (vopt0\<lparr> jointgroup := last_group_only \<rparr>)
        0 (state_of 1)) = Some (Ended_normally, 1, 0)
   \<and> addGeoms_actuator_body (group_model (- 3)) data0 (vopt0\<lparr> actuatorgroup := last_group_only \<rparr>)
        0 (state_of 1) = Normal (state_of 1)
   \<and> summary (addGeoms_actuator_body (group_model (- 3)) data0
        (vopt0\<lparr> actuatorgroup := first_group_only \<rparr>) 0 (state_of 1))
       = Some (Ended_normally, 1, 0)
   \<and> no_emission (state_of 1)
        (addGeoms_geom_body (group_model 9) data0 (vopt0\<lparr> geomgroup := first_group_only \<rparr>)
           mjv_defaultPerturb all_categories 0 (state_of 1))
   \<and> summary (addGeoms_geom_body (group_model 9) data0 (vopt0\<lparr> geomgroup := last_group_only \<rparr>)
        mjv_defaultPerturb all_categories 0 (state_of 1)) = Some (Ended_by_continue, 1, 0)
   \<and> no_emission (state_of 1)
        (addGeoms_site_body (group_model (- 3)) data0 (vopt0\<lparr> sitegroup := last_group_only \<rparr>)
           mjv_defaultPerturb all_categories 0 (state_of 1))
   \<and> summary (addGeoms_site_body (group_model (- 3)) data0
        (vopt0\<lparr> sitegroup := first_group_only \<rparr>) mjv_defaultPerturb all_categories 0
        (state_of 1)) = Some (Ended_by_continue, 1, 0)"
proof -
  have n: "mjNGROUP - 1 = 5" "nat mjNGROUP = 6" by (simp_all add: mjNGROUP_def)
  have fl: "first_group_only ! 0" "\<not> first_group_only ! 5" "\<not> last_group_only ! 0"
    "last_group_only ! 5" "length last_group_only = 6"
    by (simp_all add: first_group_only_def last_group_only_def)
  have st: "ngeom (scn (state_of 1)) = 0" "maxgeom (scn (state_of 1)) = 1"
    "warning_number (state_of 1) = 0"
    by (simp_all add: state_of_def scene_of_def)
  have gm: "jnt_group (group_model g) 0 = g" "actuator_group (group_model g) 0 = g"
    "geom_group (group_model g) 0 = g" "site_group (group_model g) 0 = g"
    "jnt_type (group_model g) 0 = mjJNT_HINGE" "actuator_trntype (group_model g) 0 = mjTRN_JOINT"
    "actuator_trnid (group_model g) 0 = 0"
    "bodycategory (group_model g) (geom_bodyid (group_model g) 0) = mjCAT_DYNAMIC"
    "bodycategory (group_model g) (site_bodyid (group_model g) 0) = mjCAT_DYNAMIC"
    "geom_matid (group_model g) 0 = - 1" "site_matid (group_model g) 0 = - 1"
    "at4 (geom_rgba (group_model g)) 0 = (1, 1, 1, 1)"
    "at4 (site_rgba (group_model g)) 0 = (1, 1, 1, 1)" for g
    by (simp_all add: group_model_def model0_def bodycategory_def at4_def)
  have al: "alpha (resolved_rgba (group_model g) mjCAT_DYNAMIC (- 1) (1, 1, 1, 1) (flags vopt0)) = 1"
    for g
    by (simp add: resolved_rgba_def setMaterial_def vopt0_def Let_def)
  have vo: "flags (vopt0\<lparr> geomgroup := x \<rparr>) = flags vopt0"
    "flags (vopt0\<lparr> sitegroup := x \<rparr>) = flags vopt0"
    "opt_frame (vopt0\<lparr> geomgroup := x \<rparr>) = mjFRAME_NONE"
    "opt_frame (vopt0\<lparr> sitegroup := x \<rparr>) = mjFRAME_NONE" for x
    by (simp_all add: vopt0_def)
  have cat: "mjCAT_DYNAMIC \<in> all_categories" by (simp add: all_categories_def)
  have a: "clamp_group (- 3) = 0 \<and> group_enabled first_group_only (- 3)"
    using group_index_clamped [where g = "- 3" and grp = first_group_only] fl by simp
  have a': "\<not> group_enabled last_group_only (- 3)"
    using group_index_clamped [where g = "- 3" and grp = last_group_only] fl by simp
  have b: "clamp_group 9 = mjNGROUP - 1 \<and> group_enabled last_group_only 9
           \<and> nat (clamp_group 9) < length last_group_only"
    using group_index_clamped [where g = 9 and grp = last_group_only] fl n by simp
  have b': "\<not> group_enabled first_group_only 9"
    using group_index_clamped [where g = 9 and grp = first_group_only] fl n by simp
  have c: "clamp_group 4 = 4"
    using group_index_clamped [where g = 4] n by simp
  have cl: "clamp_group 9 = 5" "clamp_group (- 3) = 0" using a b n by simp_all
  have j0: "addGeoms_joint_body (group_model 9) data0 (vopt0\<lparr> jointgroup := first_group_only \<rparr>) 0
        (state_of 1) = Normal (state_of 1)"
    using group_index_clamped [where m = "group_model 9" and i = 0 and d = data0
            and vopt = "vopt0\<lparr> jointgroup := first_group_only \<rparr>" and s = "state_of 1" and grp = first_group_only and g = 0]
    by (simp add: gm cl fl)
  have j1: "summary (addGeoms_joint_body (group_model 9) data0
        (vopt0\<lparr> jointgroup := last_group_only \<rparr>) 0 (state_of 1)) = Some (Ended_normally, 1, 0)"
    using group_index_clamped [where m = "group_model 9" and i = 0 and d = data0
            and vopt = "vopt0\<lparr> jointgroup := last_group_only \<rparr>" and s = "state_of 1" and grp = last_group_only and g = 0]
    by (simp add: gm cl fl st)
  have u0: "addGeoms_actuator_body (group_model (- 3)) data0
        (vopt0\<lparr> actuatorgroup := last_group_only \<rparr>) 0 (state_of 1) = Normal (state_of 1)"
    using group_index_clamped [where m = "group_model (- 3)" and i = 0 and d = data0
            and vopt = "vopt0\<lparr> actuatorgroup := last_group_only \<rparr>" and s = "state_of 1" and grp = last_group_only and g = 0]
    by (simp add: gm cl fl)
  have u1: "summary (addGeoms_actuator_body (group_model (- 3)) data0
        (vopt0\<lparr> actuatorgroup := first_group_only \<rparr>) 0 (state_of 1))
       = Some (Ended_normally, 1, 0)"
    using group_index_clamped [where m = "group_model (- 3)" and i = 0 and d = data0
            and vopt = "vopt0\<lparr> actuatorgroup := first_group_only \<rparr>" and s = "state_of 1" and grp = first_group_only and g = 0]
    by (simp add: gm cl fl st)
  have g0: "no_emission (state_of 1)
        (addGeoms_geom_body (group_model 9) data0 (vopt0\<lparr> geomgroup := first_group_only \<rparr>)
           mjv_defaultPerturb all_categories 0 (state_of 1))"
    using group_index_clamped [where m = "group_model 9" and i = 0 and d = data0
            and vopt = "vopt0\<lparr> geomgroup := first_group_only \<rparr>" and s = "state_of 1" and grp = first_group_only and g = 0
            and pert = mjv_defaultPerturb and catmask = all_categories]
    by (simp add: gm cl fl)
  have g1: "summary (addGeoms_geom_body (group_model 9) data0
        (vopt0\<lparr> geomgroup := last_group_only \<rparr>) mjv_defaultPerturb all_categories 0
        (state_of 1)) = Some (Ended_by_continue, 1, 0)"
    using group_index_clamped [where m = "group_model 9" and i = 0 and d = data0
            and vopt = "vopt0\<lparr> geomgroup := last_group_only \<rparr>" and s = "state_of 1" and grp = last_group_only and g = 0
            and pert = mjv_defaultPerturb and catmask = all_categories]
    by (simp add: gm cl fl st vo al cat)
  have s0: "no_emission (state_of 1)
        (addGeoms_site_body (group_model (- 3)) data0 (vopt0\<lparr> sitegroup := last_group_only \<rparr>)
           mjv_defaultPerturb all_categories 0 (state_of 1))"
    using group_index_clamped [where m = "group_model (- 3)" and i = 0 and d = data0
            and vopt = "vopt0\<lparr> sitegroup := last_group_only \<rparr>" and s = "state_of 1" and grp = last_group_only and g = 0
            and pert = mjv_defaultPerturb and catmask = all_categories]
    by (simp add: gm cl fl)
  have s1: "summary (addGeoms_site_body (group_model (- 3)) data0
        (vopt0\<lparr> sitegroup := first_group_only \<rparr>) mjv_defaultPerturb all_categories 0
        (state_of 1)) = Some (Ended_by_continue, 1, 0)"
    using group_index_clamped [where m = "group_model (- 3)" and i = 0 and d = data0
            and vopt = "vopt0\<lparr> sitegroup := first_group_only \<rparr>" and s = "state_of 1" and grp = first_group_only and g = 0
            and pert = mjv_defaultPerturb and catmask = all_categories]
    by (simp add: gm cl fl st vo al cat)
  show ?thesis using a a' b b' c j0 j1 u0 u1 g0 g1 s0 s1 by blast
qed

subsection \<open>Actuator colours\<close>

lemma actuator_rng_gaps:
  assumes "actuator_rng m vopt i = (r0, r1, r2)"
  shows "r1 - r0 \<ge> mjMINVAL" and "r2 - r1 \<ge> mjMINVAL"
  using assms mjMINVAL_pos
  by (auto simp: actuator_rng_def Let_def split: if_splits prod.splits)

lemma actuator_interp_cases:
  assumes lo: "r1 - r0 \<ge> mjMINVAL" and hi: "r2 - r1 \<ge> mjMINVAL"
  shows "actuator_interp (r0, r1, r2) (mjMIN r2 (mjMAX r0 v)) =
           (if v \<le> r0 then (1, 0, 0)
            else if v \<le> r1 then ((r1 - v) / (r1 - r0), (v - r0) / (r1 - r0), 0)
            else if v < r2 then (0, (r2 - v) / (r2 - r1), (v - r1) / (r2 - r1))
            else (0, 0, 1))"
proof -
  have p: "0 < mjMINVAL" by (rule mjMINVAL_pos)
  have a: "mjMAX mjMINVAL (r1 - r0) = r1 - r0" using lo by (simp add: mjMAX_def)
  have b: "mjMAX mjMINVAL (r2 - r1) = r2 - r1" using hi by (simp add: mjMAX_def)
  have c: "r1 - r0 > 0" "r2 - r1 > 0" using lo hi p by linarith+
  have d1: "1 - (r1 - v) / (r1 - r0) = (v - r0) / (r1 - r0)" using c by (simp add: field_simps)
  have d2: "1 - (v - r1) / (r2 - r1) = (r2 - v) / (r2 - r1)" using c by (simp add: field_simps)
  have interp: "\<And>x. actuator_interp (r0, r1, r2) x =
      (if x \<le> r1 then ((r1 - x) / (r1 - r0), 1 - (r1 - x) / (r1 - r0), 0)
       else (0, 1 - (x - r1) / (r2 - r1), (x - r1) / (r2 - r1)))"
    by (simp add: actuator_interp_def a b Let_def)
  consider "v \<le> r0" | "r0 < v" "v \<le> r1" | "r1 < v" "v < r2" | "r2 \<le> v" by linarith
  then show ?thesis
  proof cases
    case 1
    then have "mjMIN r2 (mjMAX r0 v) = r0" using c by (simp add: mjMIN_def mjMAX_def)
    then show ?thesis using 1 c by (simp add: interp)
  next
    case 2
    then have "mjMIN r2 (mjMAX r0 v) = v" using c by (simp add: mjMIN_def mjMAX_def)
    then show ?thesis using 2 c by (simp add: interp d1)
  next
    case 3
    then have "mjMIN r2 (mjMAX r0 v) = v" using c by (simp add: mjMIN_def mjMAX_def)
    then show ?thesis using 3 c by (simp add: interp d2)
  next
    case 4
    then have "mjMIN r2 (mjMAX r0 v) = r2" using c by (simp add: mjMIN_def mjMAX_def)
    then show ?thesis using 4 c by (simp add: interp)
  qed
qed

lemma colored_START:
  "hoare (colored n0 col False) (START_v i) (colored n0 col False) Qc (colored n0 col False)"
  by (auto simp: hoare_def START_v_def START_def modify_geom_def colored_def mj_warning_def)

lemma colored_modify:
  "hoare (colored n0 col False) (modify_geom f) (colored n0 col False) Qc Qr"
  by (auto simp: hoare_def modify_geom_def colored_def)

lemma colored_connector:
  "hoare (colored n0 col False) (connector ty width a b) (colored n0 col False) Qc Qr"
  by (auto simp: hoare_def connector_def modify_geom_def colored_def split: sum.splits)

lemma colored_set:
  "hoare (colored n0 col False) (modify_geom (\<lambda>g. g\<lparr> rgba := col \<rparr>)) (colored n0 col True) Qc Qr"
  by (auto simp: hoare_def modify_geom_def colored_def thisgeom_def)

lemma colored_label:
  "hoare (colored n0 col True) (whenever c (modify_geom (makeLabel t i))) (colored n0 col True) Qc Qr"
  by (auto simp: hoare_def whenever_def modify_geom_def colored_def thisgeom_def makeLabel_def)

lemma colored_FINISH:
  "hoare (colored n0 col True) FINISH (colored n0 col False) Qc Qr"
  apply (auto simp: hoare_def FINISH_def colored_def thisgeom_def)
  subgoal for s k by (cases "k = ngeom (scn s)") auto
  done

lemma colored_emission_tail:
  "hoare (colored n0 col False)
     (seq [modify_geom (\<lambda>g. g\<lparr> rgba := col \<rparr>), whenever c (modify_geom (makeLabel t i)), FINISH])
     (colored n0 col False) Qc Qr"
  by (rule hoare_seq_cons [OF colored_set] hoare_seq_cons [OF colored_label]
        hoare_seq_cons [OF colored_FINISH] hoare_seq_nil | assumption)+

lemma colored_actuator_body:
  "hoare (colored n0 (actuator_rgba m d vopt i) False) (addGeoms_actuator_body m d vopt i)
     (colored n0 (actuator_rgba m d vopt i) False) (colored n0 (actuator_rgba m d vopt i) False)
     (colored n0 (actuator_rgba m d vopt i) False)"
  unfolding addGeoms_actuator_body_def Let_def
  apply (rule hoare_whenever)
  apply (rule hoare_seq_cons_tail)
   apply (rule hoare_whenever)
   apply (rule hoare_seq_cons_tail, rule colored_START)
   apply (rule hoare_seq_cons_tail, rule colored_connector)
   apply (rule colored_emission_tail)
  apply (rule hoare_seq_cons_tail)
   apply (rule hoare_if)
    apply (rule hoare_seq_cons_tail, rule colored_START)
    apply (rule hoare_seq_cons_tail, rule colored_modify)
    apply (rule colored_emission_tail)
   apply (rule hoare_whenever)
   apply (rule hoare_for_loop)
   apply (rule hoare_whenever)
   apply (rule hoare_seq_cons_tail, rule colored_START)
   apply (rule hoare_seq_cons_tail, rule colored_connector)
   apply (rule hoare_seq_cons_tail, rule colored_modify)
   apply (rule colored_emission_tail)
  apply (rule hoare_seq_nil)
  apply assumption
  done

lemma actuator_icons_colored:
  assumes "finish (addGeoms_actuator_body m d vopt i s) = Inr s'"
    and "ngeom (scn s) \<le> k" and "k < ngeom (scn s')"
  shows "rgba (geoms (scn s') k) = actuator_rgba m d vopt i"
proof -
  have c: "colored (ngeom (scn s)) (actuator_rgba m d vopt i) False s"
    by (auto simp: colored_def)
  from colored_actuator_body [of "ngeom (scn s)" m d vopt i] c
  have "case addGeoms_actuator_body m d vopt i s of
          Normal s' \<Rightarrow> colored (ngeom (scn s)) (actuator_rgba m d vopt i) False s'
        | Continue s' \<Rightarrow> colored (ngeom (scn s)) (actuator_rgba m d vopt i) False s'
        | Return s' \<Rightarrow> colored (ngeom (scn s)) (actuator_rgba m d vopt i) False s'
        | Fatal e \<Rightarrow> True"
    by (simp add: hoare_def)
  with assms(1) have "colored (ngeom (scn s)) (actuator_rgba m d vopt i) False s'"
    by (cases "addGeoms_actuator_body m d vopt i s") simp_all
  with assms(2,3) show ?thesis by (simp add: colored_def)
qed

text \<open>
  The colour over the extended range \<open>(r0, r1, r2)\<close> that the source computes for the
  actuator, with \<open>v\<close> the control or activation value.
\<close>

lemma actuator_color_extended:
  assumes "actuator_rng m vopt i = (r0, r1, r2)"
    and "v = (if flags vopt mjVIS_ACTIVATION \<and> actuator_dyntype m i \<noteq> 0
              then act d (i - (nu m - na m)) else ctrl d i)"
  shows "r0 < r1 \<and> r1 < r2
    \<and> (v = r1 \<longrightarrow> actuator_rgba m d vopt i = rgba_actuator (vis m))
    \<and> (v \<le> r0 \<longrightarrow> actuator_rgba m d vopt i = rgba_actuatornegative (vis m))
    \<and> (r2 \<le> v \<longrightarrow> actuator_rgba m d vopt i = rgba_actuatorpositive (vis m))
    \<and> (r0 < v \<and> v < r1 \<longrightarrow> actuator_rgba m d vopt i =
          mix3 ((r1 - v) / (r1 - r0), (v - r0) / (r1 - r0), 0)
            (rgba_actuatornegative (vis m)) (rgba_actuator (vis m))
            (rgba_actuatorpositive (vis m)))
    \<and> (r1 < v \<and> v < r2 \<longrightarrow> actuator_rgba m d vopt i =
          mix3 (0, (r2 - v) / (r2 - r1), (v - r1) / (r2 - r1))
            (rgba_actuatornegative (vis m)) (rgba_actuator (vis m))
            (rgba_actuatorpositive (vis m)))
    \<and> (case finish (addGeoms_actuator_body m d vopt i s) of
          Inr s' \<Rightarrow> \<forall>k. ngeom (scn s) \<le> k \<and> k < ngeom (scn s')
                    \<longrightarrow> rgba (geoms (scn s') k) = actuator_rgba m d vopt i
        | Inl e \<Rightarrow> True)"
proof -
  have p: "0 < mjMINVAL" by (rule mjMINVAL_pos)
  have lo: "r1 - r0 \<ge> mjMINVAL" and hi: "r2 - r1 \<ge> mjMINVAL"
    using actuator_rng_gaps [OF assms(1)] by simp_all
  have ord: "r0 < r1" "r1 < r2" using lo hi p by linarith+
  have av: "actuator_act m d vopt i = mjMIN r2 (mjMAX r0 v)"
    unfolding actuator_act_def assms(1) assms(2) by simp
  have w: "actuator_interp (actuator_rng m vopt i) (actuator_act m d vopt i) =
           (if v \<le> r0 then (1, 0, 0)
            else if v \<le> r1 then ((r1 - v) / (r1 - r0), (v - r0) / (r1 - r0), 0)
            else if v < r2 then (0, (r2 - v) / (r2 - r1), (v - r1) / (r2 - r1))
            else (0, 0, 1))"
    unfolding av assms(1) by (rule actuator_interp_cases [OF lo hi])
  obtain n0 n1 n2 n3 where n: "rgba_actuatornegative (vis m) = (n0, n1, n2, n3)"
    by (cases "rgba_actuatornegative (vis m)") auto
  obtain c0 c1 c2 c3 where c: "rgba_actuator (vis m) = (c0, c1, c2, c3)"
    by (cases "rgba_actuator (vis m)") auto
  obtain p0 p1 p2 p3 where ps: "rgba_actuatorpositive (vis m) = (p0, p1, p2, p3)"
    by (cases "rgba_actuatorpositive (vis m)") auto
  have interp: "r0 < r1 \<and> r1 < r2
    \<and> (v = r1 \<longrightarrow> actuator_rgba m d vopt i = rgba_actuator (vis m))
    \<and> (v \<le> r0 \<longrightarrow> actuator_rgba m d vopt i = rgba_actuatornegative (vis m))
    \<and> (r2 \<le> v \<longrightarrow> actuator_rgba m d vopt i = rgba_actuatorpositive (vis m))
    \<and> (r0 < v \<and> v < r1 \<longrightarrow> actuator_rgba m d vopt i =
          mix3 ((r1 - v) / (r1 - r0), (v - r0) / (r1 - r0), 0)
            (rgba_actuatornegative (vis m)) (rgba_actuator (vis m))
            (rgba_actuatorpositive (vis m)))
    \<and> (r1 < v \<and> v < r2 \<longrightarrow> actuator_rgba m d vopt i =
          mix3 (0, (r2 - v) / (r2 - r1), (v - r1) / (r2 - r1))
            (rgba_actuatornegative (vis m)) (rgba_actuator (vis m))
            (rgba_actuatorpositive (vis m)))"
    using ord by (auto simp: actuator_rgba_def w n c ps mix3_def)
  have icons: "case finish (addGeoms_actuator_body m d vopt i s) of
          Inr s' \<Rightarrow> \<forall>k. ngeom (scn s) \<le> k \<and> k < ngeom (scn s')
                    \<longrightarrow> rgba (geoms (scn s') k) = actuator_rgba m d vopt i
        | Inl e \<Rightarrow> True"
    by (cases "finish (addGeoms_actuator_body m d vopt i s)")
       (simp_all add: actuator_icons_colored)
  from interp icons show ?thesis by simp
qed

text \<open>
  The extended range in terms of the limited range \<open>(lo, hi)\<close> of the actuator, when neither
  of its two parts is narrower than \<^verbatim>\<open>mjMINVAL\<close>.
\<close>

lemma actuator_rng_of_limits:
  assumes lo: "lo = (if actuator_ctrllimited m i then actuator_ctrlrange m (2 * i)
                     else if flags vopt mjVIS_ACTIVATION \<and> actuator_actlimited m i
                     then actuator_actrange m (2 * i) else - 1)"
    and hi: "hi = (if actuator_ctrllimited m i then actuator_ctrlrange m (2 * i + 1)
                   else if flags vopt mjVIS_ACTIVATION \<and> actuator_actlimited m i
                   then actuator_actrange m (2 * i + 1) else 1)"
    and a: "a = (if 0 \<le> lo then - 1 else lo)"
    and n: "n = (if 0 \<le> lo then lo else if hi \<le> 0 then hi else 0)"
    and b: "b = (if 0 \<le> lo then hi else if hi \<le> 0 then 1 else hi)"
    and gaps: "mjMINVAL \<le> n - a" "mjMINVAL \<le> b - n"
  shows "actuator_rng m vopt i = (a, n, b)"
proof -
  have lims: "(if actuator_ctrllimited m i
               then (actuator_ctrlrange m (2 * i), actuator_ctrlrange m (2 * i + 1))
               else if flags vopt mjVIS_ACTIVATION \<and> actuator_actlimited m i
               then (actuator_actrange m (2 * i), actuator_actrange m (2 * i + 1))
               else (- 1, 1)) = (lo, hi)"
    by (simp add: lo hi)
  have ext: "(if lo \<ge> 0 then (- 1, lo, hi) else if hi \<le> 0 then (lo, hi, 1) else (lo, 0, hi))
               = (a, n, b)"
    by (simp add: a n b)
  have g: "\<not> n - a < mjMINVAL" "\<not> b - n < mjMINVAL" using gaps by simp_all
  show ?thesis
    unfolding actuator_rng_def lims Let_def prod.case ext by (simp only: g if_False)
qed

text \<open>
  Claim C4, over the range the source uses. The colour of an actuator icon is a 3-way
  piecewise-linear interpolation over an extended range \<open>(a, n, b)\<close> that the source derives
  from the limited range \<open>(lo, hi)\<close> of the actuator (the control range of a control-limited
  actuator, else the activation range when activations are shown and the actuator is
  activation-limited, else \<open>(-1, 1)\<close>): it is \<open>(lo, 0, hi)\<close> when 0 lies strictly inside the
  range, \<open>(-1, lo, hi)\<close> when \<open>lo\<close> is not negative, and \<open>(lo, hi, 1)\<close> when \<open>lo\<close> is
  negative and \<open>hi\<close> is not positive. When neither part of the extended range is narrower
  than \<^verbatim>\<open>mjMINVAL\<close>, with \<open>v\<close> the control or activation value: at \<open>v = n\<close> the colour is the
  neutral reference colour, at or below \<open>a\<close> it is the negative reference colour, at or above
  \<open>b\<close> the positive one, and strictly between two of them it is their linear interpolation.
  The limit colours are at the limits of the actuator's range only when 0 lies strictly inside
  it. Every primitive that the loop body emits for the actuator (the arrow on a joint, the
  icon on a site, the segments of a tendon) has this colour.
\<close>

theorem actuator_color_by_range:
  assumes lo: "lo = (if actuator_ctrllimited m i then actuator_ctrlrange m (2 * i)
                     else if flags vopt mjVIS_ACTIVATION \<and> actuator_actlimited m i
                     then actuator_actrange m (2 * i) else - 1)"
    and hi: "hi = (if actuator_ctrllimited m i then actuator_ctrlrange m (2 * i + 1)
                   else if flags vopt mjVIS_ACTIVATION \<and> actuator_actlimited m i
                   then actuator_actrange m (2 * i + 1) else 1)"
    and a: "a = (if 0 \<le> lo then - 1 else lo)"
    and n: "n = (if 0 \<le> lo then lo else if hi \<le> 0 then hi else 0)"
    and b: "b = (if 0 \<le> lo then hi else if hi \<le> 0 then 1 else hi)"
    and gaps: "mjMINVAL \<le> n - a" "mjMINVAL \<le> b - n"
    and v: "v = (if flags vopt mjVIS_ACTIVATION \<and> actuator_dyntype m i \<noteq> 0
                 then act d (i - (nu m - na m)) else ctrl d i)"
  shows "(lo < 0 \<and> 0 < hi \<longrightarrow> (a, n, b) = (lo, 0, hi))
    \<and> (0 \<le> lo \<longrightarrow> (a, n, b) = (- 1, lo, hi))
    \<and> (lo < 0 \<and> hi \<le> 0 \<longrightarrow> (a, n, b) = (lo, hi, 1))
    \<and> (v = n \<longrightarrow> actuator_rgba m d vopt i = rgba_actuator (vis m))
    \<and> (v \<le> a \<longrightarrow> actuator_rgba m d vopt i = rgba_actuatornegative (vis m))
    \<and> (b \<le> v \<longrightarrow> actuator_rgba m d vopt i = rgba_actuatorpositive (vis m))
    \<and> (a < v \<and> v < n \<longrightarrow> actuator_rgba m d vopt i =
          mix3 ((n - v) / (n - a), (v - a) / (n - a), 0)
            (rgba_actuatornegative (vis m)) (rgba_actuator (vis m))
            (rgba_actuatorpositive (vis m)))
    \<and> (n < v \<and> v < b \<longrightarrow> actuator_rgba m d vopt i =
          mix3 (0, (b - v) / (b - n), (v - n) / (b - n))
            (rgba_actuatornegative (vis m)) (rgba_actuator (vis m))
            (rgba_actuatorpositive (vis m)))
    \<and> (case finish (addGeoms_actuator_body m d vopt i s) of
          Inr s' \<Rightarrow> \<forall>k. ngeom (scn s) \<le> k \<and> k < ngeom (scn s')
                    \<longrightarrow> rgba (geoms (scn s') k) = actuator_rgba m d vopt i
        | Inl e \<Rightarrow> True)"
proof -
  have rng: "actuator_rng m vopt i = (a, n, b)"
    by (rule actuator_rng_of_limits [OF lo hi a n b gaps])
  have shape: "(lo < 0 \<and> 0 < hi \<longrightarrow> (a, n, b) = (lo, 0, hi))
    \<and> (0 \<le> lo \<longrightarrow> (a, n, b) = (- 1, lo, hi))
    \<and> (lo < 0 \<and> hi \<le> 0 \<longrightarrow> (a, n, b) = (lo, hi, 1))"
    by (simp add: a n b)
  from actuator_color_extended [OF rng v, of s] shape show ?thesis by simp
qed

theorem actuator_color_by_range_witness:
  "actuator_rgba act_model act_data vopt0 0 = (3 / 4, 1 / 4, 1 / 4, 1)
   \<and> actuator_rgba act_model (act_data\<lparr> ctrl := (\<lambda>k. 0) \<rparr>) vopt0 0 = (1 / 2, 1 / 2, 1 / 2, 1)
   \<and> actuator_rgba act_model (act_data\<lparr> ctrl := (\<lambda>k. - 1) \<rparr>) vopt0 0 = (0, 0, 1, 1)
   \<and> actuator_rgba act_model (act_data\<lparr> ctrl := (\<lambda>k. 2) \<rparr>) vopt0 0 = (1, 0, 0, 1)
   \<and> actuator_rgba one_sided_model (act_data\<lparr> ctrl := (\<lambda>k. - 1) \<rparr>) vopt0 0 = (0, 0, 1, 1)
   \<and> (case finish (addGeoms_actuator_body act_model act_data vopt0 0 (state_of 1)) of
         Inr s' \<Rightarrow> ngeom (scn s') = 1 \<and> rgba (geoms (scn s') 0) = (3 / 4, 1 / 4, 1 / 4, 1)
       | Inl e \<Rightarrow> False)"
proof -
  have f: "\<not> (flags vopt0 mjVIS_ACTIVATION \<and> actuator_dyntype act_model 0 \<noteq> 0)"
    "\<not> (flags vopt0 mjVIS_ACTIVATION \<and> actuator_dyntype one_sided_model 0 \<noteq> 0)"
    by (simp_all add: vopt0_def)
  have l: "actuator_ctrllimited act_model 0" "actuator_ctrlrange act_model (2 * 0) = - 1"
    "actuator_ctrlrange act_model (2 * 0 + 1) = 2"
    by (simp_all add: act_model_def)
  have l1: "actuator_ctrllimited one_sided_model 0"
    "actuator_ctrlrange one_sided_model (2 * 0) = 1"
    "actuator_ctrlrange one_sided_model (2 * 0 + 1) = 2"
    by (simp_all add: one_sided_model_def act_model_def)
  have c: "rgba_actuatornegative (vis act_model) = (0, 0, 1, 1)"
    "rgba_actuator (vis act_model) = (1 / 2, 1 / 2, 1 / 2, 1)"
    "rgba_actuatorpositive (vis act_model) = (1, 0, 0, 1)"
    by (simp_all add: act_model_def)
  have c1: "rgba_actuatornegative (vis one_sided_model) = (0, 0, 1, 1)"
    by (simp add: one_sided_model_def act_model_def)
  have g: "mjMINVAL \<le> 1" "mjMINVAL \<le> 2" by (simp_all add: mjMINVAL_def)
  note two = actuator_color_by_range [where m = act_model and i = 0 and vopt = vopt0
      and lo = "- 1" and hi = 2 and a = "- 1" and n = 0 and b = 2]
  have a: "actuator_rgba act_model act_data vopt0 0 = (3 / 4, 1 / 4, 1 / 4, 1)"
    using two [where v = 1 and d = act_data] f g l
    by (simp add: act_data_def c mix3_def)
  have b: "actuator_rgba act_model (act_data\<lparr> ctrl := (\<lambda>k. 0) \<rparr>) vopt0 0 = (1 / 2, 1 / 2, 1 / 2, 1)"
    using two [where v = 0 and d = "act_data\<lparr> ctrl := (\<lambda>k. 0) \<rparr>"] f g l
    by (simp add: c)
  have n: "actuator_rgba act_model (act_data\<lparr> ctrl := (\<lambda>k. - 1) \<rparr>) vopt0 0 = (0, 0, 1, 1)"
    using two [where v = "- 1" and d = "act_data\<lparr> ctrl := (\<lambda>k. - 1) \<rparr>"] f g l
    by (simp add: c)
  have p: "actuator_rgba act_model (act_data\<lparr> ctrl := (\<lambda>k. 2) \<rparr>) vopt0 0 = (1, 0, 0, 1)"
    using two [where v = 2 and d = "act_data\<lparr> ctrl := (\<lambda>k. 2) \<rparr>"] f g l
    by (simp add: c)
  have q: "actuator_rgba one_sided_model (act_data\<lparr> ctrl := (\<lambda>k. - 1) \<rparr>) vopt0 0 = (0, 0, 1, 1)"
    using actuator_color_by_range [where m = one_sided_model and i = 0 and vopt = vopt0
      and lo = 1 and hi = 2 and a = "- 1" and n = 1 and b = 2 and v = "- 1"
      and d = "act_data\<lparr> ctrl := (\<lambda>k. - 1) \<rparr>"] f g l1
    by (simp add: c1)
  have one: "case finish (addGeoms_actuator_body act_model act_data vopt0 0 (state_of 1)) of
         Inr s' \<Rightarrow> ngeom (scn (state_of 1)) = 0 \<and> ngeom (scn s') = 1
       | Inl e \<Rightarrow> False"
    by (simp add: addGeoms_actuator_body_def combinator_defs group_enabled_def clamp_group_def
          mjMAX_def mjMIN_def mjNGROUP_def mjv_makeConnector_def connector_compatible_def
          act_model_def act_data_def example_defs at3_def Let_def)
  have col: "case finish (addGeoms_actuator_body act_model act_data vopt0 0 (state_of 1)) of
          Inr s' \<Rightarrow> \<forall>k. ngeom (scn (state_of 1)) \<le> k \<and> k < ngeom (scn s')
                    \<longrightarrow> rgba (geoms (scn s') k) = actuator_rgba act_model act_data vopt0 0
        | Inl e \<Rightarrow> True"
    using two [where v = 1 and d = act_data and s = "state_of 1"] f g l
    by (simp add: act_data_def)
  have icon: "case finish (addGeoms_actuator_body act_model act_data vopt0 0 (state_of 1)) of
         Inr s' \<Rightarrow> ngeom (scn s') = 1 \<and> rgba (geoms (scn s') 0) = (3 / 4, 1 / 4, 1 / 4, 1)
       | Inl e \<Rightarrow> False"
    using one col a
    by (cases "finish (addGeoms_actuator_body act_model act_data vopt0 0 (state_of 1))") auto
  show ?thesis using a b n p q icon by simp
qed

text \<open>
  The claim as stated puts the negative reference colour at the negative limit of the
  actuator's range. For the control range 1 .. 2 the source extends the range to -1 .. 2 with
  the neutral value at 1: at the control value 1, the lower limit of the range, the icon has
  the neutral colour, and it is drawn.
\<close>

theorem one_sided_range_counterexample:
  "actuator_ctrllimited one_sided_model 0
   \<and> actuator_ctrlrange one_sided_model (2 * 0) = 1
   \<and> actuator_ctrlrange one_sided_model (2 * 0 + 1) = 2
   \<and> ctrl act_data 0 = 1
   \<and> actuator_rgba one_sided_model act_data vopt0 0 = rgba_actuator (vis one_sided_model)
   \<and> actuator_rgba one_sided_model act_data vopt0 0
       \<noteq> rgba_actuatornegative (vis one_sided_model)
   \<and> summary (addGeoms_actuator_body one_sided_model act_data vopt0 0 (state_of 1))
       = Some (Ended_normally, 1, 0)"
proof -
  have col: "actuator_rgba one_sided_model act_data vopt0 0 = (1 / 2, 1 / 2, 1 / 2, 1)"
    by (simp add: actuator_rgba_def actuator_interp_def actuator_act_def actuator_rng_def
          mix3_def one_sided_model_def act_model_def act_data_def vopt0_def mjMINVAL_def
          mjMAX_def mjMIN_def Let_def)
  have ref: "rgba_actuator (vis one_sided_model) = (1 / 2, 1 / 2, 1 / 2, 1)"
    "rgba_actuatornegative (vis one_sided_model) = (0, 0, 1, 1)"
    by (simp_all add: one_sided_model_def act_model_def)
  have lim: "actuator_ctrllimited one_sided_model 0"
    "actuator_ctrlrange one_sided_model (2 * 0) = 1"
    "actuator_ctrlrange one_sided_model (2 * 0 + 1) = 2" "ctrl act_data 0 = 1"
    by (simp_all add: one_sided_model_def act_model_def act_data_def)
  have drawn: "summary (addGeoms_actuator_body one_sided_model act_data vopt0 0 (state_of 1))
                 = Some (Ended_normally, 1, 0)"
    by (simp add: addGeoms_actuator_body_def combinator_defs group_enabled_def clamp_group_def
          mjMAX_def mjMIN_def mjNGROUP_def mjv_makeConnector_def connector_compatible_def
          one_sided_model_def act_model_def act_data_def example_defs at3_def Let_def)
  show ?thesis using lim drawn by (simp add: col ref)
qed

subsection \<open>Capacity of the scene buffer\<close>

lemma emitting_weaken: "emitting M w G b s \<Longrightarrow> emitting M w G False s"
  by (auto simp: emitting_def split: if_splits)

lemma tr_seq_nil: "tr M w G b (seq []) b"
  by (simp add: tr_def hoare_seq_nil)

lemma tr_seq_cons: "tr M w G b f b1 \<Longrightarrow> tr M w G b1 (seq fs) b2 \<Longrightarrow> tr M w G b (seq (f # fs)) b2"
  unfolding tr_def by (rule hoare_seq_cons)

lemma tr_for_loop: "(\<And>i. tr M w G False (body i) False) \<Longrightarrow> tr M w G False (for_loop xs body) False"
  unfolding tr_def by (rule hoare_for_loop)

lemma tr_whenever: "tr M w G b f b \<Longrightarrow> tr M w G b (whenever c f) b"
  by (auto simp: tr_def hoare_def whenever_def)

lemma tr_whenever_v: "tr M w G b f b \<Longrightarrow> tr M w G b (whenever_v c f) b"
  by (auto simp: tr_def hoare_def whenever_v_def)

lemma tr_if: "tr M w G b f b' \<Longrightarrow> tr M w G b g b' \<Longrightarrow> tr M w G b (if c then f else g) b'"
  by simp

lemma tr_continue_if: "tr M w G b (continue_if c) b"
  by (auto simp: tr_def hoare_def continue_if_def emitting_weaken)

lemma tr_Continue: "tr M w G b Continue b'"
  by (auto simp: tr_def hoare_def emitting_weaken)

lemma tr_Fatal: "tr M w G b (\<lambda>s. Fatal e) b'"
  by (auto simp: tr_def hoare_def)

lemma tr_assign_objtype: "tr M w G b (assign_objtype t) b"
  by (auto simp: tr_def hoare_def assign_objtype_def emitting_def)

lemma tr_assign_category: "tr M w G b (assign_category c) b"
  by (auto simp: tr_def hoare_def assign_category_def emitting_def)

lemma tr_modify_geom: "tr M w G True (modify_geom f) True"
  by (auto simp: tr_def hoare_def modify_geom_def emitting_def)

lemma tr_modify_geom_v: "tr M w G True (\<lambda>s. modify_geom (f s) s) True"
  by (auto simp: tr_def hoare_def modify_geom_def emitting_def)

lemma tr_connector: "tr M w G True (connector ty width a b) True"
  by (auto simp: tr_def hoare_def connector_def modify_geom_def emitting_def split: sum.splits)

lemma tr_START: "tr M w G False (START ot cat i) True"
  by (auto simp: tr_def hoare_def START_def modify_geom_def emitting_def overflowed_def
        mj_warning_def)

lemma tr_START_v: "tr M w G False (START_v i) True"
  using tr_START by (simp add: tr_def hoare_def START_v_def)

lemma tr_FINISH: "tr M w G True FINISH False"
  by (auto simp: tr_def hoare_def FINISH_def emitting_def)

lemma tr_joint_icon: "tr M w G True (joint_icon m d i sz0 sz1) True"
  by (cases "jnt_type m i")
     (simp_all add: joint_icon_def Let_def tr_modify_geom tr_connector tr_Fatal)

lemma tr_frame_axis:
  "tr M w G False start True \<Longrightarrow> tr M w G False (frame_axis start m p width len j) False"
  unfolding frame_axis_def Let_def
  by (rule tr_seq_cons tr_seq_nil tr_connector tr_modify_geom tr_FINISH | assumption)+

lemmas tr_rules =
  tr_seq_nil tr_seq_cons tr_for_loop tr_whenever tr_whenever_v tr_if tr_continue_if
  tr_Continue tr_Fatal tr_assign_objtype tr_assign_category tr_modify_geom tr_modify_geom_v
  tr_connector tr_START tr_START_v tr_FINISH tr_joint_icon tr_frame_axis

lemma tr_addContactGeom_body: "tr M w G False (addContactGeom_body m d flgs vopt i) False"
  unfolding addContactGeom_body_def Let_def
  by (rule tr_rules)+

lemma tr_skin: "tr M w G False (addGeoms_skin m d vopt pert catmask) False"
  unfolding addGeoms_skin_def addGeoms_skin_body_def Let_def
  by (rule tr_rules)+

lemma tr_inertia: "tr M w G False (addGeoms_inertia m d vopt pert catmask) False"
  unfolding addGeoms_inertia_def addGeoms_inertia_body_def Let_def
  by (rule tr_rules)+

lemma tr_pertobj: "tr M w G False (addGeoms_pertobj m d vopt pert catmask) False"
  unfolding addGeoms_pertobj_def Let_def
  by (rule tr_rules)+

lemma tr_bodyframe: "tr M w G False (addGeoms_bodyframe m d vopt catmask) False"
  unfolding addGeoms_bodyframe_def addGeoms_bodyframe_body_def Let_def
  by (rule tr_rules)+

lemma tr_selpnt: "tr M w G False (addGeoms_selpnt m d vopt pert catmask) False"
  unfolding addGeoms_selpnt_def Let_def
  by (rule tr_rules)+

lemma tr_bodylabel: "tr M w G False (addGeoms_bodylabel m d vopt pert catmask) False"
  unfolding addGeoms_bodylabel_def addGeoms_bodylabel_body_def Let_def
  by (rule tr_rules)+

lemma tr_joint: "tr M w G False (addGeoms_joint m d vopt catmask) False"
  unfolding addGeoms_joint_def addGeoms_joint_body_def Let_def
  by (rule tr_rules)+

lemma tr_actuator: "tr M w G False (addGeoms_actuator m d vopt catmask) False"
  unfolding addGeoms_actuator_def addGeoms_actuator_body_def Let_def
  by (rule tr_rules)+

lemma tr_geom: "tr M w G False (addGeoms_geom m d vopt pert catmask) False"
  unfolding addGeoms_geom_def addGeoms_geom_body_def Let_def
  by (rule tr_rules)+

lemma tr_site: "tr M w G False (addGeoms_site m d vopt pert catmask) False"
  unfolding addGeoms_site_def addGeoms_site_body_def Let_def
  by (rule tr_rules)+

lemma tr_camera: "tr M w G False (addGeoms_camera m d vopt catmask) False"
  unfolding addGeoms_camera_def addGeoms_camera_body_def Let_def
  by (rule tr_rules)+

lemma tr_light: "tr M w G False (addGeoms_light m d vopt catmask) False"
  unfolding addGeoms_light_def addGeoms_light_body_def Let_def
  by (rule tr_rules)+

lemma tr_tendon: "tr M w G False (addGeoms_tendon m d vopt catmask) False"
  unfolding addGeoms_tendon_def addGeoms_tendon_body_def Let_def
  by (rule tr_rules)+

lemma tr_slidercrank: "tr M w G False (addGeoms_slidercrank m d vopt catmask) False"
  unfolding addGeoms_slidercrank_def addGeoms_slidercrank_body_def Let_def
  by (rule tr_rules)+

lemma tr_com: "tr M w G False (addGeoms_com m d vopt catmask) False"
  unfolding addGeoms_com_def addGeoms_com_body_def Let_def
  by (rule tr_rules)+

lemma tr_autoconnect: "tr M w G False (addGeoms_autoconnect m d vopt catmask) False"
  unfolding addGeoms_autoconnect_def addGeoms_autoconnect_body_def Let_def
  by (rule tr_rules)+

lemma tr_rangefinder: "tr M w G False (addGeoms_rangefinder m d vopt catmask) False"
  unfolding addGeoms_rangefinder_def addGeoms_rangefinder_body_def Let_def
  by (rule tr_rules)+

lemma tr_pertforce: "tr M w G False (addGeoms_pertforce m d vopt catmask) False"
  unfolding addGeoms_pertforce_def addGeoms_pertforce_body_def Let_def
  by (rule tr_rules)+

lemma tr_constraint: "tr M w G False (addGeoms_constraint m d vopt catmask) False"
  unfolding addGeoms_constraint_def addGeoms_connect_body_def addGeoms_distance_body_def Let_def
  by (rule tr_rules)+

lemmas tr_sections =
  tr_skin tr_inertia tr_pertobj tr_bodyframe tr_selpnt tr_bodylabel tr_joint tr_actuator tr_geom tr_site tr_camera tr_light tr_tendon tr_slidercrank tr_com tr_autoconnect tr_rangefinder tr_pertforce tr_constraint

lemma hoare_conseq_call:
  assumes "hoare P f Qn Qc Qr" and "\<And>s. Qn s \<Longrightarrow> Q s" and "\<And>s. Qr s \<Longrightarrow> Q s" and "\<And>s. Qc s \<Longrightarrow> Qc' s"
  shows "hoare P (\<lambda>s. call (f s)) Q Qc' Qr'"
  unfolding hoare_def
proof (intro allI impI)
  fix s assume "P s"
  with assms(1) have "case f s of Normal s' \<Rightarrow> Qn s' | Continue s' \<Rightarrow> Qc s'
                      | Return s' \<Rightarrow> Qr s' | Fatal e \<Rightarrow> True"
    by (simp add: hoare_def)
  then show "case call (f s) of Normal s' \<Rightarrow> Q s' | Continue s' \<Rightarrow> Qc' s'
                      | Return s' \<Rightarrow> Qr' s' | Fatal e \<Rightarrow> True"
    using assms(2-4) by (cases "f s") (simp_all add: call_def)
qed

lemma hoare_addContactGeom:
  "hoare (emitting M w G False) (addContactGeom m d flgs vopt)
     (emitting M w G False) (emitting M w G False)
     (\<lambda>s. emitting M w G False s \<or> overflowed M w G s)"
proof -
  have loop: "hoare (emitting M w G False)
      (for_loop [0 .. ncon d - 1] (addContactGeom_body m d flgs vopt))
      (emitting M w G False) (emitting M w G False) (overflowed M w G)"
    using tr_for_loop [of M w G "addContactGeom_body m d flgs vopt" "[0 .. ncon d - 1]"]
          tr_addContactGeom_body [of M w G m d flgs vopt]
    by (simp add: tr_def)
  show ?thesis
    unfolding hoare_def
  proof (intro allI impI)
    fix s assume e: "emitting M w G False s"
    show "case addContactGeom m d flgs vopt s of Normal s' \<Rightarrow> emitting M w G False s'
          | Continue s' \<Rightarrow> emitting M w G False s'
          | Return s' \<Rightarrow> emitting M w G False s' \<or> overflowed M w G s' | Fatal e \<Rightarrow> True"
    proof (cases "\<not> flgs mjVIS_CONTACTPOINT \<and> \<not> flgs mjVIS_CONTACTFORCE \<and> opt_frame vopt \<noteq> mjFRAME_CONTACT")
      case True
      then show ?thesis using e by (simp add: addContactGeom_def)
    next
      case False
      then have eq: "addContactGeom m d flgs vopt s =
           for_loop [0 .. ncon d - 1] (addContactGeom_body m d flgs vopt) s"
        by (auto simp: addContactGeom_def)
      from loop e have "case for_loop [0 .. ncon d - 1] (addContactGeom_body m d flgs vopt) s of
            Normal s' \<Rightarrow> emitting M w G False s'
          | Continue s' \<Rightarrow> emitting M w G False s'
          | Return s' \<Rightarrow> overflowed M w G s' | Fatal e \<Rightarrow> True"
        by (simp add: hoare_def)
      then show ?thesis unfolding eq
        by (cases "for_loop [0 .. ncon d - 1] (addContactGeom_body m d flgs vopt) s") simp_all
    qed
  qed
qed

lemma hoare_contact_call:
  "hoare (emitting M w G False)
     (whenever c (\<lambda>s. call (addContactGeom m d flgs vopt s)))
     (\<lambda>s. emitting M w G False s \<or> overflowed M w G s)
     (emitting M w G False) (overflowed M w G)"
proof (cases c)
  case True
  have "hoare (emitting M w G False) (\<lambda>s. call (addContactGeom m d flgs vopt s))
     (\<lambda>s. emitting M w G False s \<or> overflowed M w G s)
     (emitting M w G False) (overflowed M w G)"
    by (rule hoare_conseq_call [OF hoare_addContactGeom]) simp_all
  then show ?thesis using True by (simp add: whenever_def hoare_def)
next
  case False
  then show ?thesis by (simp add: whenever_def hoare_def)
qed


lemma hoare_addGeoms:
  "hoare (emitting M w G False) (mjv_addGeoms m d vopt pert catmask)
     (\<lambda>s. emitting M w G False s \<or> overflowed M w G s)
     (emitting M w G False) (overflowed M w G)"
  unfolding mjv_addGeoms_def Let_def
  apply (rule hoare_seq_cons, rule tr_skin [unfolded tr_def])
  apply (rule hoare_seq_cons, rule tr_inertia [unfolded tr_def])
  apply (rule hoare_seq_cons, rule tr_pertobj [unfolded tr_def])
  apply (rule hoare_seq_cons, rule tr_bodyframe [unfolded tr_def])
  apply (rule hoare_seq_cons, rule tr_selpnt [unfolded tr_def])
  apply (rule hoare_seq_cons, rule tr_bodylabel [unfolded tr_def])
  apply (rule hoare_seq_cons, rule tr_joint [unfolded tr_def])
  apply (rule hoare_seq_cons, rule tr_actuator [unfolded tr_def])
  apply (rule hoare_seq_cons, rule tr_geom [unfolded tr_def])
  apply (rule hoare_seq_cons, rule tr_site [unfolded tr_def])
  apply (rule hoare_seq_cons, rule tr_camera [unfolded tr_def])
  apply (rule hoare_seq_cons, rule tr_light [unfolded tr_def])
  apply (rule hoare_seq_cons, rule tr_tendon [unfolded tr_def])
  apply (rule hoare_seq_cons, rule tr_slidercrank [unfolded tr_def])
  apply (rule hoare_seq_cons, rule tr_com [unfolded tr_def])
  apply (rule hoare_seq_cons, rule tr_autoconnect [unfolded tr_def])
  apply (rule hoare_seq_cons, rule tr_rangefinder [unfolded tr_def])
  apply (rule hoare_seq_cons, rule tr_pertforce [unfolded tr_def])
  apply (rule hoare_seq_cons, rule tr_constraint [unfolded tr_def])
  apply (rule hoare_seq_cons, rule hoare_contact_call)
  apply (rule hoare_seq_nil)
  apply assumption
  done

lemma makeLights_step_geoms:
  "maxgeom (makeLights_step m d i sc) = maxgeom sc \<and> ngeom (makeLights_step m d i sc) = ngeom sc
   \<and> geoms (makeLights_step m d i sc) = geoms sc"
  by (simp add: makeLights_step_def Let_def)

lemma makeLights_fold_geoms:
  "maxgeom (fold (makeLights_step m d) xs sc) = maxgeom sc
   \<and> ngeom (fold (makeLights_step m d) xs sc) = ngeom sc
   \<and> geoms (fold (makeLights_step m d) xs sc) = geoms sc"
  by (induction xs arbitrary: sc) (simp_all add: makeLights_step_geoms)

lemma makeLights_geoms:
  "maxgeom (mjv_makeLights m d sc) = maxgeom sc \<and> ngeom (mjv_makeLights m d sc) = ngeom sc
   \<and> geoms (mjv_makeLights m d sc) = geoms sc"
  by (simp add: mjv_makeLights_def Let_def makeLights_fold_geoms)

lemma updateCamera_geoms:
  "mjv_updateCamera mo d camo sc = Inr (camo', sc') \<Longrightarrow>
     maxgeom sc' = maxgeom sc \<and> ngeom sc' = ngeom sc \<and> geoms sc' = geoms sc"
  by (auto simp: mjv_updateCamera_def split: option.splits if_splits sum.splits prod.splits)

lemma updateSkin_geoms:
  "maxgeom (mjv_updateSkin m d sc) = maxgeom sc \<and> ngeom (mjv_updateSkin m d sc) = ngeom sc
   \<and> geoms (mjv_updateSkin m d sc) = geoms sc"
  by (simp add: mjv_updateSkin_def split: prod.splits)

lemma addGeoms_outcome:
  assumes "emitting M w G False s"
  shows "case mjv_addGeoms m d vopt pert catmask s of
           Normal s' \<Rightarrow> emitting M w G False s' \<or> overflowed M w G s'
         | Continue s' \<Rightarrow> emitting M w G False s'
         | Return s' \<Rightarrow> overflowed M w G s'
         | Fatal e \<Rightarrow> True"
  using hoare_addGeoms [of M w G m d vopt pert catmask] assms
  by (simp add: hoare_def)

lemma addGeoms_finish:
  assumes "emitting M w G False s" and "finish (mjv_addGeoms m d vopt pert catmask s) = Inr s'"
  shows "emitting M w G False s' \<or> overflowed M w G s'"
  using addGeoms_outcome [OF assms(1), of m d vopt pert catmask] assms(2)
  by (cases "mjv_addGeoms m d vopt pert catmask s") simp_all

lemma updateScene_capacity:
  assumes m0: "0 \<le> maxgeom (scn s)"
    and r: "mjv_updateScene m d vopt pert camo catmask s = Inr (camo', s')"
  shows "maxgeom (scn s') = maxgeom (scn s) \<and> 0 \<le> ngeom (scn s')
         \<and> ngeom (scn s') \<le> maxgeom (scn s')"
proof -
  let ?s0 = "s\<lparr> scn := (scn s)\<lparr> ngeom := 0 \<rparr> \<rparr>"
  have e: "emitting (maxgeom (scn s)) (warning_number s) (geoms (scn s)) False ?s0"
    using m0 by (simp add: emitting_def)
  from r obtain s1 where f: "finish (mjv_addGeoms m d vopt pert catmask ?s0) = Inr s1"
    by (cases "finish (mjv_addGeoms m d vopt pert catmask ?s0)")
       (simp_all add: mjv_updateScene_def)
  from addGeoms_finish [OF e f]
  have c1: "maxgeom (scn s1) = maxgeom (scn s) \<and> 0 \<le> ngeom (scn s1)
            \<and> ngeom (scn s1) \<le> maxgeom (scn s)"
    using m0 by (auto simp: emitting_def overflowed_def)
  from r f obtain sc2 where
    c: "mjv_updateCamera (Some m) d camo (mjv_makeLights m d (scn s1)) = Inr (camo', sc2)"
    and s': "s' = s1\<lparr> scn := (if flags vopt mjVIS_SKIN then mjv_updateSkin m d sc2 else sc2) \<rparr>"
    by (auto simp: mjv_updateScene_def split: sum.splits prod.splits)
  from updateCamera_geoms [OF c] makeLights_geoms [of m d "scn s1"]
  have c2: "maxgeom sc2 = maxgeom (scn s1) \<and> ngeom sc2 = ngeom (scn s1)" by simp
  show ?thesis using c1 c2 by (simp add: s' updateSkin_geoms)
qed


subsection \<open>Claim C1: the primitive count never exceeds the capacity\<close>

text \<open>
  Claim C1, as the source has it. Started with a count within the capacity,
  \<^verbatim>\<open>mjv_addGeoms\<close> keeps the capacity, ends with a count within it and writes no slot
  outside \<open>0 .. maxgeom - 1\<close>. Every emission first checks for space (\<^verbatim>\<open>START\<close>); at a full
  buffer it records the warning and returns from the assembly function at once: the rest of
  the emission, the remaining elements of the loop and all remaining categories are not run.
  So one pass records at most one warning, and when it records one the scene holds exactly
  \<open>maxgeom\<close> primitives. \<^verbatim>\<open>mjv_updateScene\<close>, which clears the count first, ends with a
  count within the capacity whenever the capacity is not negative.
\<close>

theorem scene_capacity:
  "(0 \<le> ngeom (scn s) \<and> ngeom (scn s) \<le> maxgeom (scn s) \<longrightarrow>
      (case finish (mjv_addGeoms m d vopt pert catmask s) of
         Inr s' \<Rightarrow>
           maxgeom (scn s') = maxgeom (scn s) \<and> 0 \<le> ngeom (scn s')
           \<and> ngeom (scn s') \<le> maxgeom (scn s)
           \<and> (\<forall>k. k < 0 \<or> maxgeom (scn s) \<le> k \<longrightarrow> geoms (scn s') k = geoms (scn s) k)
           \<and> (warning_number s' = warning_number s
               \<or> warning_number s' = warning_number s + 1
                 \<and> warning_lastinfo s' = maxgeom (scn s)
                 \<and> ngeom (scn s') = maxgeom (scn s))
           \<and> (mjv_addGeoms m d vopt pert catmask s = Return s' \<longrightarrow>
                 warning_number s' = warning_number s + 1
                 \<and> ngeom (scn s') = maxgeom (scn s))
       | Inl e \<Rightarrow> True))
   \<and> (maxgeom (scn s) \<le> ngeom (scn s) \<longrightarrow>
        START ot cat i s = Return (mj_warning (maxgeom (scn s)) s)
        \<and> seq (START ot cat i # rest) s = Return (mj_warning (maxgeom (scn s)) s)
        \<and> for_loop (j # js) (\<lambda>j. seq (START ot cat i # body j)) s
            = Return (mj_warning (maxgeom (scn s)) s))
   \<and> (0 \<le> maxgeom (scn s) \<longrightarrow>
        (case mjv_updateScene m d vopt pert camo catmask s of
           Inr (camo', s'') \<Rightarrow>
             maxgeom (scn s'') = maxgeom (scn s) \<and> 0 \<le> ngeom (scn s'')
             \<and> ngeom (scn s'') \<le> maxgeom (scn s'')
         | Inl e \<Rightarrow> True))"
proof (intro conjI impI)
  assume a: "0 \<le> ngeom (scn s) \<and> ngeom (scn s) \<le> maxgeom (scn s)"
  have e: "emitting (maxgeom (scn s)) (warning_number s) (geoms (scn s)) False s"
    using a by (simp add: emitting_def)
  show "case finish (mjv_addGeoms m d vopt pert catmask s) of
         Inr s' \<Rightarrow>
           maxgeom (scn s') = maxgeom (scn s) \<and> 0 \<le> ngeom (scn s')
           \<and> ngeom (scn s') \<le> maxgeom (scn s)
           \<and> (\<forall>k. k < 0 \<or> maxgeom (scn s) \<le> k \<longrightarrow> geoms (scn s') k = geoms (scn s) k)
           \<and> (warning_number s' = warning_number s
               \<or> warning_number s' = warning_number s + 1
                 \<and> warning_lastinfo s' = maxgeom (scn s)
                 \<and> ngeom (scn s') = maxgeom (scn s))
           \<and> (mjv_addGeoms m d vopt pert catmask s = Return s' \<longrightarrow>
                 warning_number s' = warning_number s + 1
                 \<and> ngeom (scn s') = maxgeom (scn s))
       | Inl e \<Rightarrow> True"
  proof (cases "finish (mjv_addGeoms m d vopt pert catmask s)")
    case (Inl e)
    then show ?thesis by simp
  next
    case (Inr s')
    have d: "emitting (maxgeom (scn s)) (warning_number s) (geoms (scn s)) False s'
          \<or> overflowed (maxgeom (scn s)) (warning_number s) (geoms (scn s)) s'"
      by (rule addGeoms_finish [OF e Inr])
    have r: "mjv_addGeoms m d vopt pert catmask s = Return s' \<Longrightarrow>
               overflowed (maxgeom (scn s)) (warning_number s) (geoms (scn s)) s'"
      using addGeoms_outcome [OF e, of m d vopt pert catmask] by simp
    have "maxgeom (scn s') = maxgeom (scn s)" "0 \<le> ngeom (scn s')"
      "ngeom (scn s') \<le> maxgeom (scn s)"
      "\<forall>k. k < 0 \<or> maxgeom (scn s) \<le> k \<longrightarrow> geoms (scn s') k = geoms (scn s) k"
      "warning_number s' = warning_number s
               \<or> warning_number s' = warning_number s + 1
                 \<and> warning_lastinfo s' = maxgeom (scn s)
                 \<and> ngeom (scn s') = maxgeom (scn s)"
      using d a by (auto simp: emitting_def overflowed_def)
    moreover have "mjv_addGeoms m d vopt pert catmask s = Return s' \<longrightarrow>
                 warning_number s' = warning_number s + 1
                 \<and> ngeom (scn s') = maxgeom (scn s)"
      using r by (simp add: overflowed_def)
    ultimately show ?thesis using Inr by simp
  qed
next
  assume "maxgeom (scn s) \<le> ngeom (scn s)"
  then show "START ot cat i s = Return (mj_warning (maxgeom (scn s)) s)"
    "seq (START ot cat i # rest) s = Return (mj_warning (maxgeom (scn s)) s)"
    "for_loop (j # js) (\<lambda>j. seq (START ot cat i # body j)) s
            = Return (mj_warning (maxgeom (scn s)) s)"
    by (simp_all add: START_def)
next
  assume m0: "0 \<le> maxgeom (scn s)"
  show "case mjv_updateScene m d vopt pert camo catmask s of
           Inr (camo', s'') \<Rightarrow>
             maxgeom (scn s'') = maxgeom (scn s) \<and> 0 \<le> ngeom (scn s'')
             \<and> ngeom (scn s'') \<le> maxgeom (scn s'')
         | Inl e \<Rightarrow> True"
  proof (cases "mjv_updateScene m d vopt pert camo catmask s")
    case (Inl e)
    then show ?thesis by simp
  next
    case (Inr p)
    obtain camo' s'' where p: "p = (camo', s'')" by (cases p) auto
    from updateScene_capacity [OF m0 Inr [unfolded p]] show ?thesis
      using Inr p by simp
  qed
qed

theorem scene_capacity_witness:
  "0 \<le> ngeom (scn (state_of 2)) \<and> ngeom (scn (state_of 2)) \<le> maxgeom (scn (state_of 2))
   \<and> 0 \<le> maxgeom (scn (state_of 2))
   \<and> (case finish (mjv_addGeoms cam_model data0 cam_vopt None all_categories (state_of 2)) of
         Inr s' \<Rightarrow> ngeom (scn s') \<le> 2 \<and> maxgeom (scn s') = 2
       | Inl e \<Rightarrow> True)
   \<and> maxgeom (scn (state_of 0)) \<le> ngeom (scn (state_of 0))
   \<and> seq [START mjOBJ_CAMERA mjCAT_DECOR 0, FINISH] (state_of 0)
       = Return (mj_warning 0 (state_of 0))
   \<and> (case mjv_updateScene cam_model data0 cam_vopt None None all_categories (state_of 2) of
         Inr (camo', s'') \<Rightarrow> ngeom (scn s'') \<le> maxgeom (scn s'') \<and> maxgeom (scn s'') = 2
       | Inl e \<Rightarrow> True)"
  using scene_capacity [of "state_of 2" cam_model data0 cam_vopt None all_categories
          mjOBJ_CAMERA mjCAT_DECOR 0 "[FINISH]" 0 "[]" "\<lambda>j. []" None]
        scene_capacity [of "state_of 0" cam_model data0 cam_vopt None all_categories
          mjOBJ_CAMERA mjCAT_DECOR 0 "[FINISH]" 0 "[]" "\<lambda>j. []" None]
  by (auto simp: state_of_def scene_of_def split: sum.splits prod.splits)


text \<open>
  The claim as stated, "skips that single emission, and assembly of all remaining categories
  continues", fails. With one camera and one light shown as icons, a pass with room for three
  primitives emits three (camera body, lens, light). With capacity 0 the three are dropped, yet
  the pass ends by \<^verbatim>\<open>return\<close> with one warning instead of three: the lens and the light were
  never attempted. With capacity 2 the light, which belongs to a later category, is dropped by
  the same \<^verbatim>\<open>return\<close>.
\<close>

theorem continue_after_full_counterexample:
  "summary (mjv_addGeoms cam_model data0 cam_vopt None all_categories (state_of 3))
     = Some (Ended_normally, 3, 0)
   \<and> summary (mjv_addGeoms cam_model data0 cam_vopt None all_categories (state_of 0))
     = Some (Ended_by_return, 0, 1)
   \<and> summary (mjv_addGeoms cam_model data0 cam_vopt None all_categories (state_of 2))
     = Some (Ended_by_return, 2, 1)"
  by (simp add: mjv_addGeoms_def section_defs combinator_defs addGeoms_camera_body_def
        addGeoms_light_body_def cam_model_def cam_vopt_def example_defs Let_def upto_small)

subsection \<open>Claim C5: contact force arrows\<close>

lemma sqrt_25: "sqrt 25 = 5"
  by (rule real_sqrt_unique) simp_all

text \<open>
  Claim C5, with the conditions the source tests. For a single contact of dimension 3 that is
  included in the solve (\<^verbatim>\<open>efc_address >= 0\<close>) and whose force has a norm of at least
  \<^verbatim>\<open>mjMINVAL\<close>, when the contact-point, contact-force and split flags are on, the frame mode is
  not "contact", the label mode is "contact force" and the scene has room for three more
  primitives, \<^verbatim>\<open>addContactGeom\<close> emits exactly three primitives at the contact position: the
  contact-point marker (a cylinder, without label), the arrow of the normal force with the
  label that carries the norm of the force, and the arrow of the friction force, without
  label.
\<close>

theorem contact_force_split:
  assumes "ncon d = 1"
    and "con_dim (contact d 0) = 3"
    and "con_efc_address (contact d 0) \<ge> 0"
    and "flgs mjVIS_CONTACTPOINT" and "flgs mjVIS_CONTACTFORCE" and "flgs mjVIS_CONTACTSPLIT"
    and "opt_frame vopt \<noteq> mjFRAME_CONTACT"
    and "opt_label vopt = mjLABEL_CONTACTFORCE"
    and "mju_norm3 (fst (contact_force d 0)) \<ge> mjMINVAL"
    and "ngeom (scn s) + 3 \<le> maxgeom (scn s)"
  shows "case addContactGeom m d flgs vopt s of
      Normal s' \<Rightarrow>
        (let n = ngeom (scn s); g = geoms (scn s') in
         ngeom (scn s') = n + 3
         \<and> warning_number s' = warning_number s
         \<and> (\<forall>k. k < n \<or> n + 3 \<le> k \<longrightarrow> g k = geoms (scn s) k)
         \<and> type (g n) = mjGEOM_CYLINDER \<and> pos (g n) = con_pos (contact d 0)
         \<and> rgba (g n) = rgba_contactpoint (vis m) \<and> label (g n) = NoLabel
         \<and> type (g (n + 1)) = mjGEOM_ARROW \<and> pos (g (n + 1)) = con_pos (contact d 0)
         \<and> rgba (g (n + 1)) = rgba_contactforce (vis m)
         \<and> label (g (n + 1)) = ForceLabel (mju_norm3 (fst (contact_force d 0)))
         \<and> type (g (n + 2)) = mjGEOM_ARROW \<and> pos (g (n + 2)) = con_pos (contact d 0)
         \<and> rgba (g (n + 2)) = rgba_contactfriction (vis m) \<and> label (g (n + 2)) = NoLabel)
    | _ \<Rightarrow> False"
proof -
  obtain c0 c1 c2 where cf: "fst (contact_force d 0) = (c0, c1, c2)"
    by (cases "fst (contact_force d 0)") auto
  obtain p0 p1 p2 where cp: "con_pos (contact d 0) = (p0, p1, p2)"
    by (cases "con_pos (contact d 0)") auto
  obtain f0 f1 f2 f3 f4 f5 f6 f7 f8 where fr: "con_frame (contact d 0) = (f0, f1, f2, f3, f4, f5, f6, f7, f8)"
    by (cases "con_frame (contact d 0)") auto
  show ?thesis
    using assms
    by (simp add: addContactGeom_def addContactGeom_body_def combinator_defs Let_def cf cp fr
          mjMIN_def mjv_makeConnector_def connector_compatible_def mjv_initGeom_def upto_small)
qed

theorem contact_force_split_witness:
  "ncon contact_data = 1 \<and> con_dim (contact contact_data 0) = 3
   \<and> con_efc_address (contact contact_data 0) \<ge> 0
   \<and> mju_norm3 (fst (contact_force contact_data 0)) \<ge> mjMINVAL
   \<and> ngeom (scn (state_of 3)) + 3 \<le> maxgeom (scn (state_of 3))
   \<and> (case addContactGeom model0 contact_data (flags split_point_vopt) split_point_vopt
              (state_of 3) of
         Normal s' \<Rightarrow> ngeom (scn s') = 3
           \<and> type (geoms (scn s') 0) = mjGEOM_CYLINDER
           \<and> type (geoms (scn s') 1) = mjGEOM_ARROW \<and> label (geoms (scn s') 1) = ForceLabel 5
           \<and> type (geoms (scn s') 2) = mjGEOM_ARROW \<and> label (geoms (scn s') 2) = NoLabel
       | _ \<Rightarrow> False)"
  using contact_force_split [of contact_data "flags split_point_vopt" split_point_vopt
          "state_of 3" model0]
  by (auto simp: contact_data_def split_point_vopt_def example_defs sqrt_25 mjMINVAL_def
        Let_def split: outcome.splits)

text \<open>
  The claim as stated names only the contact-force and the split flag. With exactly these two
  on (the contact-point flag off, the label mode "none") the same contact yields the two
  arrows only: no marker and no label.
\<close>

theorem contact_force_split_counterexample:
  "ncon contact_data = 1 \<and> con_dim (contact contact_data 0) = 3
   \<and> con_efc_address (contact contact_data 0) \<ge> 0
   \<and> fst (contact_force contact_data 0) = (3, 4, 0)
   \<and> flags split_vopt mjVIS_CONTACTFORCE \<and> flags split_vopt mjVIS_CONTACTSPLIT
   \<and> emitted (addContactGeom model0 contact_data (flags split_vopt) split_vopt (state_of 3))
       = Some [(mjGEOM_ARROW, NoLabel), (mjGEOM_ARROW, NoLabel)]"
  by (simp add: addContactGeom_def addContactGeom_body_def combinator_defs Let_def
        mjMIN_def mjv_makeConnector_def connector_compatible_def mjv_initGeom_def upto_small
        contact_data_def split_vopt_def example_defs sqrt_25 mjMINVAL_def primitives_def)

subsection \<open>Claim C10: fully transparent elements\<close>

text \<open>
  The three loops that test the alpha of the resolved colour. A model geom or a site whose
  colour after material resolution has alpha 0 emits no primitive: however the loop body for
  that element ends, the count is unchanged and so is every counted primitive. The same holds
  for a skin that is not the selected one. The loop over skins applies the selection glow,
  which sets the alpha to 1, before it tests the alpha, where the loops over geoms and sites
  apply it after the test: a selected skin is emitted with alpha 1 whenever the scene has room,
  whatever its resolved colour.
\<close>

lemma alpha_test_of_loops:
  "(alpha (resolved_rgba m (bodycategory m (geom_bodyid m i)) (geom_matid m i)
             (at4 (geom_rgba m) (4 * i)) (flags vopt)) = 0
      \<longrightarrow> no_emission s (addGeoms_geom_body m d vopt pert catmask i s))
   \<and> (alpha (resolved_rgba m (bodycategory m (site_bodyid m i)) (site_matid m i)
             (at4 (site_rgba m) (4 * i)) (flags vopt)) = 0
      \<longrightarrow> no_emission s (addGeoms_site_body m d vopt pert catmask i s))
   \<and> (alpha (resolved_rgba m (category_v s) (skin_matid m i)
             (at4 (skin_rgba m) (4 * i)) (flags vopt)) = 0 \<and> skinselect pert \<noteq> i
      \<longrightarrow> no_emission s (addGeoms_skin_body m d vopt pert i s))
   \<and> (skinselect pert = i \<and> ngeom (scn s) < maxgeom (scn s)
      \<longrightarrow> (case addGeoms_skin_body m d vopt pert i s of
             Normal s' \<Rightarrow> ngeom (scn s') = ngeom (scn s) + 1
               \<and> type (geoms (scn s') (ngeom (scn s))) = mjGEOM_SKIN
               \<and> alpha (rgba (geoms (scn s') (ngeom (scn s)))) = 1
           | _ \<Rightarrow> False))"
proof (intro conjI impI)
  assume "alpha (resolved_rgba m (bodycategory m (geom_bodyid m i)) (geom_matid m i)
             (at4 (geom_rgba m) (4 * i)) (flags vopt)) = 0"
  then show "no_emission s (addGeoms_geom_body m d vopt pert catmask i s)"
    by (simp add: addGeoms_geom_body_def combinator_defs setMaterial_resolved
          mjv_initGeom_def same_primitives_def)
next
  assume "alpha (resolved_rgba m (bodycategory m (site_bodyid m i)) (site_matid m i)
             (at4 (site_rgba m) (4 * i)) (flags vopt)) = 0"
  then show "no_emission s (addGeoms_site_body m d vopt pert catmask i s)"
    by (simp add: addGeoms_site_body_def combinator_defs setMaterial_resolved
          mjv_initGeom_def same_primitives_def)
next
  assume "alpha (resolved_rgba m (category_v s) (skin_matid m i)
             (at4 (skin_rgba m) (4 * i)) (flags vopt)) = 0 \<and> skinselect pert \<noteq> i"
  then show "no_emission s (addGeoms_skin_body m d vopt pert i s)"
    by (simp add: addGeoms_skin_body_def combinator_defs setMaterial_resolved
          mjv_initGeom_def same_primitives_def)
next
  assume "skinselect pert = i \<and> ngeom (scn s) < maxgeom (scn s)"
  then show "case addGeoms_skin_body m d vopt pert i s of
             Normal s' \<Rightarrow> ngeom (scn s') = ngeom (scn s) + 1
               \<and> type (geoms (scn s') (ngeom (scn s))) = mjGEOM_SKIN
               \<and> alpha (rgba (geoms (scn s') (ngeom (scn s)))) = 1
           | _ \<Rightarrow> False"
    by (simp add: addGeoms_skin_body_def combinator_defs markselected_def makeLabel_def
          setMaterial_type mjv_initGeom_def split: prod.splits)
qed

text \<open>
  Claim C10, at the input where the source departs from it. A skin without material whose
  colour (1, 0, 0, 0) has alpha 0 after material resolution, and which is the selected skin,
  is not skipped: the pass over the model ends normally with one primitive in the scene, the
  skin. On the same kind of input the loop over geoms does what the claim says: a geom of the
  selected body whose resolved colour has alpha 0 emits nothing.
\<close>

theorem transparent_selected_skin_emitted:
  "alpha (resolved_rgba skin_model mjCAT_DYNAMIC (skin_matid skin_model 0)
            (at4 (skin_rgba skin_model) (4 * 0)) (flags skin_vopt)) = 0
   \<and> skinselect skin_pert = 0
   \<and> summary (mjv_addGeoms skin_model data0 skin_vopt (Some skin_pert) all_categories
                (state_of 1)) = Some (Ended_normally, 1, 0)
   \<and> emitted (mjv_addGeoms skin_model data0 skin_vopt (Some skin_pert) all_categories
                (state_of 1)) = Some [(mjGEOM_SKIN, NoLabel)]
   \<and> alpha (resolved_rgba geom_select_model
               (bodycategory geom_select_model (geom_bodyid geom_select_model 0))
               (geom_matid geom_select_model 0) (at4 (geom_rgba geom_select_model) (4 * 0))
               (flags vopt0)) = 0
   \<and> select geom_select_pert = geom_bodyid geom_select_model 0
   \<and> summary (mjv_addGeoms geom_select_model data0 vopt0 (Some geom_select_pert)
                all_categories (state_of 1)) = Some (Ended_normally, 0, 0)"
proof -
  have skin: "alpha (resolved_rgba skin_model mjCAT_DYNAMIC (skin_matid skin_model 0)
            (at4 (skin_rgba skin_model) (4 * 0)) (flags skin_vopt)) = 0
   \<and> skinselect skin_pert = 0
   \<and> summary (mjv_addGeoms skin_model data0 skin_vopt (Some skin_pert) all_categories
                (state_of 1)) = Some (Ended_normally, 1, 0)
   \<and> emitted (mjv_addGeoms skin_model data0 skin_vopt (Some skin_pert) all_categories
                (state_of 1)) = Some [(mjGEOM_SKIN, NoLabel)]"
    by (simp add: mjv_addGeoms_def section_defs combinator_defs addGeoms_skin_body_def
          resolved_rgba_def setMaterial_def markselected_def mjv_initGeom_def at4_def at3_def
          skin_model_def skin_vopt_def skin_pert_def example_defs Let_def upto_small
          primitives_def)
  have geom: "alpha (resolved_rgba geom_select_model
               (bodycategory geom_select_model (geom_bodyid geom_select_model 0))
               (geom_matid geom_select_model 0) (at4 (geom_rgba geom_select_model) (4 * 0))
               (flags vopt0)) = 0
   \<and> select geom_select_pert = geom_bodyid geom_select_model 0
   \<and> summary (mjv_addGeoms geom_select_model data0 vopt0 (Some geom_select_pert)
                all_categories (state_of 1)) = Some (Ended_normally, 0, 0)"
    by (simp add: mjv_addGeoms_def section_defs combinator_defs addGeoms_geom_body_def
          resolved_rgba_def setMaterial_def markselected_def mjv_initGeom_def at4_def at3_def
          bodycategory_def group_enabled_def clamp_group_def mjMAX_def mjMIN_def mjNGROUP_def
          addGeoms_pertforce_body_def xfrc_isZero_def upto_1_1 geom_select_model_def
          geom_select_pert_def example_defs Let_def upto_small primitives_def)
  from skin geom show ?thesis by simp
qed

subsection \<open>Claim C2: connector geometry\<close>

lemma sum3_squares_zero_iff:
  "x * x + y * y + z * z = 0 \<longleftrightarrow> x = 0 \<and> y = 0 \<and> (z::real) = 0"
proof -
  have "0 \<le> x * x" "0 \<le> y * y" "0 \<le> z * z" by simp_all
  then have "x * x + y * y + z * z = 0 \<longleftrightarrow> x * x = 0 \<and> y * y = 0 \<and> z * z = 0"
    by linarith
  then show ?thesis by simp
qed

lemma norm3_zero_iff: "mju_norm3 (x, y, z) = 0 \<longleftrightarrow> x = 0 \<and> y = 0 \<and> z = 0"
proof -
  have "0 \<le> x * x + y * y + z * z" by (simp add: add_nonneg_nonneg)
  then have "sqrt (x * x + y * y + z * z) = 0 \<longleftrightarrow> x * x + y * y + z * z = 0" by simp
  then show ?thesis by (simp add: sum3_squares_zero_iff)
qed

lemma norm3_square: "mju_norm3 (x, y, z) * mju_norm3 (x, y, z) = x * x + y * y + z * z"
proof -
  have "0 \<le> x * x + y * y + z * z" by (simp add: add_nonneg_nonneg)
  then show ?thesis by simp
qed

lemma quat2Mat_rotation:
  assumes n: "q0 * q0 + q1 * q1 + q2 * q2 + q3 * q3 = 1"
  shows "is_rotation (mju_quat2Mat (q0, q1, q2, q3))"
proof -
  let ?N = "q0 * q0 + q1 * q1 + q2 * q2 + q3 * q3"
  have d0: "(q0 * q0 + q1 * q1 - q2 * q2 - q3 * q3) * (q0 * q0 + q1 * q1 - q2 * q2 - q3 * q3)
          + 2 * (q1 * q2 - q0 * q3) * (2 * (q1 * q2 - q0 * q3))
          + 2 * (q1 * q3 + q0 * q2) * (2 * (q1 * q3 + q0 * q2)) = ?N * ?N"
    by (simp add: algebra_simps)
  have d1: "2 * (q1 * q2 + q0 * q3) * (2 * (q1 * q2 + q0 * q3))
          + (q0 * q0 - q1 * q1 + q2 * q2 - q3 * q3) * (q0 * q0 - q1 * q1 + q2 * q2 - q3 * q3)
          + 2 * (q2 * q3 - q0 * q1) * (2 * (q2 * q3 - q0 * q1)) = ?N * ?N"
    by (simp add: algebra_simps)
  have d2: "2 * (q1 * q3 - q0 * q2) * (2 * (q1 * q3 - q0 * q2))
          + 2 * (q2 * q3 + q0 * q1) * (2 * (q2 * q3 + q0 * q1))
          + (q0 * q0 - q1 * q1 - q2 * q2 + q3 * q3) * (q0 * q0 - q1 * q1 - q2 * q2 + q3 * q3)
          = ?N * ?N"
    by (simp add: algebra_simps)
  have o01: "(q0 * q0 + q1 * q1 - q2 * q2 - q3 * q3) * (2 * (q1 * q2 + q0 * q3))
          + 2 * (q1 * q2 - q0 * q3) * (q0 * q0 - q1 * q1 + q2 * q2 - q3 * q3)
          + 2 * (q1 * q3 + q0 * q2) * (2 * (q2 * q3 - q0 * q1)) = 0"
    by (simp add: algebra_simps)
  have o02: "(q0 * q0 + q1 * q1 - q2 * q2 - q3 * q3) * (2 * (q1 * q3 - q0 * q2))
          + 2 * (q1 * q2 - q0 * q3) * (2 * (q2 * q3 + q0 * q1))
          + 2 * (q1 * q3 + q0 * q2) * (q0 * q0 - q1 * q1 - q2 * q2 + q3 * q3) = 0"
    by (simp add: algebra_simps)
  have o12: "2 * (q1 * q2 + q0 * q3) * (2 * (q1 * q3 - q0 * q2))
          + (q0 * q0 - q1 * q1 + q2 * q2 - q3 * q3) * (2 * (q2 * q3 + q0 * q1))
          + 2 * (q2 * q3 - q0 * q1) * (q0 * q0 - q1 * q1 - q2 * q2 + q3 * q3) = 0"
    by (simp add: algebra_simps)
  have c0: "2 * (q1 * q2 - q0 * q3) * (2 * (q2 * q3 - q0 * q1))
          - 2 * (q1 * q3 + q0 * q2) * (q0 * q0 - q1 * q1 + q2 * q2 - q3 * q3)
          = 2 * (q1 * q3 - q0 * q2) * ?N"
    by (simp add: algebra_simps)
  have c1: "2 * (q1 * q3 + q0 * q2) * (2 * (q1 * q2 + q0 * q3))
          - (q0 * q0 + q1 * q1 - q2 * q2 - q3 * q3) * (2 * (q2 * q3 - q0 * q1))
          = 2 * (q2 * q3 + q0 * q1) * ?N"
    by (simp add: algebra_simps)
  have c2: "(q0 * q0 + q1 * q1 - q2 * q2 - q3 * q3) * (q0 * q0 - q1 * q1 + q2 * q2 - q3 * q3)
          - 2 * (q1 * q2 - q0 * q3) * (2 * (q1 * q2 + q0 * q3))
          = (q0 * q0 - q1 * q1 - q2 * q2 + q3 * q3) * ?N"
    by (simp add: algebra_simps)
  show ?thesis
    unfolding is_rotation_def
    using d0 d1 d2 o01 o02 o12 c0 c1 c2
    by (simp add: n)
qed


lemma quat2Mat_axis_fixed:
  assumes n: "q0 * q0 + q1 * q1 + q2 * q2 = 1" and ax: "y * q2 + q1 * x = 0"
  shows "mju_mulMatVec (mju_quat2Mat (q0, q1, q2, 0)) (- y, x, 0) = (- y, x, 0)"
proof -
  have "(q0 * q0 + q1 * q1 - q2 * q2 - 0 * 0) * (- y) + 2 * (q1 * q2 - q0 * 0) * x
          + 2 * (q1 * 0 + q0 * q2) * 0
        = - y * (q0 * q0 + q1 * q1 + q2 * q2) + 2 * q2 * (y * q2 + q1 * x)"
    by (simp add: algebra_simps)
  then have r0: "(q0 * q0 + q1 * q1 - q2 * q2 - 0 * 0) * (- y) + 2 * (q1 * q2 - q0 * 0) * x
          + 2 * (q1 * 0 + q0 * q2) * 0 = - y"
    by (simp only: n ax; simp?)
  have "2 * (q1 * q2 + q0 * 0) * (- y) + (q0 * q0 - q1 * q1 + q2 * q2 - 0 * 0) * x
          + 2 * (q2 * 0 - q0 * q1) * 0
        = x * (q0 * q0 + q1 * q1 + q2 * q2) - 2 * q1 * (y * q2 + q1 * x)"
    by (simp add: algebra_simps)
  then have r1: "2 * (q1 * q2 + q0 * 0) * (- y) + (q0 * q0 - q1 * q1 + q2 * q2 - 0 * 0) * x
          + 2 * (q2 * 0 - q0 * q1) * 0 = x"
    by (simp only: n ax; simp?)
  have "2 * (q1 * 0 - q0 * q2) * (- y) + 2 * (q2 * 0 + q0 * q1) * x
          + (q0 * q0 - q1 * q1 - q2 * q2 + 0 * 0) * 0
        = 2 * q0 * (y * q2 + q1 * x)"
    by (simp add: algebra_simps)
  then have r2: "2 * (q1 * 0 - q0 * q2) * (- y) + 2 * (q2 * 0 + q0 * q1) * x
          + (q0 * q0 - q1 * q1 - q2 * q2 + 0 * 0) * 0 = 0"
    by (simp only: n ax; simp?)
  show ?thesis
    by (simp only: mju_quat2Mat.simps mju_mulMatVec.simps r0 r1 r2)
qed

lemma minimal_rotation_unit:
  assumes u: "x * x + y * y + z * z = 1" and xy: "\<not> (x = 0 \<and> y = 0)"
  defines "s \<equiv> sqrt (2 * (1 + z))"
  shows "mju_mulMatVec (mju_quat2Mat (s / 2, - y / s, x / s, 0)) (0, 0, 1) = (x, y, z)"
    and "is_rotation (mju_quat2Mat (s / 2, - y / s, x / s, 0))"
    and "(s / 2) * (s / 2) + (- y / s) * (- y / s) + (x / s) * (x / s) = 1"
proof -
  have "x * x + y * y \<noteq> 0" using xy by (simp add: sum_squares_eq_zero_iff)
  moreover have "0 \<le> x * x + y * y" by simp
  ultimately have "z * z < 1" using u by linarith
  then have "\<bar>z\<bar> < 1" using abs_square_less_1 [of z] by (simp add: power2_eq_square)
  then have z1: "- 1 < z" "z < 1" by linarith+
  have frac: "(x * x + y * y) / (2 * (1 + z)) = (1 - z) / 2"
  proof -
    have "1 + z \<noteq> 0" using z1 by simp
    then have "(1 - z) * (1 + z) / (2 * (1 + z)) = (1 - z) / 2"
      by (rule nonzero_mult_divide_mult_cancel_right)
    moreover have "x * x + y * y = (1 - z) * (1 + z)" using u by (simp add: algebra_simps)
    ultimately show ?thesis by (simp only:)
  qed
  from z1 have pos: "0 < 2 * (1 + z)" by simp
  then have s0: "0 < s" by (simp add: s_def)
  have ss: "s * s = 2 * (1 + z)" using pos by (simp add: s_def)
  have q: "(s / 2) * (s / 2) = (1 + z) / 2" using ss by (simp add: field_simps)
  have q1: "(- y / s) * (- y / s) = y * y / (2 * (1 + z))" using ss s0 by (simp add: field_simps)
  have q2: "(x / s) * (x / s) = x * x / (2 * (1 + z))" using ss s0 by (simp add: field_simps)
  have n: "(s / 2) * (s / 2) + (- y / s) * (- y / s) + (x / s) * (x / s) + 0 * 0 = 1"
  proof -
    have "(s / 2) * (s / 2) + (- y / s) * (- y / s) + (x / s) * (x / s)
            = (1 + z) / 2 + (x * x + y * y) / (2 * (1 + z))"
      unfolding q q1 q2 by (simp add: add_divide_distrib)
    also have "\<dots> = (1 + z) / 2 + (1 - z) / 2" by (simp only: frac)
    also have "\<dots> = 1" by (simp add: field_simps)
    finally show ?thesis by simp
  qed
  show "is_rotation (mju_quat2Mat (s / 2, - y / s, x / s, 0))"
    by (rule quat2Mat_rotation [OF n])
  have m1: "2 * ((s / 2) * (x / s)) = x" using s0 by simp
  have m2: "2 * ((s / 2) * (- y / s)) = - y" using s0 by simp
  have m3: "(s / 2) * (s / 2) - (- y / s) * (- y / s) - (x / s) * (x / s) = z"
  proof -
    have "(s / 2) * (s / 2) - (- y / s) * (- y / s) - (x / s) * (x / s)
            = (1 + z) / 2 - (x * x + y * y) / (2 * (1 + z))"
      unfolding q q1 q2 by (simp add: add_divide_distrib)
    also have "\<dots> = (1 + z) / 2 - (1 - z) / 2" by (simp only: frac)
    also have "\<dots> = z" by (simp add: field_simps)
    finally show ?thesis .
  qed
  show "mju_mulMatVec (mju_quat2Mat (s / 2, - y / s, x / s, 0)) (0, 0, 1) = (x, y, z)"
    using m1 m2 m3 by simp
  show "(s / 2) * (s / 2) + (- y / s) * (- y / s) + (x / s) * (x / s) = 1"
    using n by simp
qed


lemma quatZ2Vec_minimal:
  fixes dx dy dz :: real
  defines "n \<equiv> mju_norm3 (dx, dy, dz)"
  defines "M \<equiv> mju_quat2Mat (mju_quatZ2Vec (dx, dy, dz))"
  assumes nz: "n \<noteq> 0"
  shows "is_rotation M"
    and "mju_mulMatVec M (0, 0, 1) = mju_scl3 (dx, dy, dz) (1 / n)"
    and "mju_mulMatVec M (mju_cross (0, 0, 1) (dx, dy, dz)) = mju_cross (0, 0, 1) (dx, dy, dz)"
proof -
  define x y z where "x = dx * (1 / n)" and "y = dy * (1 / n)" and "z = dz * (1 / n)"
  have nn: "n * n = dx * dx + dy * dy + dz * dz" unfolding n_def by (rule norm3_square)
  have "x * x + y * y + z * z = (dx * dx + dy * dy + dz * dz) / (n * n)"
    by (simp add: x_def y_def z_def add_divide_distrib)
  then have u: "x * x + y * y + z * z = 1" using nz by (simp add: nn [symmetric])
  have scl: "mju_scl3 (dx, dy, dz) (1 / n) = (x, y, z)" by (simp add: x_def y_def z_def)
  have cr: "mju_cross (0, 0, 1) (dx, dy, dz) = (- dy, dx, 0)" by simp
  have q: "mju_quatZ2Vec (dx, dy, dz) =
             (if x = 0 \<and> y = 0 then (if z < 0 then (0, 1, 0, 0) else (1, 0, 0, 0))
              else (sqrt (2 * (1 + z)) / 2, - y / sqrt (2 * (1 + z)), x / sqrt (2 * (1 + z)), 0))"
    using nz unfolding mju_quatZ2Vec_def n_def [symmetric] Let_def scl by simp
  show "is_rotation M"
   and "mju_mulMatVec M (0, 0, 1) = mju_scl3 (dx, dy, dz) (1 / n)"
   and "mju_mulMatVec M (mju_cross (0, 0, 1) (dx, dy, dz)) = mju_cross (0, 0, 1) (dx, dy, dz)"
  proof (atomize (full), cases "x = 0 \<and> y = 0")
    case True
    then have d0: "dx = 0" "dy = 0" using nz by (simp_all add: x_def y_def)
    from True u have "z * z = 1" by simp
    then have "\<bar>z\<bar> = 1" using abs_square_eq_1 [of z] by (simp add: power2_eq_square)
    then have zc: "z = 1 \<or> z = - 1" by linarith
    show "is_rotation M \<and> mju_mulMatVec M (0, 0, 1) = mju_scl3 (dx, dy, dz) (1 / n)
          \<and> mju_mulMatVec M (mju_cross (0, 0, 1) (dx, dy, dz)) = mju_cross (0, 0, 1) (dx, dy, dz)"
      unfolding scl cr M_def q using True zc d0
      by (auto simp: is_rotation_def)
  next
    case False
    define s where "s = sqrt (2 * (1 + z))"
    have Ms: "M = mju_quat2Mat (s / 2, - y / s, x / s, 0)"
      by (simp only: M_def q False if_False s_def)
    note mr = minimal_rotation_unit [OF u False, folded s_def]
    have ax: "dy * (x / s) + (- y / s) * dx = 0" by (simp add: x_def y_def)
    show "is_rotation M \<and> mju_mulMatVec M (0, 0, 1) = mju_scl3 (dx, dy, dz) (1 / n)
          \<and> mju_mulMatVec M (mju_cross (0, 0, 1) (dx, dy, dz)) = mju_cross (0, 0, 1) (dx, dy, dz)"
      unfolding scl cr Ms using mr(1, 2) quat2Mat_axis_fixed [OF mr(3) ax] by simp
  qed
qed

lemma scl3_unit:
  assumes nz: "mju_norm3 (dx, dy, dz) \<noteq> 0"
  shows "dx * (1 / mju_norm3 (dx, dy, dz)) * (dx * (1 / mju_norm3 (dx, dy, dz)))
           + dy * (1 / mju_norm3 (dx, dy, dz)) * (dy * (1 / mju_norm3 (dx, dy, dz)))
           + dz * (1 / mju_norm3 (dx, dy, dz)) * (dz * (1 / mju_norm3 (dx, dy, dz))) = 1"
proof -
  define n where "n = mju_norm3 (dx, dy, dz)"
  have n0: "n \<noteq> 0" unfolding n_def by (rule nz)
  have nn: "n * n = dx * dx + dy * dy + dz * dz" unfolding n_def by (rule norm3_square)
  have "dx * (1 / n) * (dx * (1 / n)) + dy * (1 / n) * (dy * (1 / n))
           + dz * (1 / n) * (dz * (1 / n)) = (dx * dx + dy * dy + dz * dz) / (n * n)"
    by (simp add: add_divide_distrib)
  then have "dx * (1 / n) * (dx * (1 / n)) + dy * (1 / n) * (dy * (1 / n))
           + dz * (1 / n) * (dz * (1 / n)) = 1"
    using n0 by (simp add: nn [symmetric])
  then show ?thesis unfolding n_def .
qed

lemma quatZ2Vec_trace:
  fixes dx dy dz :: real
  defines "n \<equiv> mju_norm3 (dx, dy, dz)"
  assumes nz: "n \<noteq> 0"
  shows "mat_trace (mju_quat2Mat (mju_quatZ2Vec (dx, dy, dz))) = 1 + 2 * (dz * (1 / n))"
proof -
  define x y z where "x = dx * (1 / n)" and "y = dy * (1 / n)" and "z = dz * (1 / n)"
  have nz0: "mju_norm3 (dx, dy, dz) \<noteq> 0" using nz unfolding n_def .
  have u: "x * x + y * y + z * z = 1"
    unfolding x_def y_def z_def n_def by (rule scl3_unit [OF nz0])
  have scl: "mju_scl3 (dx, dy, dz) (1 / n) = (x, y, z)" by (simp add: x_def y_def z_def)
  have q: "mju_quatZ2Vec (dx, dy, dz) =
             (if x = 0 \<and> y = 0 then (if z < 0 then (0, 1, 0, 0) else (1, 0, 0, 0))
              else (sqrt (2 * (1 + z)) / 2, - y / sqrt (2 * (1 + z)), x / sqrt (2 * (1 + z)), 0))"
    using nz unfolding mju_quatZ2Vec_def n_def [symmetric] Let_def scl by simp
  show ?thesis
  proof (cases "x = 0 \<and> y = 0")
    case True
    from True u have "z * z = 1" by simp
    then have "\<bar>z\<bar> = 1" using abs_square_eq_1 [of z] by (simp add: power2_eq_square)
    then have "z = 1 \<or> z = - 1" by linarith
    then show ?thesis unfolding q z_def [symmetric] using True by auto
  next
    case False
    define s where "s = sqrt (2 * (1 + z))"
    note mr = minimal_rotation_unit [OF u False, folded s_def]
    have "0 \<le> x * x + y * y" by simp
    then have "z * z \<le> 1" using u by linarith
    then have "\<bar>z\<bar> \<le> 1" using abs_square_le_1 [of z] by (simp add: power2_eq_square)
    then have "- 1 \<le> z" by (simp add: abs_le_iff)
    then have "0 \<le> 2 * (1 + z)" by simp
    then have ss: "s * s = 2 * (1 + z)" by (simp add: s_def)
    have q0: "(s / 2) * (s / 2) = (1 + z) / 2" using ss by (simp add: field_simps)
    have "mat_trace (mju_quat2Mat (s / 2, - y / s, x / s, 0))
            = 4 * ((s / 2) * (s / 2))
              - ((s / 2) * (s / 2) + (- y / s) * (- y / s) + (x / s) * (x / s))"
      by (simp add: algebra_simps)
    also have "\<dots> = 4 * ((s / 2) * (s / 2)) - 1" by (simp only: mr(3))
    also have "\<dots> = 4 * ((1 + z) / 2) - 1" by (simp only: q0)
    also have "\<dots> = 1 + 2 * z" by simp
    finally show ?thesis
      unfolding z_def [symmetric] by (simp only: q False if_False s_def)
  qed
qed

lemma quatZ2Vec_parallel:
  assumes nz: "mju_norm3 (dx, dy, dz) \<noteq> 0"
    and par: "mju_scl3 (dx, dy, dz) (1 / mju_norm3 (dx, dy, dz)) = (0, 0, 1)"
  shows "mju_quat2Mat (mju_quatZ2Vec (dx, dy, dz)) = IDENTITY"
  using nz unfolding mju_quatZ2Vec_def Let_def par by (simp add: IDENTITY_def)

text \<open>
  Of the rotations that map the z axis onto a unit vector \<open>(x, y, z)\<close>, none has a trace above
  \<open>1 + 2 z\<close>: none turns through less than the angle between the z axis and the vector.
\<close>

lemma rotation_trace_bound:
  assumes rot: "is_rotation R" and col: "mju_mulMatVec R (0, 0, 1) = (x, y, z)"
    and unit: "x * x + y * y + z * z = 1"
  shows "mat_trace R \<le> 1 + 2 * z"
proof -
  obtain a b c0 c d c1 e f c2 where R: "R = (a, b, c0, c, d, c1, e, f, c2)"
    by (cases R) auto
  have cx: "c0 = x" "c1 = y" "c2 = z" using col by (simp_all add: R)
  have r0: "a * a + b * b + x * x = 1" and r1: "c * c + d * d + y * y = 1"
    and det: "a * d - b * c = z"
    using rot by (simp_all add: is_rotation_def R cx)
  have "0 \<le> x * x + y * y" by simp
  then have "z * z \<le> 1" using unit by linarith
  then have "\<bar>z\<bar> \<le> 1" using abs_square_le_1 [of z] by (simp add: power2_eq_square)
  then have "- 1 \<le> z" by (simp add: abs_le_iff)
  then have z1: "0 \<le> 1 + z" by simp
  have "(a + d) * (a + d) + (b - c) * (b - c)
          = (a * a + b * b) + (c * c + d * d) + 2 * (a * d - b * c)"
    by (simp add: algebra_simps)
  also have "\<dots> = (1 - x * x) + (1 - y * y) + 2 * z" using r0 r1 det by simp
  also have "\<dots> = (1 + z) * (1 + z)" using unit by (simp add: algebra_simps)
  finally have sq: "(a + d) * (a + d) + (b - c) * (b - c) = (1 + z) * (1 + z)" .
  have "0 \<le> (b - c) * (b - c)" by simp
  with sq have "(a + d) * (a + d) \<le> (1 + z) * (1 + z)" by linarith
  then have "\<bar>a + d\<bar> \<le> \<bar>1 + z\<bar>" by (simp add: abs_le_square_iff power2_eq_square)
  then have "a + d \<le> 1 + z" using z1 by linarith
  then show ?thesis by (simp add: R cx)
qed

text \<open>
  Claim C2. For every connector-compatible type, width \<open>w\<close> and endpoints \<open>a\<close> and \<open>b\<close>,
  \<^verbatim>\<open>mjv_makeConnector\<close> yields a geom of size \<open>(w, w, L)\<close>, where \<open>L\<close> is the distance of the
  endpoints for the arrows and the line and half of it for the capsule and the cylinder; the
  geom sits at the midpoint of the segment for the capsule and the cylinder and at \<open>a\<close>
  otherwise. Its orientation is a rotation matrix: the identity when the endpoints coincide,
  and otherwise the minimal rotation that maps the local z axis onto the unit vector \<open>u\<close> from
  \<open>a\<close> to \<open>b\<close>. It maps the z axis onto \<open>u\<close>; its trace is \<open>1 + 2 (z \<cdot> u)\<close>, that of a
  rotation through the angle between the z axis and \<open>u\<close>; no rotation that maps the z axis onto
  \<open>u\<close> has a larger trace, that is, turns through a smaller angle; it leaves the common normal
  \<open>z \<times> (b - a)\<close> fixed; and it is the identity when \<open>u\<close> is the z axis.
\<close>

theorem makeConnector_geometry:
  assumes "ty \<in> {mjGEOM_CAPSULE, mjGEOM_CYLINDER, mjGEOM_ARROW, mjGEOM_ARROW1, mjGEOM_ARROW2,
                 mjGEOM_LINE}"
  shows "\<exists>g. mjv_makeConnector geom ty w a b = Inr g
           \<and> size3 g = (w, w, if ty = mjGEOM_CAPSULE \<or> ty = mjGEOM_CYLINDER
                              then mju_norm3 (mju_sub3 b a) / 2 else mju_norm3 (mju_sub3 b a))
           \<and> pos g = (if ty = mjGEOM_CAPSULE \<or> ty = mjGEOM_CYLINDER
                      then mju_scl3 (mju_add3 a b) (1 / 2) else a)
           \<and> is_rotation (mat g)
           \<and> (if mju_norm3 (mju_sub3 b a) = 0 then mat g = IDENTITY
              else mju_mulMatVec (mat g) (0, 0, 1)
                     = mju_scl3 (mju_sub3 b a) (1 / mju_norm3 (mju_sub3 b a))
                 \<and> mat_trace (mat g)
                     = 1 + 2 * mju_dot3 (0, 0, 1)
                                 (mju_scl3 (mju_sub3 b a) (1 / mju_norm3 (mju_sub3 b a)))
                 \<and> (\<forall>R. is_rotation R
                          \<and> mju_mulMatVec R (0, 0, 1)
                              = mju_scl3 (mju_sub3 b a) (1 / mju_norm3 (mju_sub3 b a))
                        \<longrightarrow> mat_trace R \<le> mat_trace (mat g))
                 \<and> mju_mulMatVec (mat g) (mju_cross (0, 0, 1) (mju_sub3 b a))
                     = mju_cross (0, 0, 1) (mju_sub3 b a)
                 \<and> (mju_scl3 (mju_sub3 b a) (1 / mju_norm3 (mju_sub3 b a)) = (0, 0, 1)
                      \<longrightarrow> mat g = IDENTITY))"
proof -
  obtain a0 a1 a2 b0 b1 b2 where ab: "a = (a0, a1, a2)" "b = (b0, b1, b2)"
    by (metis prod_cases3)
  define dx dy dz where "dx = b0 - a0" and "dy = b1 - a1" and "dz = b2 - a2"
  define M where "M = mju_quat2Mat (mju_quatZ2Vec (dx, dy, dz))"
  define n where "n = mju_norm3 (dx, dy, dz)"
  have cc: "connector_compatible ty" using assms by (auto simp: connector_compatible_def)
  have sub: "mju_sub3 b a = (dx, dy, dz)" by (simp add: ab dx_def dy_def dz_def)
  define g where
    "g = geom\<lparr> type := ty,
               size3 := (w, w, if ty = mjGEOM_CAPSULE \<or> ty = mjGEOM_CYLINDER
                               then mju_norm3 (dx, dy, dz) * (1 / 2)
                               else mju_norm3 (dx, dy, dz)),
               pos := (if ty = mjGEOM_CAPSULE \<or> ty = mjGEOM_CYLINDER
                       then (1 / 2 * (a0 + b0), 1 / 2 * (a1 + b1), 1 / 2 * (a2 + b2))
                       else (a0, a1, a2)),
               mat := M \<rparr>"
  have mk: "mjv_makeConnector geom ty w a b = Inr g"
    unfolding mjv_makeConnector_def ab M_def g_def dx_def dy_def dz_def using cc
    by (simp add: Let_def)
  have sz: "size3 g = (w, w, if ty = mjGEOM_CAPSULE \<or> ty = mjGEOM_CYLINDER
                            then mju_norm3 (dx, dy, dz) / 2 else mju_norm3 (dx, dy, dz))"
    by (simp add: g_def)
  have ps: "pos g = (if ty = mjGEOM_CAPSULE \<or> ty = mjGEOM_CYLINDER
                     then mju_scl3 (mju_add3 a b) (1 / 2) else a)"
    by (simp add: g_def ab)
  have mg: "mat g = M" by (simp add: g_def)
  have rot: "is_rotation M"
  proof (cases "mju_norm3 (dx, dy, dz) = 0")
    case True
    then have "M = IDENTITY" by (simp add: M_def mju_quatZ2Vec_def IDENTITY_def)
    then show ?thesis by (simp add: is_rotation_def IDENTITY_def)
  next
    case False
    then show ?thesis unfolding M_def by (rule quatZ2Vec_minimal(1))
  qed
  have ori: "if mju_norm3 (dx, dy, dz) = 0 then M = IDENTITY
             else mju_mulMatVec M (0, 0, 1) = mju_scl3 (dx, dy, dz) (1 / mju_norm3 (dx, dy, dz))
                \<and> mat_trace M
                     = 1 + 2 * mju_dot3 (0, 0, 1)
                                 (mju_scl3 (dx, dy, dz) (1 / mju_norm3 (dx, dy, dz)))
                \<and> (\<forall>R. is_rotation R
                          \<and> mju_mulMatVec R (0, 0, 1)
                              = mju_scl3 (dx, dy, dz) (1 / mju_norm3 (dx, dy, dz))
                        \<longrightarrow> mat_trace R \<le> mat_trace M)
                \<and> mju_mulMatVec M (mju_cross (0, 0, 1) (dx, dy, dz))
                     = mju_cross (0, 0, 1) (dx, dy, dz)
                \<and> (mju_scl3 (dx, dy, dz) (1 / mju_norm3 (dx, dy, dz)) = (0, 0, 1)
                      \<longrightarrow> M = IDENTITY)"
  proof (cases "mju_norm3 (dx, dy, dz) = 0")
    case True
    then have "M = IDENTITY" by (simp add: M_def mju_quatZ2Vec_def IDENTITY_def)
    with True show ?thesis by simp
  next
    case False
    have tr: "mat_trace M = 1 + 2 * (dz * (1 / mju_norm3 (dx, dy, dz)))"
      unfolding M_def by (rule quatZ2Vec_trace [OF False])
    have dot: "mju_dot3 (0, 0, 1) (mju_scl3 (dx, dy, dz) (1 / mju_norm3 (dx, dy, dz)))
                 = dz * (1 / mju_norm3 (dx, dy, dz))"
      by simp
    have unit: "dx * (1 / mju_norm3 (dx, dy, dz)) * (dx * (1 / mju_norm3 (dx, dy, dz)))
                + dy * (1 / mju_norm3 (dx, dy, dz)) * (dy * (1 / mju_norm3 (dx, dy, dz)))
                + dz * (1 / mju_norm3 (dx, dy, dz)) * (dz * (1 / mju_norm3 (dx, dy, dz))) = 1"
      by (rule scl3_unit [OF False])
    have least: "\<forall>R. is_rotation R
                      \<and> mju_mulMatVec R (0, 0, 1)
                          = mju_scl3 (dx, dy, dz) (1 / mju_norm3 (dx, dy, dz))
                    \<longrightarrow> mat_trace R \<le> mat_trace M"
    proof (intro allI impI)
      fix R
      assume R: "is_rotation R
                 \<and> mju_mulMatVec R (0, 0, 1) = mju_scl3 (dx, dy, dz) (1 / mju_norm3 (dx, dy, dz))"
      then have col: "mju_mulMatVec R (0, 0, 1)
                        = (dx * (1 / mju_norm3 (dx, dy, dz)), dy * (1 / mju_norm3 (dx, dy, dz)),
                           dz * (1 / mju_norm3 (dx, dy, dz)))"
        by (simp del: mju_norm3.simps)
      from rotation_trace_bound [OF _ col unit] R
      show "mat_trace R \<le> mat_trace M" unfolding tr by blast
    qed
    have par: "mju_scl3 (dx, dy, dz) (1 / mju_norm3 (dx, dy, dz)) = (0, 0, 1) \<longrightarrow> M = IDENTITY"
      unfolding M_def using quatZ2Vec_parallel [OF False] by blast
    from quatZ2Vec_minimal(2) [OF False] quatZ2Vec_minimal(3) [OF False] least par
    show ?thesis unfolding M_def [symmetric] dot [symmetric] tr [symmetric]
      by (simp only: False if_False simp_thms tr dot)
  qed
  show ?thesis
    unfolding sub
    by (rule exI [of _ g]) (simp only: mk sz ps mg rot simp_thms, rule ori)
qed

theorem makeConnector_geometry_witness:
  "(\<exists>g. mjv_makeConnector geom0 mjGEOM_ARROW 1 (0, 0, 0) (3, 4, 0) = Inr g
        \<and> size3 g = (1, 1, 5) \<and> pos g = (0, 0, 0) \<and> is_rotation (mat g)
        \<and> mju_mulMatVec (mat g) (0, 0, 1) = (3 / 5, 4 / 5, 0)
        \<and> mat_trace (mat g) = 1
        \<and> mat_trace (0, 4 / 5, 3 / 5, 0, - (3 / 5), 4 / 5, 1, 0, 0) \<le> mat_trace (mat g)
        \<and> mju_mulMatVec (mat g) (- 4, 3, 0) = (- 4, 3, 0))
   \<and> is_rotation (0, 4 / 5, 3 / 5, 0, - (3 / 5), 4 / 5, 1, 0, 0)
   \<and> mju_mulMatVec (0, 4 / 5, 3 / 5, 0, - (3 / 5), 4 / 5, 1, 0, 0) (0, 0, 1) = (3 / 5, 4 / 5, 0)
   \<and> (\<exists>g. mjv_makeConnector geom0 mjGEOM_CAPSULE 1 (0, 0, 0) (0, 0, 2) = Inr g
        \<and> size3 g = (1, 1, 1) \<and> pos g = (0, 0, 1) \<and> mat g = IDENTITY)"
proof -
  let ?R = "(0, 4 / 5, 3 / 5, 0, - (3 / 5), 4 / 5, 1, 0, 0) :: mat33"
  have R: "is_rotation ?R" "mju_mulMatVec ?R (0, 0, 1) = (3 / 5, 4 / 5, 0)"
    by (simp_all add: is_rotation_def)
  have n5: "mju_norm3 (mju_sub3 (3, 4, 0) (0, 0, 0)) = 5" by (simp add: sqrt_25)
  have n2: "mju_norm3 (mju_sub3 (0, 0, 2) (0, 0, 0)) = 2" by simp
  from makeConnector_geometry [of mjGEOM_ARROW geom0 1 "(0, 0, 0)" "(3, 4, 0)"]
  obtain g where g: "mjv_makeConnector geom0 mjGEOM_ARROW 1 (0, 0, 0) (3, 4, 0) = Inr g"
    "size3 g = (1, 1, 5)" "pos g = (0, 0, 0)" "is_rotation (mat g)"
    "mju_mulMatVec (mat g) (0, 0, 1) = (3 / 5, 4 / 5, 0)"
    "mat_trace (mat g) = 1"
    "\<forall>R. is_rotation R \<and> mju_mulMatVec R (0, 0, 1) = (3 / 5, 4 / 5, 0)
          \<longrightarrow> mat_trace R \<le> mat_trace (mat g)"
    "mju_mulMatVec (mat g) (- 4, 3, 0) = (- 4, 3, 0)"
    unfolding n5 by (auto simp del: mju_norm3.simps mat_trace.simps)
  from g(7) R have "mat_trace ?R \<le> mat_trace (mat g)" by blast
  with g have first: "\<exists>g. mjv_makeConnector geom0 mjGEOM_ARROW 1 (0, 0, 0) (3, 4, 0) = Inr g
        \<and> size3 g = (1, 1, 5) \<and> pos g = (0, 0, 0) \<and> is_rotation (mat g)
        \<and> mju_mulMatVec (mat g) (0, 0, 1) = (3 / 5, 4 / 5, 0)
        \<and> mat_trace (mat g) = 1
        \<and> mat_trace ?R \<le> mat_trace (mat g)
        \<and> mju_mulMatVec (mat g) (- 4, 3, 0) = (- 4, 3, 0)"
    by blast
  have second: "\<exists>g. mjv_makeConnector geom0 mjGEOM_CAPSULE 1 (0, 0, 0) (0, 0, 2) = Inr g
        \<and> size3 g = (1, 1, 1) \<and> pos g = (0, 0, 1) \<and> mat g = IDENTITY"
    using makeConnector_geometry [of mjGEOM_CAPSULE geom0 1 "(0, 0, 0)" "(0, 0, 2)"]
    unfolding n2 by (auto simp del: mju_norm3.simps mat_trace.simps)
  from first R second show ?thesis by blast
qed

subsection \<open>Claim C7: stereo eye positions\<close>

lemma norm3_scl: "mju_norm3 (mju_scl3 v s) = \<bar>s\<bar> * mju_norm3 v"
proof -
  obtain x y z where v: "v = (x, y, z)" by (metis prod_cases3)
  have "x * s * (x * s) + y * s * (y * s) + z * s * (z * s) = (s * s) * (x * x + y * y + z * z)"
    by (simp add: algebra_simps)
  then have "mju_norm3 (mju_scl3 v s) = sqrt ((s * s) * (x * x + y * y + z * z))"
    by (simp add: v)
  also have "\<dots> = sqrt (s * s) * sqrt (x * x + y * y + z * z)" by (rule real_sqrt_mult)
  also have "sqrt (s * s) = \<bar>s\<bar>" by simp
  finally show ?thesis by (simp add: v)
qed

lemma free_right_unit: "mju_norm3 (sin a, - cos a, 0) = 1"
  by (simp add: power2_eq_square [symmetric])

text \<open>
  Claim C7, with what the source computes. For a free, a tracking or a fixed camera (with the
  body or camera id in range), \<^verbatim>\<open>mjv_updateCamera\<close> puts the left eye at the head position
  minus, and the right eye at the head position plus, half the interpupillary distance along
  the right axis. The head position is the position of the camera for a fixed camera, and the
  look-at point moved back by the distance along the forward axis otherwise (for a tracking
  camera the look-at point first moves a fifth of the way to the centre of mass of the tracked
  body); the right axis is the first column of the orientation of a fixed camera and
  \<open>(sin az, - cos az, 0)\<close> otherwise; the interpupillary distance is that of the camera for a
  fixed camera and the global one otherwise. The two eyes are at the same distance from the
  head position, the right eye is displaced from the left eye by the interpupillary distance
  along the right axis, and the distance between them is the absolute value of the
  interpupillary distance times the length of the right axis. That length is 1 for a free or a
  tracking camera. The distance between the eyes is therefore the configured interpupillary
  distance when that is not negative and, for a fixed camera, the first column of the camera
  orientation has unit length.
\<close>

theorem camera_stereo_symmetry:
  assumes ty: "cam_type cam \<in> {mjCAMERA_FREE, mjCAMERA_TRACKING, mjCAMERA_FIXED}"
    and tr: "cam_type cam = mjCAMERA_TRACKING \<longrightarrow> 0 \<le> trackbodyid cam \<and> trackbodyid cam < nbody m"
    and fx: "cam_type cam = mjCAMERA_FIXED \<longrightarrow> 0 \<le> fixedcamid cam \<and> fixedcamid cam < ncam m"
    and lk: "lk = (if cam_type cam = mjCAMERA_TRACKING
                   then mju_addScl3 (lookat cam)
                          (mju_sub3 (at3 (subtree_com d) (3 * trackbodyid cam)) (lookat cam))
                          (2 / 10)
                   else lookat cam)"
    and hp: "hp = (if cam_type cam = mjCAMERA_FIXED then at3 (cam_xpos d) (3 * fixedcamid cam)
                   else mju_addScl3 lk
                          (cos (elevation cam / 180 * pi) * cos (azimuth cam / 180 * pi),
                           cos (elevation cam / 180 * pi) * sin (azimuth cam / 180 * pi),
                           sin (elevation cam / 180 * pi))
                          (- distance cam))"
    and rt: "rt = (if cam_type cam = mjCAMERA_FIXED
                   then (cam_xmat d (9 * fixedcamid cam), cam_xmat d (9 * fixedcamid cam + 3),
                         cam_xmat d (9 * fixedcamid cam + 6))
                   else (sin (azimuth cam / 180 * pi), - cos (azimuth cam / 180 * pi), 0))"
    and ip: "ip = (if cam_type cam = mjCAMERA_FIXED then cam_ipd m (fixedcamid cam)
                   else global_ipd (vis m))"
    and el: "el = mju_addScl3 hp rt (- (ip / 2))" and er: "er = mju_addScl3 hp rt (ip / 2)"
  shows "eye_positions (mjv_updateCamera (Some m) d (Some cam) sc) = Some (el, er)
         \<and> mju_norm3 (mju_sub3 el hp) = mju_norm3 (mju_sub3 er hp)
         \<and> mju_sub3 er el = mju_scl3 rt ip
         \<and> mju_norm3 (mju_sub3 er el) = \<bar>ip\<bar> * mju_norm3 rt
         \<and> (cam_type cam \<noteq> mjCAMERA_FIXED \<longrightarrow> mju_norm3 rt = 1)
         \<and> (0 \<le> ip \<and> mju_norm3 rt = 1 \<longrightarrow> mju_norm3 (mju_sub3 er el) = ip)"
proof -
  obtain hx hy hz where h: "hp = (hx, hy, hz)" by (metis prod_cases3)
  obtain rx ry rz where r: "rt = (rx, ry, rz)" by (metis prod_cases3)
  have nu: "cam_type cam \<noteq> mjCAMERA_USER" using ty by auto
  consider "cam_type cam = mjCAMERA_FREE" | "cam_type cam = mjCAMERA_TRACKING"
    | "cam_type cam = mjCAMERA_FIXED"
    using ty by auto
  then have fr: "camera_frame_of m d cam
                   = Inr (cam\<lparr> lookat := lk \<rparr>,
                          \<lparr> headpos = hp,
                            forward = (if cam_type cam = mjCAMERA_FIXED
                                       then (- cam_xmat d (9 * fixedcamid cam + 2),
                                             - cam_xmat d (9 * fixedcamid cam + 5),
                                             - cam_xmat d (9 * fixedcamid cam + 8))
                                       else (cos (elevation cam / 180 * pi) * cos (azimuth cam / 180 * pi),
                                             cos (elevation cam / 180 * pi) * sin (azimuth cam / 180 * pi),
                                             sin (elevation cam / 180 * pi))),
                            up = (if cam_type cam = mjCAMERA_FIXED
                                  then (cam_xmat d (9 * fixedcamid cam + 1),
                                        cam_xmat d (9 * fixedcamid cam + 4),
                                        cam_xmat d (9 * fixedcamid cam + 7))
                                  else (- sin (elevation cam / 180 * pi) * cos (azimuth cam / 180 * pi),
                                        - sin (elevation cam / 180 * pi) * sin (azimuth cam / 180 * pi),
                                        cos (elevation cam / 180 * pi))),
                            right = rt, ipd = ip,
                            fovy = (if cam_type cam = mjCAMERA_FIXED then cam_fovy m (fixedcamid cam)
                                    else global_fovy (vis m)) \<rparr>)"
  proof cases
    case 1
    then show ?thesis by (simp add: camera_frame_of_def Let_def lk hp rt ip)
  next
    case 2
    then show ?thesis using tr by (simp add: camera_frame_of_def Let_def lk hp rt ip)
  next
    case 3
    then show ?thesis using fx
      by (simp add: camera_frame_of_def Let_def at9_def lk hp rt ip split: prod.splits)
  qed
  have eyes: "eye_positions (mjv_updateCamera (Some m) d (Some cam) sc) = Some (el, er)"
    by (simp add: mjv_updateCamera_def nu fr gl_camera_def Let_def el er mju_addScl3_def)
  have off: "mju_sub3 el hp = mju_scl3 rt (- (ip / 2))" "mju_sub3 er hp = mju_scl3 rt (ip / 2)"
    by (simp_all add: el er h r mju_addScl3_def)
  have eq: "mju_norm3 (mju_sub3 el hp) = mju_norm3 (mju_sub3 er hp)"
    by (simp only: off norm3_scl abs_minus_cancel)
  have between: "mju_sub3 er el = mju_scl3 rt ip"
    by (simp add: el er h r mju_addScl3_def algebra_simps)
  have sep: "mju_norm3 (mju_sub3 er el) = \<bar>ip\<bar> * mju_norm3 rt"
    by (simp only: between norm3_scl)
  have unit: "cam_type cam \<noteq> mjCAMERA_FIXED \<longrightarrow> mju_norm3 rt = 1"
    by (simp add: rt free_right_unit del: mju_norm3.simps)
  have dist: "0 \<le> ip \<and> mju_norm3 rt = 1 \<longrightarrow> mju_norm3 (mju_sub3 er el) = ip"
    by (simp add: sep)
  show ?thesis by (intro conjI; fact)
qed

theorem camera_stereo_symmetry_witness:
  "eye_positions (mjv_updateCamera (Some stereo_model) stereo_data (Some free_camera) (scene_of 0))
     = Some ((- 1, 1, 0), (- 1, - 1, 0))
   \<and> mju_norm3 (mju_sub3 (- 1, - 1, 0) (- 1, 1, 0)) = global_ipd (vis stereo_model)
   \<and> eye_positions (mjv_updateCamera (Some stereo_model) stereo_data (Some fixed_camera) (scene_of 0))
     = Some ((- 2, 0, 0), (2, 0, 0))
   \<and> mju_norm3 (mju_sub3 (2, 0, 0) (- 2, 0, 0)) = cam_ipd stereo_model 0"
proof -
  have free: "eye_positions (mjv_updateCamera (Some stereo_model) stereo_data (Some free_camera)
                (scene_of 0)) = Some ((- 1, 1, 0), (- 1, - 1, 0))
              \<and> mju_norm3 (mju_sub3 (- 1, - 1, 0) (- 1, 1, 0)) = global_ipd (vis stereo_model)"
    using camera_stereo_symmetry [where cam = free_camera and m = stereo_model
            and d = stereo_data and lk = "lookat free_camera" and hp = "(- 1, 0, 0)"
            and rt = "(0, - 1, 0)" and ip = "global_ipd (vis stereo_model)"
            and el = "(- 1, 1, 0)" and er = "(- 1, - 1, 0)" and sc = "scene_of 0"]
    by (simp add: free_camera_def stereo_model_def model0_def mju_addScl3_def)
  have cam: "cam_type fixed_camera = mjCAMERA_FIXED" "fixedcamid fixed_camera = 0"
    by (simp_all add: fixed_camera_def free_camera_def)
  have mod: "ncam stereo_model = 1" "cam_ipd stereo_model 0 = 4"
    by (simp_all add: stereo_model_def model0_def)
  have dat: "at3 (cam_xpos stereo_data) (3 * 0) = (0, 0, 0)"
    "(cam_xmat stereo_data (9 * 0), cam_xmat stereo_data (9 * 0 + 3),
      cam_xmat stereo_data (9 * 0 + 6)) = (1, 0, 0)"
    by (simp_all add: stereo_data_def data0_def at3_def)
  have fixed: "eye_positions (mjv_updateCamera (Some stereo_model) stereo_data (Some fixed_camera)
                 (scene_of 0)) = Some ((- 2, 0, 0), (2, 0, 0))
               \<and> mju_norm3 (mju_sub3 (2, 0, 0) (- 2, 0, 0)) = cam_ipd stereo_model 0"
    using camera_stereo_symmetry [where cam = fixed_camera and m = stereo_model
            and d = stereo_data and lk = "lookat fixed_camera" and hp = "(0, 0, 0)"
            and rt = "(1, 0, 0)" and ip = "cam_ipd stereo_model 0"
            and el = "(- 2, 0, 0)" and er = "(2, 0, 0)" and sc = "scene_of 0"]
    unfolding cam mod dat
    by (simp add: mju_addScl3_def del: mju_norm3.simps mju_sub3.simps)
       (simp add: mju_norm3.simps)
  from free fixed show ?thesis by simp
qed

text \<open>
  The claim as stated takes the separation of the eyes to be the configured interpupillary
  distance for every camera. In a model whose global interpupillary distance is -2, the eyes
  of the free camera are the points (-1, -1, 0) and (-1, 1, 0): they are 2 apart, not -2, and
  the left eye is on the side of the right axis (0, -1, 0).
\<close>

theorem negative_ipd_counterexample:
  "global_ipd (vis negative_ipd_model) = - 2
   \<and> eye_positions (mjv_updateCamera (Some negative_ipd_model) data0 (Some free_camera)
        (scene_of 0)) = Some ((- 1, - 1, 0), (- 1, 1, 0))
   \<and> mju_norm3 (mju_sub3 (- 1, 1, 0) (- 1, - 1, 0)) = 2
   \<and> mju_norm3 (mju_sub3 (- 1, 1, 0) (- 1, - 1, 0)) \<noteq> global_ipd (vis negative_ipd_model)"
  by (simp add: negative_ipd_model_def model0_def free_camera_def mjv_updateCamera_def
        camera_frame_of_def gl_camera_def mju_addScl3_def Let_def)

subsection \<open>Claim C3: skinning in the bind pose\<close>

lemma slot_eq:
  fixes a x y :: int
  shows "3 * (a + x) = 3 * (a + y) \<longleftrightarrow> x = y"
    and "3 * (a + x) + 1 = 3 * (a + y) + 1 \<longleftrightarrow> x = y"
    and "3 * (a + x) + 2 = 3 * (a + y) + 2 \<longleftrightarrow> x = y"
    and "3 * (a + x) \<noteq> 3 * (a + y) + 1" and "3 * (a + x) \<noteq> 3 * (a + y) + 2"
    and "3 * (a + x) + 1 \<noteq> 3 * (a + y)" and "3 * (a + x) + 1 \<noteq> 3 * (a + y) + 2"
    and "3 * (a + x) + 2 \<noteq> 3 * (a + y)" and "3 * (a + x) + 2 \<noteq> 3 * (a + y) + 1"
  by presburger+

lemma bind_pose_identity:
  assumes "bone_in_bind_pose m d j" and "unit_quat (at4 (skin_bonebindquat m) (4 * j))"
  shows "bone_rotate m d j = IDENTITY" and "bone_translate m d j = (0, 0, 0)"
proof -
  obtain q0 q1 q2 q3 where q: "at4 (skin_bonebindquat m) (4 * j) = (q0, q1, q2, q3)"
    by (metis prod_cases4)
  have x: "at4 (xquat d) (4 * skin_bonebodyid m j) = (q0, q1, q2, q3)"
    using assms(1) q by (simp add: bone_in_bind_pose_def)
  have u: "q0 * q0 + q1 * q1 + q2 * q2 + q3 * q3 = 1" using assms(2) q by simp
  have "mju_mulQuat (q0, q1, q2, q3) (mju_negQuat (q0, q1, q2, q3)) = (1, 0, 0, 0)"
    using u by (simp add: algebra_simps)
  then show rot: "bone_rotate m d j = IDENTITY"
    by (simp add: bone_rotate_def Let_def q x IDENTITY_def)
  obtain b0 b1 b2 where b: "at3 (skin_bonebindpos m) (3 * j) = (b0, b1, b2)"
    by (metis prod_cases3)
  have "at3 (xpos d) (3 * skin_bonebodyid m j) = (b0, b1, b2)"
    using assms(1) b by (simp add: bone_in_bind_pose_def)
  then show "bone_translate m d j = (0, 0, 0)"
    by (simp add: bone_translate_def Let_def rot b IDENTITY_def mju_rotVecMat_def)
qed

lemma accumulate_slot:
  assumes rot: "bone_rotate m d j = IDENTITY" and tr: "bone_translate m d j = (0, 0, 0)"
    and t: "t = 3 * (va + v) + r" and r: "r = 0 \<or> r = 1 \<or> r = 2"
  shows "skin_accumulate m d va j k sv t
           = sv t + (if skin_bonevertid m k = v then skin_bonevertweight m k else 0)
                    * skin_vert m t"
  unfolding t using r
  by (auto simp: skin_accumulate_def Let_def rot tr IDENTITY_def mju_rotVecMat_def at3_def
        slot_eq)

lemma accumulate_frame:
  assumes "t \<noteq> 3 * (va + skin_bonevertid m k)" "t \<noteq> 3 * (va + skin_bonevertid m k) + 1"
    "t \<noteq> 3 * (va + skin_bonevertid m k) + 2"
  shows "skin_accumulate m d va j k sv t = sv t"
  using assms by (simp add: skin_accumulate_def Let_def split: prod.splits)


lemma bone_entries_slot:
  assumes rot: "bone_rotate m d j = IDENTITY" and tr: "bone_translate m d j = (0, 0, 0)"
    and t: "t = 3 * (va + v) + r" and r: "r = 0 \<or> r = 1 \<or> r = 2"
  shows "fold (skin_accumulate m d va j) ks sv t
           = sv t
             + sum_list (map (\<lambda>k. if skin_bonevertid m k = v then skin_bonevertweight m k else 0) ks)
               * skin_vert m t"
proof (induction ks arbitrary: sv)
  case Nil
  show ?case by simp
next
  case (Cons k ks)
  show ?case
    by (simp add: Cons.IH accumulate_slot [OF rot tr t r] distrib_right)
qed

lemma skin_bone_slot:
  assumes "bone_rotate m d j = IDENTITY" and "bone_translate m d j = (0, 0, 0)"
    and "t = 3 * (va + v) + r" and "r = 0 \<or> r = 1 \<or> r = 2"
  shows "skin_bone m d va j sv t = sv t + bone_vertex_weight m j v * skin_vert m t"
  unfolding skin_bone_def bone_vertex_weight_def by (rule bone_entries_slot [OF assms])

lemma bones_slot:
  assumes js: "\<forall>j \<in> set js. bone_rotate m d j = IDENTITY \<and> bone_translate m d j = (0, 0, 0)"
    and t: "t = 3 * (va + v) + r" and r: "r = 0 \<or> r = 1 \<or> r = 2"
  shows "fold (skin_bone m d va) js sv t
           = sv t + sum_list (map (\<lambda>j. bone_vertex_weight m j v) js) * skin_vert m t"
  using js
proof (induction js arbitrary: sv)
  case Nil
  show ?case by simp
next
  case (Cons j js)
  then have j: "bone_rotate m d j = IDENTITY" "bone_translate m d j = (0, 0, 0)"
    and rest: "\<forall>j \<in> set js. bone_rotate m d j = IDENTITY \<and> bone_translate m d j = (0, 0, 0)"
    by simp_all
  show ?case
    by (simp add: Cons.IH [OF rest] skin_bone_slot [OF j t r] distrib_right)
qed

lemma positions_slot:
  assumes bind: "skin_in_bind_pose m d i" and unit: "skin_bind_normalized m i"
    and v: "0 \<le> v" "v < skin_vertnum m i"
    and t: "t = 3 * (skin_vertadr m i + v) + r" and r: "r = 0 \<or> r = 1 \<or> r = 2"
  shows "skin_positions m d i sv t = skin_vertex_weight m i v * skin_vert m t"
proof -
  have js: "\<forall>j \<in> set (skin_bones m i).
              bone_rotate m d j = IDENTITY \<and> bone_translate m d j = (0, 0, 0)"
    using bind unit bind_pose_identity
    by (simp add: skin_in_bind_pose_def skin_bind_normalized_def list_all_iff)
  have cl: "clear_range (3 * skin_vertadr m i) (3 * skin_vertnum m i) sv t = 0"
    unfolding t using v r by (auto simp: clear_range_def)
  show ?thesis
    unfolding skin_positions_def skin_vertex_weight_def skin_bones_def [symmetric]
    by (simp add: bones_slot [OF js t r] cl)
qed

lemma updateSkin_slot:
  assumes "skin_in_bind_pose m d i" and "skin_bind_normalized m i"
    and "0 \<le> v" "v < skin_vertnum m i"
    and "t = 3 * (skin_vertadr m i + v) + r" and "r = 0 \<or> r = 1 \<or> r = 2"
    and inflate: "skin_inflate m i = 0"
  shows "fst (updateSkin_skin m d i buf) t = skin_vertex_weight m i v * skin_vert m t"
proof -
  obtain sv sn where buf: "buf = (sv, sn)" by (metis prod.exhaust)
  have "fst (updateSkin_skin m d i buf) = skin_positions m d i sv"
    by (simp add: updateSkin_skin_def buf Let_def inflate)
  then show ?thesis by (simp only: positions_slot [OF assms(1-6)])
qed


lemma entries_frame:
  assumes ks: "\<forall>k \<in> set ks. 0 \<le> skin_bonevertid m k \<and> skin_bonevertid m k < vn"
    and out: "t < 3 * va \<or> 3 * (va + vn) \<le> t"
  shows "fold (skin_accumulate m d va j) ks sv t = sv t"
  using ks
proof (induction ks arbitrary: sv)
  case Nil
  show ?case by simp
next
  case (Cons k ks)
  then have k: "0 \<le> skin_bonevertid m k" "skin_bonevertid m k < vn"
    and rest: "\<forall>k \<in> set ks. 0 \<le> skin_bonevertid m k \<and> skin_bonevertid m k < vn"
    by simp_all
  have "t \<noteq> 3 * (va + skin_bonevertid m k)" "t \<noteq> 3 * (va + skin_bonevertid m k) + 1"
    "t \<noteq> 3 * (va + skin_bonevertid m k) + 2"
    using k out by arith+
  then have "skin_accumulate m d va j k sv t = sv t" by (rule accumulate_frame)
  then show ?case by (simp add: Cons.IH [OF rest])
qed

lemma bones_frame:
  assumes js: "\<forall>j \<in> set js. \<forall>k \<in> set [skin_bonevertadr m j ..
                   skin_bonevertadr m j + skin_bonevertnum m j - 1].
                 0 \<le> skin_bonevertid m k \<and> skin_bonevertid m k < vn"
    and out: "t < 3 * va \<or> 3 * (va + vn) \<le> t"
  shows "fold (skin_bone m d va) js sv t = sv t"
  using js
proof (induction js arbitrary: sv)
  case Nil
  show ?case by simp
next
  case (Cons j js)
  then have j: "\<forall>k \<in> set [skin_bonevertadr m j .. skin_bonevertadr m j + skin_bonevertnum m j - 1].
                 0 \<le> skin_bonevertid m k \<and> skin_bonevertid m k < vn"
    and rest: "\<forall>j \<in> set js. \<forall>k \<in> set [skin_bonevertadr m j ..
                   skin_bonevertadr m j + skin_bonevertnum m j - 1].
                 0 \<le> skin_bonevertid m k \<and> skin_bonevertid m k < vn"
    by simp_all
  have "skin_bone m d va j sv t = sv t"
    unfolding skin_bone_def by (rule entries_frame [OF j out])
  then show ?case by (simp add: Cons.IH [OF rest])
qed

lemma inflate_frame:
  assumes ks: "\<forall>k \<in> set ks. va \<le> k \<and> k < va + vn"
    and out: "t < 3 * va \<or> 3 * (va + vn) \<le> t"
  shows "fold (skin_inflate_vertex c sn) ks sv t = sv t"
  using ks
proof (induction ks arbitrary: sv)
  case Nil
  show ?case by simp
next
  case (Cons k ks)
  then have k: "va \<le> k" "k < va + vn" and rest: "\<forall>k \<in> set ks. va \<le> k \<and> k < va + vn"
    by simp_all
  have "t \<noteq> 3 * k" "t \<noteq> 3 * k + 1" "t \<noteq> 3 * k + 2" using k out by arith+
  then have "skin_inflate_vertex c sn k sv t = sv t"
    by (simp add: skin_inflate_vertex_def Let_def)
  then show ?case by (simp add: Cons.IH [OF rest])
qed

lemma updateSkin_frame:
  assumes conf: "skin_confined m i"
    and out: "t < 3 * skin_vertadr m i \<or> 3 * (skin_vertadr m i + skin_vertnum m i) \<le> t"
  shows "fst (updateSkin_skin m d i buf) t = fst buf t"
proof -
  obtain sv sn where buf: "buf = (sv, sn)" by (metis prod.exhaust)
  have js: "\<forall>j \<in> set (skin_bones m i). \<forall>k \<in> set [skin_bonevertadr m j ..
                   skin_bonevertadr m j + skin_bonevertnum m j - 1].
                 0 \<le> skin_bonevertid m k \<and> skin_bonevertid m k < skin_vertnum m i"
    using conf by (simp add: skin_confined_def list_all_iff)
  have cl: "clear_range (3 * skin_vertadr m i) (3 * skin_vertnum m i) sv t = sv t"
    using out by (auto simp: clear_range_def)
  have pos: "skin_positions m d i sv t = sv t"
    unfolding skin_positions_def skin_bones_def [symmetric]
    by (simp only: bones_frame [OF js out] cl)
  have ks: "\<forall>k \<in> set [skin_vertadr m i .. skin_vertadr m i + skin_vertnum m i - 1].
              skin_vertadr m i \<le> k \<and> k < skin_vertadr m i + skin_vertnum m i"
    by simp
  show ?thesis
    by (simp add: updateSkin_skin_def buf Let_def inflate_frame [OF ks out] pos)
qed

lemma later_skins_frame:
  assumes later: "\<forall>i' \<in> set is. skin_confined m i' \<and> skins_apart m i i'"
    and v: "0 \<le> v" "v < skin_vertnum m i"
    and t: "t = 3 * (skin_vertadr m i + v) + r" and r: "r = 0 \<or> r = 1 \<or> r = 2"
  shows "fst (fold (updateSkin_skin m d) is buf) t = fst buf t"
  using later
proof (induction "is" arbitrary: buf)
  case Nil
  show ?case by simp
next
  case (Cons i' "is")
  then have conf: "skin_confined m i'" and apart: "skins_apart m i i'"
    and rest: "\<forall>i' \<in> set is. skin_confined m i' \<and> skins_apart m i i'"
    by simp_all
  have out: "t < 3 * skin_vertadr m i' \<or> 3 * (skin_vertadr m i' + skin_vertnum m i') \<le> t"
    using apart v r unfolding t skins_apart_def by arith
  have "fst (updateSkin_skin m d i' buf) t = fst buf t" by (rule updateSkin_frame [OF conf out])
  then show ?case by (simp add: Cons.IH [OF rest])
qed

lemma updateSkin_vertex_slot:
  assumes i: "0 \<le> i" "i < nskin m"
    and bind: "skin_in_bind_pose m d i" and unit: "skin_bind_normalized m i"
    and inflate: "skin_inflate m i = 0"
    and v: "0 \<le> v" "v < skin_vertnum m i"
    and later: "list_all (\<lambda>i'. skin_confined m i' \<and> skins_apart m i i') [i + 1 .. nskin m - 1]"
    and t: "t = 3 * (skin_vertadr m i + v) + r" and r: "r = 0 \<or> r = 1 \<or> r = 2"
  shows "skinvert (mjv_updateSkin m d sc) t = skin_vertex_weight m i v * skin_vert m t"
proof -
  have split: "[0 .. nskin m - 1] = [0 .. i - 1] @ i # [i + 1 .. nskin m - 1]"
    using i by (intro upto_split3) simp_all
  define buf0 where "buf0 = fold (updateSkin_skin m d) [0 .. i - 1] (skinvert sc, skinnormal sc)"
  have l: "\<forall>i' \<in> set [i + 1 .. nskin m - 1]. skin_confined m i' \<and> skins_apart m i i'"
    using later by (simp only: list_all_iff)
  have "fst (fold (updateSkin_skin m d) [0 .. nskin m - 1] (skinvert sc, skinnormal sc)) t
          = fst (fold (updateSkin_skin m d) [i + 1 .. nskin m - 1] (updateSkin_skin m d i buf0)) t"
    by (simp only: split fold_append fold_Cons comp_apply buf0_def)
  also have "\<dots> = fst (updateSkin_skin m d i buf0) t"
    by (rule later_skins_frame [OF l v t r])
  also have "\<dots> = skin_vertex_weight m i v * skin_vert m t"
    by (rule updateSkin_slot [OF bind unit v t r inflate])
  finally show ?thesis
    by (auto simp: mjv_updateSkin_def split: prod.splits)
qed


text \<open>
  Claim C3, with the conditions under which the code gives the identity deformation. For a
  skin all of whose bones are in their bind pose, with bind quaternions of unit length and no
  inflation, every vertex of the skin whose weights over the bones of the skin add up to 1 has,
  after \<^verbatim>\<open>mjv_updateSkin\<close>, its rest position in the vertex buffer of the scene, provided the
  skins processed after it list only their own vertices and keep to vertex ranges apart from
  that of the skin.
\<close>

theorem skin_bind_pose_identity:
  assumes i: "0 \<le> i" "i < nskin m"
    and bind: "skin_in_bind_pose m d i" and unit: "skin_bind_normalized m i"
    and inflate: "skin_inflate m i = 0"
    and v: "0 \<le> v" "v < skin_vertnum m i"
    and weight: "skin_vertex_weight m i v = 1"
    and later: "list_all (\<lambda>i'. skin_confined m i' \<and> skins_apart m i i') [i + 1 .. nskin m - 1]"
  shows "skin_vertex m i v (skinvert (mjv_updateSkin m d sc)) = skin_vertex m i v (skin_vert m)"
proof -
  note slot = updateSkin_vertex_slot [OF i bind unit inflate v later]
  have "skinvert (mjv_updateSkin m d sc) (3 * (skin_vertadr m i + v))
          = skin_vert m (3 * (skin_vertadr m i + v))"
    using slot [of "3 * (skin_vertadr m i + v)" 0 sc] by (simp add: weight)
  moreover
  have "skinvert (mjv_updateSkin m d sc) (3 * (skin_vertadr m i + v) + 1)
          = skin_vert m (3 * (skin_vertadr m i + v) + 1)"
    using slot [of "3 * (skin_vertadr m i + v) + 1" 1 sc] by (simp add: weight)
  moreover
  have "skinvert (mjv_updateSkin m d sc) (3 * (skin_vertadr m i + v) + 2)
          = skin_vert m (3 * (skin_vertadr m i + v) + 2)"
    using slot [of "3 * (skin_vertadr m i + v) + 2" 2 sc] by (simp add: weight)
  ultimately show ?thesis by (simp only: skin_vertex_def at3_def)
qed

theorem skin_bind_pose_identity_witness:
  "skin_in_bind_pose two_skin_model bind_data 0
   \<and> skin_vertex_weight two_skin_model 0 0 = 1
   \<and> skin_vertex two_skin_model 0 0 (skinvert (mjv_updateSkin two_skin_model bind_data (scene_of 0)))
       = (1, 1, 1)"
proof -
  have bind: "skin_in_bind_pose two_skin_model bind_data 0"
    by (simp add: skin_in_bind_pose_def skin_bones_def bone_in_bind_pose_def two_skin_model_def
          model0_def bind_data_def data0_def at3_def at4_def upto_small)
  have unit: "skin_bind_normalized two_skin_model 0"
    by (simp add: skin_bind_normalized_def skin_bones_def two_skin_model_def model0_def at4_def
          upto_small)
  have weight: "skin_vertex_weight two_skin_model 0 0 = 1"
    by (simp add: skin_vertex_weight_def bone_vertex_weight_def two_skin_model_def model0_def
          upto_small)
  have later: "list_all (\<lambda>i'. skin_confined two_skin_model i' \<and> skins_apart two_skin_model 0 i')
                 [0 + 1 .. nskin two_skin_model - 1]"
    by (simp add: skin_confined_def skins_apart_def skin_bones_def two_skin_model_def model0_def
          upto_1_1)
  have rest: "skin_vertex two_skin_model 0 0 (skin_vert two_skin_model) = (1, 1, 1)"
    by (simp add: skin_vertex_def at3_def two_skin_model_def model0_def)
  have "skin_vertex two_skin_model 0 0
          (skinvert (mjv_updateSkin two_skin_model bind_data (scene_of 0))) = (1, 1, 1)"
    using skin_bind_pose_identity [of 0 two_skin_model bind_data 0 "scene_of 0",
        OF _ _ bind unit _ _ _ weight later]
    by (simp add: rest) (simp add: two_skin_model_def model0_def)
  with bind weight show ?thesis by simp
qed

theorem skin_partial_weight_counterexample:
  "skin_in_bind_pose half_skin_model bind_data 0
   \<and> skin_vertex half_skin_model 0 0
        (skinvert (mjv_updateSkin half_skin_model bind_data (scene_of 0))) = (1 / 2, 1 / 2, 1 / 2)
   \<and> skin_vertex half_skin_model 0 0 (skin_vert half_skin_model) = (1, 1, 1)
   \<and> skin_vertex half_skin_model 0 0
        (skinvert (mjv_updateSkin half_skin_model bind_data (scene_of 0)))
       \<noteq> skin_vertex half_skin_model 0 0 (skin_vert half_skin_model)"
  by (simp add: skin_in_bind_pose_def skin_bones_def bone_in_bind_pose_def skin_vertex_def
        mjv_updateSkin_def updateSkin_skin_def skin_positions_def skin_bone_def
        skin_accumulate_def bone_rotate_def bone_translate_def clear_range_def
        half_skin_model_def bind_data_def model0_def data0_def scene_of_def upto_small
        at3_def at4_def mju_rotVecMat_def Let_def)

end
